theory Spec2Isabelle
  imports Complex_Main
begin

section \<open>Python values, errors and the Modbus link\<close>

text \<open>
  The driver \<^verbatim>\<open>gripper.py\<close> is one class, \<^verbatim>\<open>Gripper\<close>, whose methods talk
  to the device through a pymodbus client. The model keeps the object's state in a
  record and threads it through every method. Each call on the client is appended to
  a log, so that what was written, read and slept, and in which order, is a value
  that theorems speak about.
\<close>

text \<open>
  A Python float: a finite value, an infinity or a NaN. The sign of a zero is not
  kept: no operation of the driver tells \<^verbatim>\<open>-0.0\<close> from \<^verbatim>\<open>0.0\<close>.
\<close>

datatype pyfloat = Fin rat | PosInf | NegInf | NaN

text \<open>
  The Python values a caller may pass for an argument; \<open>PyObject c\<close> is an object of
  any other class, named \<open>c\<close>.
\<close>

datatype pyval =
    PyInt int
  | PyBool bool
  | PyFloat pyfloat
  | PyStr string
  | PyNone
  | PyObject string

text \<open>
  \<^verbatim>\<open>isinstance(v, int)\<close> holds for an int and for a bool (\<^verbatim>\<open>bool\<close> is a subclass
  of \<^verbatim>\<open>int\<close>); in arithmetic and comparisons \<^verbatim>\<open>True\<close> is 1 and \<^verbatim>\<open>False\<close> is 0.
\<close>

fun isinstance_int :: "pyval \<Rightarrow> bool" where
  "isinstance_int (PyInt i) = True"
| "isinstance_int (PyBool b) = True"
| "isinstance_int v = False"

fun isinstance_str :: "pyval \<Rightarrow> bool" where
  "isinstance_str (PyStr s) = True"
| "isinstance_str v = False"

fun int_of :: "pyval \<Rightarrow> int" where
  "int_of (PyInt i) = i"
| "int_of (PyBool b) = (if b then 1 else 0)"
| "int_of v = 0"

text \<open>
  The exceptions the driver can raise: \<^verbatim>\<open>Exception(msg)\<close> from its own
  \<^verbatim>\<open>raise\<close> statements, \<^verbatim>\<open>NameError\<close> for a name that is not defined, and the
  errors of the built-ins it calls.
\<close>

datatype error =
    PyException string
  | NameError string
  | ValueError
  | IndexError
  | OverflowError
  | ZeroDivisionError
  | StructError

text \<open>
  The type checks of the driver raise
  \<^verbatim>\<open>Exception('... is of type {}'.format(type(target_position)))\<close>. The argument of
  \<^verbatim>\<open>format\<close> is evaluated before the exception is built: the name
  \<^verbatim>\<open>target_position\<close> is looked up among the parameters of the method, then among
  the names that the module binds, and a name that is bound in neither (and is no
  built-in, as this one) raises NameError instead. \<open>type_repr v\<close> is what
  \<^verbatim>\<open>format\<close> prints for \<^verbatim>\<open>type(v)\<close>.
\<close>

fun type_repr :: "pyval \<Rightarrow> string" where
  "type_repr (PyInt i) = ''<class 'int'>''"
| "type_repr (PyBool b) = ''<class 'bool'>''"
| "type_repr (PyFloat x) = ''<class 'float'>''"
| "type_repr (PyStr s) = ''<class 'str'>''"
| "type_repr PyNone = ''<class 'NoneType'>''"
| "type_repr (PyObject c) = ''<class '' @ [CHR 0x27] @ c @ [CHR 0x27] @ ''>''"

definition module_names :: "string list" where
  "module_names = [''ModbusTcpClient'', ''struct'', ''time'', ''Gripper'']"

definition lookup_name :: "(string \<times> pyval) list \<Rightarrow> string \<Rightarrow> error + pyval" where
  "lookup_name params n =
     (case map_of params n of
        Some v \<Rightarrow> Inr v
      | None \<Rightarrow> if n \<in> set module_names then Inr (PyObject n) else Inl (NameError n))"

definition type_check_error :: "string \<Rightarrow> (string \<times> pyval) list \<Rightarrow> string \<Rightarrow> error" where
  "type_check_error message params n =
     (case lookup_name params n of
        Inl e \<Rightarrow> e
      | Inr v \<Rightarrow> PyException (message @ type_repr v))"

text \<open>
  One entry of the log per call on the client or on \<^verbatim>\<open>time.sleep\<close>. A sleep is
  recorded with its duration in milliseconds (0.05 s is 50, 0.1 s is 100, 1 s is 1000).
\<close>

datatype event =
    Connect
  | Close
  | WriteRegister nat int
  | WriteRegisters nat "int list"
  | ReadInputRegisters nat nat "nat list"
  | Sleep nat

text \<open>
  The state of a \<^verbatim>\<open>Gripper\<close> object and of its link. \<open>device k a\<close> is the content
  of input register \<open>a\<close> as the device answers the \<open>k\<close>-th read request; any behaviour
  of a device over time is such a function. \<open>reads\<close> counts the read requests made so
  far, \<open>connects\<close> says whether \<^verbatim>\<open>client.connect()\<close> succeeds, \<open>status\<close> is the
  attribute \<^verbatim>\<open>self.status\<close>. The link is reliable (the spec's assumption): a read
  of \<open>n\<close> registers answers \<open>n\<close> values and no call on the client raises.
\<close>

record gripper =
  device :: "nat \<Rightarrow> nat \<Rightarrow> nat"
  reads :: nat
  connects :: bool
  status :: nat
  log :: "event list"

text \<open>A method: it takes the object and returns a value or an exception, and the object.\<close>

type_synonym 'a io = "gripper \<Rightarrow> (error + 'a) \<times> gripper"

definition io_return :: "'a \<Rightarrow> 'a io" where
  "io_return v g = (Inr v, g)"

definition io_raise :: "error \<Rightarrow> 'a io" where
  "io_raise e g = (Inl e, g)"

definition io_bind :: "'a io \<Rightarrow> ('a \<Rightarrow> 'b io) \<Rightarrow> 'b io" where
  "io_bind m f g = (case m g of (Inl e, g') \<Rightarrow> (Inl e, g') | (Inr v, g') \<Rightarrow> f v g')"

definition io_seq :: "'a io \<Rightarrow> 'b io \<Rightarrow> 'b io" where
  "io_seq m n = io_bind m (\<lambda>_. n)"

definition io_lift :: "error + 'a \<Rightarrow> 'a io" where
  "io_lift r g = (r, g)"

definition emit :: "event \<Rightarrow> unit io" where
  "emit e g = (Inr (), g\<lparr>log := log g @ [e]\<rparr>)"

definition sleep :: "nat \<Rightarrow> unit io" where
  "sleep ms = emit (Sleep ms)"

definition write_register :: "nat \<Rightarrow> int \<Rightarrow> unit io" where
  "write_register a v = emit (WriteRegister a v)"

definition write_registers :: "nat \<Rightarrow> int list \<Rightarrow> unit io" where
  "write_registers a vs = emit (WriteRegisters a vs)"

definition read_input_registers :: "nat \<Rightarrow> nat \<Rightarrow> nat list io" where
  "read_input_registers a n g =
     (let r = map (device g (reads g)) [a ..< a + n]
      in (Inr r, g\<lparr>reads := Suc (reads g), log := log g @ [ReadInputRegisters a n r]\<rparr>))"

text \<open>\<^verbatim>\<open>xs[i]\<close> for \<open>i \<ge> 0\<close>: IndexError out of range.\<close>

definition py_index :: "'a list \<Rightarrow> nat \<Rightarrow> error + 'a" where
  "py_index xs i = (if i < length xs then Inr (xs ! i) else Inl IndexError)"

section \<open>Binary strings\<close>

text \<open>
  The driver decodes registers through strings: \<^verbatim>\<open>bin(value)[2:].zfill(16)\<close> and
  slices of it, read back with \<^verbatim>\<open>int(s, 2)\<close>. \<open>bin_digits n\<close> is \<^verbatim>\<open>bin(n)[2:]\<close>
  for \<open>n \<ge> 0\<close>: the binary digits, most significant first, \<^verbatim>\<open>'0'\<close> for zero.
\<close>

definition digit :: "nat \<Rightarrow> char" where
  "digit d = (if d = 0 then CHR ''0'' else CHR ''1'')"

fun bin_digits :: "nat \<Rightarrow> string" where
  "bin_digits n = (if n < 2 then [digit n] else bin_digits (n div 2) @ [digit (n mod 2)])"

declare bin_digits.simps [simp del]

text \<open>\<^verbatim>\<open>s.zfill(w)\<close> on a string without sign: zeros on the left up to width \<open>w\<close>.\<close>

definition zfill :: "nat \<Rightarrow> string \<Rightarrow> string" where
  "zfill w s = replicate (w - length s) (CHR ''0'') @ s"

text \<open>\<^verbatim>\<open>s[i:j]\<close>, \<^verbatim>\<open>s[:j]\<close> and \<^verbatim>\<open>s[i:]\<close> for indices \<open>\<ge> 0\<close>: slices never raise.\<close>

definition py_slice :: "nat \<Rightarrow> nat \<Rightarrow> 'a list \<Rightarrow> 'a list" where
  "py_slice i j s = take (j - i) (drop i s)"

text \<open>\<^verbatim>\<open>s[i]\<close> on a string is the one-character string at \<open>i\<close>.\<close>

definition str_index :: "string \<Rightarrow> nat \<Rightarrow> error + string" where
  "str_index s i = (if i < length s then Inr [s ! i] else Inl IndexError)"

text \<open>
  \<^verbatim>\<open>int(s, 2)\<close> on a string of binary digits; ValueError on the empty string. The
  driver passes digits only; a string with any other character is ValueError here.
\<close>

fun parse_bin :: "nat \<Rightarrow> string \<Rightarrow> nat option" where
  "parse_bin acc [] = Some acc"
| "parse_bin acc (c # cs) =
     (if c = CHR ''0'' then parse_bin (2 * acc) cs
      else if c = CHR ''1'' then parse_bin (2 * acc + 1) cs
      else None)"

definition py_int2 :: "string \<Rightarrow> error + nat" where
  "py_int2 s = (if s = [] then Inl ValueError
                else case parse_bin 0 s of None \<Rightarrow> Inl ValueError | Some n \<Rightarrow> Inr n)"

section \<open>Decoding the status word\<close>

text \<open>
  The three fields the driver reads from the status word, each as the source computes
  it: the operating status in \<^verbatim>\<open>get_status\<close>, the success bit in \<^verbatim>\<open>success\<close>, the
  process-command bit in \<^verbatim>\<open>wait_process_command\<close>.
\<close>

definition status_field :: "nat \<Rightarrow> error + nat" where
  "status_field v = py_int2 (py_slice 5 8 (zfill 16 (bin_digits v)))"

definition success_field :: "nat \<Rightarrow> error + nat" where
  "success_field v =
     (case str_index (zfill 16 (bin_digits v)) 1 of Inl e \<Rightarrow> Inl e | Inr c \<Rightarrow> py_int2 c)"

definition process_command_field :: "nat \<Rightarrow> error + nat" where
  "process_command_field v =
     (case str_index (zfill 16 (bin_digits v)) 0 of Inl e \<Rightarrow> Inl e | Inr c \<Rightarrow> py_int2 c)"

definition STATUS_ERROR :: nat where "STATUS_ERROR = 0"
definition STATUS_OOS :: nat where "STATUS_OOS = 1"
definition STATUS_MAINTENANCE :: nat where "STATUS_MAINTENANCE = 2"
definition STATUS_READY :: nat where "STATUS_READY = 3"

text \<open>\<^verbatim>\<open>self.client.read_input_registers(0x0001).registers[0]\<close>\<close>

definition read_status_word :: "nat io" where
  "read_status_word = io_bind (read_input_registers 1 1) (\<lambda>r. io_lift (py_index r 0))"

definition set_status :: "nat \<Rightarrow> unit io" where
  "set_status s g = (Inr (), g\<lparr>status := s\<rparr>)"

definition get_status :: "nat io" where
  "get_status =
     io_bind read_status_word (\<lambda>v.
     io_bind (io_lift (status_field v)) (\<lambda>s.
     io_seq (set_status s)
     (io_return s)))"

definition success :: "nat io" where
  "success =
     io_bind read_status_word (\<lambda>v.
     io_lift (success_field v))"

section \<open>The handshakes\<close>

text \<open>A sequence of statements, run in order up to the first exception.\<close>

fun io_block :: "unit io list \<Rightarrow> unit io" where
  "io_block [] = io_return ()"
| "io_block (m # ms) = io_seq m (io_block ms)"

definition timeout :: "int \<Rightarrow> unit io" where
  "timeout v = write_register 0x1120 v"

definition acknowledge :: "unit io" where
  "acknowledge =
     io_block [write_register 0x0801 0x0100, sleep 100, write_register 0x0801 0x8100]"

text \<open>
  \<^verbatim>\<open>handle_errors\<close> calls \<^verbatim>\<open>get_status\<close> for its effect on \<^verbatim>\<open>self.status\<close> and
  branches on that attribute. It has no branch for the values 2 to 7.
\<close>

definition self_status :: "nat io" where
  "self_status g = (Inr (status g), g)"

definition handle_errors :: "unit io" where
  "handle_errors =
     io_seq get_status
     (io_bind self_status (\<lambda>s.
        if s = STATUS_ERROR then io_block [acknowledge, sleep 100]
        else if s = STATUS_OOS then
          io_block [timeout 1, sleep 100, timeout 0, sleep 100, acknowledge, sleep 100]
        else io_return ()))"

definition reference :: "unit io" where
  "reference =
     io_block [handle_errors,
               write_register 0x0801 0x0200, sleep 100, write_register 0x0801 0x8200]"

definition measure_stroke :: "unit io" where
  "measure_stroke =
     io_block [handle_errors,
               write_register 0x0801 0x0700, sleep 100, write_register 0x0801 0x8700]"

definition calibrate :: "unit io" where
  "calibrate =
     io_block [handle_errors,
               write_register 0x0801 0x0900, sleep 100, write_register 0x0801 0x8900]"

definition stop :: "unit io" where
  "stop =
     io_block [handle_errors,
               write_register 0x0801 0x0800, sleep 100, write_register 0x0801 0x8800]"

definition fast_stop :: "unit io" where
  "fast_stop =
     io_bind get_status (\<lambda>s.
     io_block [if s = STATUS_ERROR then acknowledge else io_return (),
               write_register 0x0801 0x0000])"

definition disconnect :: "unit io" where
  "disconnect = emit Close"

text \<open>
  The loop of \<^verbatim>\<open>wait_process_command\<close>: \<open>poll n\<close> is what is left of
  \<^verbatim>\<open>for i in range(1000)\<close> with \<open>n\<close> iterations to go; it answers whether the
  \<^verbatim>\<open>return\<close> inside the loop was taken. The value \<^verbatim>\<open>process_command\<close> is computed
  and not used.
\<close>

primrec poll :: "nat \<Rightarrow> bool io" where
  "poll 0 = io_return False"
| "poll (Suc n) =
     io_bind read_status_word (\<lambda>v.
     io_bind (io_lift (process_command_field v)) (\<lambda>process_command.
       if v > 2 ^ 15 - 1 then io_return True else poll n))"

definition wait_process_command :: "unit io" where
  "wait_process_command =
     io_bind (poll 1000) (\<lambda>returned.
       if returned then io_return ()
       else io_block [timeout 1, sleep 100, timeout 0, sleep 100, acknowledge])"

section \<open>Grip and release\<close>

text \<open>
  A method that may loop forever returns an option: \<open>None\<close> is a call that never
  returns. \<open>pio_bind\<close> runs a method that always returns and then one that may not.
\<close>

type_synonym 'a pio = "gripper \<Rightarrow> ((error + 'a) \<times> gripper) option"

definition pio_bind :: "'a io \<Rightarrow> ('a \<Rightarrow> 'b pio) \<Rightarrow> 'b pio" where
  "pio_bind m f g = (case m g of (Inl e, g') \<Rightarrow> Some (Inl e, g') | (Inr v, g') \<Rightarrow> f v g')"

definition pio_raise :: "error \<Rightarrow> 'a pio" where
  "pio_raise e g = Some (Inl e, g)"

definition pio_of :: "'a io \<Rightarrow> 'a pio" where
  "pio_of m g = Some (m g)"

text \<open>\<^verbatim>\<open>while self.success() != 1: time.sleep(0.05)\<close>\<close>

partial_function (option) wait_success :: "gripper \<Rightarrow> ((error + unit) \<times> gripper) option" where
  "wait_success g =
     (case success g of
        (Inl e, g1) \<Rightarrow> Some (Inl e, g1)
      | (Inr b, g1) \<Rightarrow>
          if b \<noteq> 1 then
            (case sleep 50 g1 of
               (Inl e, g2) \<Rightarrow> Some (Inl e, g2)
             | (Inr u, g2) \<Rightarrow> wait_success g2)
          else Some (Inr (), g1))"

definition grip :: "pyval \<Rightarrow> unit pio" where
  "grip force =
     (if \<not> isinstance_int force then
        pio_raise (type_check_error
          ''Force requires an int, the variable you entered is of type ''
          [(''self'', PyObject ''Gripper''), (''force'', force)]
          ''target_position'')
      else
        pio_bind handle_errors (\<lambda>_.
        if \<not> (1 \<le> int_of force \<and> int_of force \<le> 4) then
          pio_raise (PyException ''Force value out of range (Must be between 1 and 4)'')
        else
          pio_bind
            (io_block [write_registers 0x0801 [0x0400, (4 - int_of force) * 0x0100, 0, 0],
                       sleep 50,
                       write_registers 0x0801 [0x8400, (4 - int_of force) * 0x0100, 0, 0],
                       wait_process_command,
                       sleep 1000])
            (\<lambda>_. wait_success)))"

definition release :: "unit pio" where
  "release =
     pio_bind
       (io_block [handle_errors,
                  write_registers 0x0801 [0x0300, 0, 0, 0],
                  sleep 50,
                  write_registers 0x0801 [0x8300, 0, 0, 0],
                  wait_process_command,
                  sleep 1000])
       (\<lambda>_. wait_success)"

section \<open>Floats\<close>

text \<open>
  The driver computes positions in Python floats (IEEE-754 doubles) and exchanges them
  with the device as IEEE-754 singles, through \<^verbatim>\<open>struct.pack\<close> and
  \<^verbatim>\<open>struct.unpack\<close>. Finite floats are modelled by the rationals they denote, and
  every operation rounds its exact result to the format, to nearest, ties to even.
\<close>

text \<open>\<open>nbits n\<close> is the number of binary digits of \<open>n\<close> (0 for 0).\<close>

fun nbits :: "nat \<Rightarrow> nat" where
  "nbits n = (if n = 0 then 0 else Suc (nbits (n div 2)))"

declare nbits.simps [simp del]

definition pow2 :: "int \<Rightarrow> rat" where
  "pow2 e = (if 0 \<le> e then 2 ^ nat e else 1 / 2 ^ nat (- e))"

text \<open>For \<open>x > 0\<close>, the exponent \<open>e\<close> with \<open>2\<^sup>e \<le> x < 2\<^sup>e\<^sup>+\<^sup>1\<close>.\<close>

definition floor_log2 :: "rat \<Rightarrow> int" where
  "floor_log2 x =
     (if 1 \<le> x then int (nbits (nat \<lfloor>x\<rfloor>)) - 1
      else - int (nbits (nat (\<lceil>1 / x\<rceil> - 1))))"

text \<open>The nearest integer, the even one of two that are equally near.\<close>

definition round_even_from :: "int \<Rightarrow> rat \<Rightarrow> int" where
  "round_even_from n q =
     (if q - of_int n < 1 / 2 then n else if 1 / 2 < q - of_int n then n + 1
      else if even n then n else n + 1)"

definition round_even :: "rat \<Rightarrow> int" where
  "round_even q = round_even_from \<lfloor>q\<rfloor> q"

text \<open>
  Rounding to a binary format with \<open>p\<close> bits of precision and least normal exponent
  \<open>emin\<close>: the result is a multiple of the unit in the last place at the exponent of
  \<open>x\<close>, or at \<open>emin\<close> for a subnormal. The exponent is not bounded above here; the
  callers test for overflow.
\<close>

definition round_to_ulp :: "rat \<Rightarrow> rat \<Rightarrow> rat" where
  "round_to_ulp ulp x = sgn x * of_int (round_even (\<bar>x\<bar> / ulp)) * ulp"

definition fl_round :: "nat \<Rightarrow> int \<Rightarrow> rat \<Rightarrow> rat" where
  "fl_round p emin x =
     (if x = 0 then 0
      else round_to_ulp (pow2 (max (floor_log2 \<bar>x\<bar>) emin - int p + 1)) x)"

text \<open>The double nearest to an exact result; past the largest double it is an infinity.\<close>

definition double_of_rounded :: "rat \<Rightarrow> pyfloat" where
  "double_of_rounded r =
     (if pow2 1024 \<le> \<bar>r\<bar> then (if 0 < r then PosInf else NegInf) else Fin r)"

definition to_double :: "rat \<Rightarrow> pyfloat" where
  "to_double x = double_of_rounded (fl_round 53 (- 1022) x)"

text \<open>\<^verbatim>\<open>float(i)\<close>, as in the conversion of an int operand: OverflowError past the doubles.\<close>

definition float_of_int :: "int \<Rightarrow> error + pyfloat" where
  "float_of_int i =
     (case to_double (of_int i) of Fin r \<Rightarrow> Inr (Fin r) | _ \<Rightarrow> Inl OverflowError)"

text \<open>\<^verbatim>\<open>x - y\<close>, \<^verbatim>\<open>x * y\<close> and \<^verbatim>\<open>x / y\<close> on floats.\<close>

fun float_sub :: "pyfloat \<Rightarrow> pyfloat \<Rightarrow> pyfloat" where
  "float_sub NaN y = NaN"
| "float_sub x NaN = NaN"
| "float_sub (Fin a) (Fin b) = to_double (a - b)"
| "float_sub (Fin a) PosInf = NegInf"
| "float_sub (Fin a) NegInf = PosInf"
| "float_sub PosInf PosInf = NaN"
| "float_sub PosInf y = PosInf"
| "float_sub NegInf NegInf = NaN"
| "float_sub NegInf y = NegInf"

definition float_neg :: "pyfloat \<Rightarrow> pyfloat" where
  "float_neg x = (case x of Fin a \<Rightarrow> Fin (- a) | PosInf \<Rightarrow> NegInf | NegInf \<Rightarrow> PosInf | NaN \<Rightarrow> NaN)"

definition signed_inf :: "rat \<Rightarrow> pyfloat" where
  "signed_inf a = (if a = 0 then NaN else if 0 < a then PosInf else NegInf)"

fun float_mul :: "pyfloat \<Rightarrow> pyfloat \<Rightarrow> pyfloat" where
  "float_mul NaN y = NaN"
| "float_mul x NaN = NaN"
| "float_mul (Fin a) (Fin b) = to_double (a * b)"
| "float_mul (Fin a) PosInf = signed_inf a"
| "float_mul (Fin a) NegInf = signed_inf (- a)"
| "float_mul PosInf (Fin b) = signed_inf b"
| "float_mul NegInf (Fin b) = signed_inf (- b)"
| "float_mul PosInf PosInf = PosInf"
| "float_mul PosInf NegInf = NegInf"
| "float_mul NegInf PosInf = NegInf"
| "float_mul NegInf NegInf = PosInf"

fun float_div :: "pyfloat \<Rightarrow> pyfloat \<Rightarrow> error + pyfloat" where
  "float_div x (Fin b) =
     (if b = 0 then Inl ZeroDivisionError
      else case x of
             Fin a \<Rightarrow> Inr (to_double (a / b))
           | PosInf \<Rightarrow> Inr (signed_inf b)
           | NegInf \<Rightarrow> Inr (signed_inf (- b))
           | NaN \<Rightarrow> Inr NaN)"
| "float_div NaN y = Inr NaN"
| "float_div x NaN = Inr NaN"
| "float_div (Fin a) y = Inr (Fin 0)"
| "float_div x y = Inr NaN"

text \<open>\<^verbatim>\<open>int(x)\<close> on a float truncates toward zero; it raises on an infinity and on a NaN.\<close>

definition int_of_float :: "pyfloat \<Rightarrow> error + int" where
  "int_of_float x =
     (case x of
        Fin r \<Rightarrow> Inr (if 0 \<le> r then \<lfloor>r\<rfloor> else \<lceil>r\<rceil>)
      | PosInf \<Rightarrow> Inl OverflowError
      | NegInf \<Rightarrow> Inl OverflowError
      | NaN \<Rightarrow> Inl ValueError)"

text \<open>The 32 bits of a value that a single holds exactly.\<close>

definition single_fields :: "int \<Rightarrow> rat \<Rightarrow> nat" where
  "single_fields e a =
     (if e < - 126 then nat \<lfloor>a / pow2 (- 149)\<rfloor>
      else nat (e + 127) * 2 ^ 23 + (nat \<lfloor>a / pow2 (e - 23)\<rfloor> - 2 ^ 23))"

definition single_bits :: "rat \<Rightarrow> nat" where
  "single_bits r =
     (if r < 0 then 2 ^ 31 else 0)
       + (if r = 0 then 0 else single_fields (floor_log2 \<bar>r\<bar>) \<bar>r\<bar>)"

text \<open>
  \<^verbatim>\<open>struct.unpack('!I', struct.pack('!f', x))[0]\<close>: the float is rounded to a single,
  OverflowError when a finite float rounds past the largest single.
\<close>

definition pack_rounded :: "rat \<Rightarrow> error + nat" where
  "pack_rounded r = (if pow2 128 \<le> \<bar>r\<bar> then Inl OverflowError else Inr (single_bits r))"

definition pack_f_unpack_I :: "pyfloat \<Rightarrow> error + nat" where
  "pack_f_unpack_I x =
     (case x of
        Fin a \<Rightarrow> pack_rounded (fl_round 24 (- 126) a)
      | PosInf \<Rightarrow> Inr 0x7F800000
      | NegInf \<Rightarrow> Inr 0xFF800000
      | NaN \<Rightarrow> Inr 0x7FC00000)"

text \<open>
  \<^verbatim>\<open>struct.unpack('!f', struct.pack('!I', n))[0]\<close>: \<^verbatim>\<open>struct.error\<close> when \<open>n\<close> does
  not fit 32 bits; else the single with these bits, which a double holds exactly.
\<close>

definition single_of_fields :: "nat \<Rightarrow> nat \<Rightarrow> nat \<Rightarrow> pyfloat" where
  "single_of_fields s ex m =
     (if ex = 255 then (if m \<noteq> 0 then NaN else if s = 0 then PosInf else NegInf)
      else Fin ((if s = 0 then 1 else - 1) *
                (if ex = 0 then of_nat m * pow2 (- 149)
                 else of_nat (2 ^ 23 + m) * pow2 (int ex - 150))))"

definition pack_I_unpack_f :: "nat \<Rightarrow> error + pyfloat" where
  "pack_I_unpack_f n =
     (if 2 ^ 32 \<le> n then Inl StructError
      else Inr (single_of_fields (n div 2 ^ 31) ((n div 2 ^ 23) mod 256) (n mod 2 ^ 23)))"

section \<open>Positions\<close>

definition POSITION_MAX :: pyfloat where
  "POSITION_MAX = Fin (40683074951171875 / 1000000000000000)"

text \<open>\<^verbatim>\<open>((100 - target_position) / 100.) * self.POSITION_MAX\<close>\<close>

definition position_mm_of :: "int \<Rightarrow> error + pyfloat" where
  "position_mm_of target_position =
     (case float_of_int (100 - target_position) of
        Inl e \<Rightarrow> Inl e
      | Inr a \<Rightarrow>
          (case float_div a (Fin 100) of
             Inl e \<Rightarrow> Inl e
           | Inr b \<Rightarrow> Inr (float_mul b POSITION_MAX)))"

text \<open>
  \<^verbatim>\<open>format(struct.unpack('!I', struct.pack('!f', position_mm))[0], '032b')\<close>, and the
  two words \<^verbatim>\<open>int(position_bin[:16], 2)\<close> and \<^verbatim>\<open>int(position_bin[16:], 2)\<close>.
\<close>

definition position_bin_of :: "pyfloat \<Rightarrow> error + string" where
  "position_bin_of position_mm =
     (case pack_f_unpack_I position_mm of
        Inl e \<Rightarrow> Inl e
      | Inr n \<Rightarrow> Inr (zfill 32 (bin_digits n)))"

definition position_words :: "string \<Rightarrow> error + nat \<times> nat" where
  "position_words position_bin =
     (case py_int2 (take 16 position_bin) of
        Inl e \<Rightarrow> Inl e
      | Inr hi \<Rightarrow>
          (case py_int2 (drop 16 position_bin) of
             Inl e \<Rightarrow> Inl e
           | Inr lo \<Rightarrow> Inr (hi, lo)))"

text \<open>
  The two float words of the move payload, from the target in percent: the lines of
  \<^verbatim>\<open>set_position\<close> between its delegations and its first write.
\<close>

definition encoded_position :: "int \<Rightarrow> error + nat \<times> nat" where
  "encoded_position target_position =
     (case position_mm_of target_position of
        Inl e \<Rightarrow> Inl e
      | Inr position_mm \<Rightarrow>
          (case position_bin_of position_mm of
             Inl e \<Rightarrow> Inl e
           | Inr position_bin \<Rightarrow> position_words position_bin))"

text \<open>The part of \<^verbatim>\<open>set_position\<close> after its range check and its two delegations.\<close>

definition move_to :: "int \<Rightarrow> unit io" where
  "move_to target_position =
     io_bind (io_lift (encoded_position target_position)) (\<lambda>(hi, lo).
     io_block [write_registers 0x0801 [0x0500, 0, int hi, int lo],
               sleep 50,
               write_registers 0x0801 [0x8500, 0, int hi, int lo],
               wait_process_command])"

definition set_position :: "pyval \<Rightarrow> unit pio" where
  "set_position target_position =
     (if \<not> isinstance_int target_position then
        pio_raise (type_check_error
          ''Target position requires an int, the variable you entered is of type ''
          [(''self'', PyObject ''Gripper''), (''target_position'', target_position)]
          ''target_position'')
      else
        pio_bind handle_errors (\<lambda>_.
        if \<not> (0 \<le> int_of target_position \<and> int_of target_position \<le> 100) then
          pio_raise (PyException ''Target position value out of range (between 0 and 100)'')
        else if int_of target_position < 3 then grip (PyInt 4)
        else if int_of target_position > 97 then release
        else pio_of (move_to (int_of target_position))))"

text \<open>
  The percentage that \<^verbatim>\<open>get_position\<close> computes from the two registers it has read:
  through strings to the 32 bits, to the float, to
  \<^verbatim>\<open>int(((self.POSITION_MAX - position_mm) / self.POSITION_MAX) * 100)\<close>.
\<close>

definition decoded_position :: "nat \<Rightarrow> nat \<Rightarrow> error + int" where
  "decoded_position r0 r1 =
     (case py_int2 (zfill 16 (bin_digits r0) @ zfill 16 (bin_digits r1)) of
        Inl e \<Rightarrow> Inl e
      | Inr n \<Rightarrow>
          (case pack_I_unpack_f n of
             Inl e \<Rightarrow> Inl e
           | Inr position_mm \<Rightarrow>
               (case float_div (float_sub POSITION_MAX position_mm) POSITION_MAX of
                  Inl e \<Rightarrow> Inl e
                | Inr q \<Rightarrow> int_of_float (float_mul q (Fin 100)))))"

definition get_position :: "int io" where
  "get_position =
     io_bind (read_input_registers 0x0003 2) (\<lambda>registers.
     io_bind (io_lift (py_index registers 0)) (\<lambda>r0.
     io_bind (io_lift (py_index registers 1)) (\<lambda>r1.
     io_lift (decoded_position r0 r1))))"

section \<open>The constructor\<close>

definition connect :: "bool io" where
  "connect g = (Inr (connects g), g\<lparr>log := log g @ [Connect]\<rparr>)"

definition init :: "pyval \<Rightarrow> unit io" where
  "init ip_adress =
     (if \<not> isinstance_str ip_adress then
        io_raise (type_check_error
          ''ip_adress requires a string, the variable you entered is of type ''
          [(''self'', PyObject ''Gripper''), (''ip_adress'', ip_adress)]
          ''target_position'')
      else
        io_bind connect (\<lambda>connected.
        if \<not> connected then
          io_raise (PyException ''Connection to the gripper failed: incorrect IP-adress'')
        else
          io_block [io_seq get_status (io_return ()),
                    timeout 0, sleep 100, acknowledge, sleep 100, reference]))"

section \<open>Notions used in the proofs\<close>

text \<open>The \<open>k\<close> low binary digits of \<open>n\<close>, most significant first.\<close>

primrec be_digits :: "nat \<Rightarrow> nat \<Rightarrow> string" where
  "be_digits 0 n = []"
| "be_digits (Suc k) n = be_digits k (n div 2) @ [digit (n mod 2)]"

text \<open>A string of binary digits.\<close>

definition binary :: "string \<Rightarrow> bool" where
  "binary s = (\<forall>c \<in> set s. c = CHR ''0'' \<or> c = CHR ''1'')"

text \<open>
  The log of \<open>n\<close> reads of the status word in a row, the first of them the \<open>r\<close>-th read
  request to the device \<open>d\<close>.
\<close>

definition status_reads :: "(nat \<Rightarrow> nat \<Rightarrow> nat) \<Rightarrow> nat \<Rightarrow> nat \<Rightarrow> event list" where
  "status_reads d r n = map (\<lambda>i. ReadInputRegisters 1 1 [d (r + i) 1]) [0 ..< n]"

text \<open>
  The log of \<open>k\<close> polls of the success bit, each followed by the sleep of 50 ms that
  \<^verbatim>\<open>grip\<close> and \<^verbatim>\<open>release\<close> make after a poll that fails.
\<close>

definition success_polls :: "(nat \<Rightarrow> nat \<Rightarrow> nat) \<Rightarrow> nat \<Rightarrow> nat \<Rightarrow> event list" where
  "success_polls d r k =
     concat (map (\<lambda>i. [ReadInputRegisters 1 1 [d (r + i) 1], Sleep 50]) [0 ..< k])"

text \<open>What \<^verbatim>\<open>handle_errors\<close> logs after its status read, by the status it has read.\<close>

definition recovery_events :: "nat \<Rightarrow> event list" where
  "recovery_events s =
     (if s = STATUS_ERROR then
        [WriteRegister 0x0801 0x0100, Sleep 100, WriteRegister 0x0801 0x8100, Sleep 100]
      else if s = STATUS_OOS then
        [WriteRegister 0x1120 1, Sleep 100, WriteRegister 0x1120 0, Sleep 100,
         WriteRegister 0x0801 0x0100, Sleep 100, WriteRegister 0x0801 0x8100, Sleep 100]
      else [])"

text \<open>A gripper object that has made no call yet, on the device \<open>d\<close>.\<close>

definition fresh :: "(nat \<Rightarrow> nat \<Rightarrow> nat) \<Rightarrow> gripper" where
  "fresh d = \<lparr>device = d, reads = 0, connects = True, status = 0, log = []\<rparr>"

text \<open>
  The round trip of a percentage: the float position, its 32 bits as a single, and the
  percentage decoded from the two words of these bits, at most 1 away.
\<close>

definition round_trip_within :: "int \<Rightarrow> bool" where
  "round_trip_within t =
     (\<exists>mm n p. position_mm_of t = Inr mm \<and> pack_f_unpack_I mm = Inr n \<and> n < 2 ^ 32
        \<and> decoded_position (n div 2 ^ 16) (n mod 2 ^ 16) = Inr p \<and> \<bar>p - t\<bar> \<le> 1)"

text \<open>
  The seven events of the soft reset that \<^verbatim>\<open>wait_process_command\<close> makes when no
  read has accepted: \<^verbatim>\<open>timeout(1)\<close>, a sleep, \<^verbatim>\<open>timeout(0)\<close>, a sleep, and
  \<^verbatim>\<open>acknowledge()\<close>.
\<close>

definition soft_reset_events :: "event list" where
  "soft_reset_events =
     [WriteRegister 0x1120 1, Sleep 100, WriteRegister 0x1120 0, Sleep 100,
      WriteRegister 0x0801 0x0100, Sleep 100, WriteRegister 0x0801 0x8100]"

text \<open>
  The object after each step of a command, as an update of the object before it:
  after \<^verbatim>\<open>handle_errors\<close> has read the status \<open>s\<close>; after the arm payload, the sleep
  of 50 ms and the execute payload; after \<open>n\<close> reads of the status word by
  \<^verbatim>\<open>wait_process_command\<close>, followed by the events \<open>es\<close>; after a sleep; and after
  \<open>j\<close> polls of the success bit that fail and one that succeeds.
\<close>

definition after_check :: "nat \<Rightarrow> gripper \<Rightarrow> gripper" where
  "after_check s g =
     g\<lparr>reads := Suc (reads g), status := s,
       log := log g @ ReadInputRegisters 1 1 [device g (reads g) 1] # recovery_events s\<rparr>"

definition after_command :: "int list \<Rightarrow> int list \<Rightarrow> gripper \<Rightarrow> gripper" where
  "after_command arm exec g =
     g\<lparr>log := log g @ [WriteRegisters 0x0801 arm, Sleep 50, WriteRegisters 0x0801 exec]\<rparr>"

definition after_polls :: "nat \<Rightarrow> event list \<Rightarrow> gripper \<Rightarrow> gripper" where
  "after_polls n es g =
     g\<lparr>reads := reads g + n,
       log := log g @ status_reads (device g) (reads g) n @ es\<rparr>"

definition after_sleep :: "nat \<Rightarrow> gripper \<Rightarrow> gripper" where
  "after_sleep ms g = g\<lparr>log := log g @ [Sleep ms]\<rparr>"

definition after_success :: "nat \<Rightarrow> gripper \<Rightarrow> gripper" where
  "after_success j g =
     g\<lparr>reads := reads g + Suc j,
       log := log g @ success_polls (device g) (reads g) j @
         [ReadInputRegisters 1 1 [device g (reads g + j) 1]]\<rparr>"

text \<open>
  The two words of the move payload for every target from 0 to 100, the high 16 bits
  and the low 16 bits of the single: entry \<open>t\<close> is what \<^verbatim>\<open>set_position(t)\<close> computes.
\<close>

definition position_words_table :: "(nat \<times> nat) list" where
  "position_words_table =
     [(0x4222, 0xBB78), (0x4221, 0x1AE0), (0x421F, 0x7A48), (0x421D, 0xD9AF), (0x421C, 0x3917),
      (0x421A, 0x987F), (0x4218, 0xF7E7), (0x4217, 0x574E), (0x4215, 0xB6B6), (0x4214, 0x161E),
      (0x4212, 0x7586), (0x4210, 0xD4ED), (0x420F, 0x3455), (0x420D, 0x93BD), (0x420B, 0xF325),
      (0x420A, 0x528C), (0x4208, 0xB1F4), (0x4207, 0x115C), (0x4205, 0x70C4), (0x4203, 0xD02B),
      (0x4202, 0x2F93), (0x4200, 0x8EFB), (0x41FD, 0xDCC5), (0x41FA, 0x9B95), (0x41F7, 0x5A64),
      (0x41F4, 0x1934), (0x41F0, 0xD804), (0x41ED, 0x96D3), (0x41EA, 0x55A3), (0x41E7, 0x1472),
      (0x41E3, 0xD342), (0x41E0, 0x9211), (0x41DD, 0x50E1), (0x41DA, 0x0FB0), (0x41D6, 0xCE80),
      (0x41D3, 0x8D4F), (0x41D0, 0x4C1F), (0x41CD, 0x0AEE), (0x41C9, 0xC9BE), (0x41C6, 0x888D),
      (0x41C3, 0x475D), (0x41C0, 0x062C), (0x41BC, 0xC4FC), (0x41B9, 0x83CB), (0x41B6, 0x429B),
      (0x41B3, 0x016A), (0x41AF, 0xC03A), (0x41AC, 0x7F09), (0x41A9, 0x3DD9), (0x41A5, 0xFCA8),
      (0x41A2, 0xBB78), (0x419F, 0x7A48), (0x419C, 0x3917), (0x4198, 0xF7E7), (0x4195, 0xB6B6),
      (0x4192, 0x7586), (0x418F, 0x3455), (0x418B, 0xF325), (0x4188, 0xB1F4), (0x4185, 0x70C4),
      (0x4182, 0x2F93), (0x417D, 0xDCC5), (0x4177, 0x5A64), (0x4170, 0xD804), (0x416A, 0x55A3),
      (0x4163, 0xD342), (0x415D, 0x50E1), (0x4156, 0xCE80), (0x4150, 0x4C1F), (0x4149, 0xC9BE),
      (0x4143, 0x475D), (0x413C, 0xC4FC), (0x4136, 0x429B), (0x412F, 0xC03A), (0x4129, 0x3DD9),
      (0x4122, 0xBB78), (0x411C, 0x3917), (0x4115, 0xB6B6), (0x410F, 0x3455), (0x4108, 0xB1F4),
      (0x4102, 0x2F93), (0x40F7, 0x5A64), (0x40EA, 0x55A3), (0x40DD, 0x50E1), (0x40D0, 0x4C1F),
      (0x40C3, 0x475D), (0x40B6, 0x429B), (0x40A9, 0x3DD9), (0x409C, 0x3917), (0x408F, 0x3455),
      (0x4082, 0x2F93), (0x406A, 0x55A3), (0x4050, 0x4C1F), (0x4036, 0x429B), (0x401C, 0x3917),
      (0x4002, 0x2F93), (0x3FD0, 0x4C1F), (0x3F9C, 0x3917), (0x3F50, 0x4C1F), (0x3ED0, 0x4C1F),
      (0x0000, 0x0000)]"

text \<open>
  The value of the positive normal single whose 32 bits are \<open>n\<close> (exponent field
  \<open>n div 2\<^sup>2\<^sup>3\<close>, fraction field \<open>n mod 2\<^sup>2\<^sup>3\<close>), and half the distance from it to the
  next single.
\<close>

definition single_value :: "nat \<Rightarrow> rat" where
  "single_value n = of_nat (2 ^ 23 + n mod 2 ^ 23) * 2 ^ (n div 2 ^ 23) / 2 ^ 150"

definition single_half_ulp :: "nat \<Rightarrow> rat" where
  "single_half_ulp n = 2 ^ (n div 2 ^ 23) / 2 ^ 151"

text \<open>
  The table at \<open>t\<close>: its entry is the two halves of the 32 bits that the code packs,
  and, for a target that is moved to, these bits are the single nearest to the exact
  product \<open>(100 - t) / 100 \<times> 40.683074951171875\<close>.
\<close>

definition move_words_within :: "int \<Rightarrow> bool" where
  "move_words_within t =
     (\<exists>mm n. position_mm_of t = Inr mm \<and> pack_f_unpack_I mm = Inr n \<and> n < 2 ^ 32
        \<and> position_words_table ! nat t = (n div 2 ^ 16, n mod 2 ^ 16)
        \<and> (3 \<le> t \<and> t \<le> 97 \<longrightarrow>
             \<bar>single_value n - of_int (100 - t) / 100 * (40683074951171875 / 1000000000000000)\<bar>
               \<le> single_half_ulp n))"

section \<open>Binary strings and bits\<close>

text \<open>
  For a value that fits \<open>k\<close> bits, \<^verbatim>\<open>bin(n)[2:].zfill(k)\<close> is its \<open>k\<close> binary digits, and
  \<^verbatim>\<open>int(s, 2)\<close> reads them back.
\<close>

lemma length_be_digits [simp]: "length (be_digits k n) = k"
  by (induction k arbitrary: n) simp_all

lemma be_digits_zero: "be_digits k 0 = replicate k (CHR ''0'')"
  by (induction k) (simp_all add: digit_def replicate_append_same)

lemma length_bin_digits_le: "n < 2 ^ k \<Longrightarrow> 0 < k \<Longrightarrow> length (bin_digits n) \<le> k"
proof (induction k arbitrary: n)
  case 0
  then show ?case by simp
next
  case (Suc k)
  show ?case
  proof (cases "n < 2")
    case True
    then show ?thesis by (simp add: bin_digits.simps [of n])
  next
    case False
    with Suc.prems have k: "0 < k" by (cases k) auto
    from Suc.prems have "n div 2 < 2 ^ k" by auto
    from Suc.IH [OF this k] False show ?thesis by (simp add: bin_digits.simps [of n])
  qed
qed

lemma zfill_bin_digits: "n < 2 ^ k \<Longrightarrow> 0 < k \<Longrightarrow> zfill k (bin_digits n) = be_digits k n"
proof (induction k arbitrary: n)
  case 0
  then show ?case by simp
next
  case (Suc k)
  show ?case
  proof (cases "n < 2")
    case True
    then have "n div 2 = 0" "n mod 2 = n" by auto
    with True show ?thesis
      by (simp add: bin_digits.simps [of n] zfill_def be_digits_zero)
  next
    case False
    with Suc.prems have k: "0 < k" by (cases k) auto
    from Suc.prems have lt: "n div 2 < 2 ^ k" by auto
    have len: "length (bin_digits (n div 2)) \<le> k" by (rule length_bin_digits_le [OF lt k])
    have "zfill (Suc k) (bin_digits n) = zfill k (bin_digits (n div 2)) @ [digit (n mod 2)]"
      using False len by (simp add: bin_digits.simps [of n] zfill_def Suc_diff_le)
    with Suc.IH [OF lt k] show ?thesis by simp
  qed
qed

lemma parse_bin_append:
  "parse_bin acc (xs @ ys) = (case parse_bin acc xs of None \<Rightarrow> None | Some a \<Rightarrow> parse_bin a ys)"
  by (induction xs arbitrary: acc) simp_all

lemma parse_bin_digit: "parse_bin acc [digit d] = Some (2 * acc + (if d = 0 then 0 else 1))"
  by (simp add: digit_def)

lemma parse_bin_be_digits: "parse_bin acc (be_digits k n) = Some (acc * 2 ^ k + n mod 2 ^ k)"
proof (induction k arbitrary: n acc)
  case 0
  then show ?case by simp
next
  case (Suc k)
  have "n mod 2 ^ Suc k = 2 * (n div 2 mod 2 ^ k) + n mod 2"
    by (simp add: mod_mult2_eq)
  then show ?case
    by (cases "n mod 2 = 0") (simp_all add: parse_bin_append Suc.IH digit_def algebra_simps)
qed

lemma be_digits_add: "be_digits (j + k) n = be_digits j (n div 2 ^ k) @ be_digits k n"
proof (induction k arbitrary: n)
  case 0
  then show ?case by simp
next
  case (Suc k)
  have "n div 2 div 2 ^ k = n div 2 ^ Suc k"
    by (simp add: div_mult2_eq)
  then show ?case using Suc.IH [of "n div 2"] by simp
qed

lemma py_int2_be_digits: "0 < k \<Longrightarrow> py_int2 (be_digits k n) = Inr (n mod 2 ^ k)"
  by (cases k) (simp_all add: py_int2_def parse_bin_be_digits del: be_digits.simps, simp)

lemma bin_digits_ne: "bin_digits n \<noteq> []"
  by (cases "n < 2") (simp_all add: bin_digits.simps [of n])

lemma binary_bin_digits: "binary (bin_digits n)"
proof (induction n rule: bin_digits.induct)
  case (1 n)
  show ?case
  proof (cases "n < 2")
    case True
    then show ?thesis by (simp add: bin_digits.simps [of n] binary_def digit_def)
  next
    case False
    with 1 have "binary (bin_digits (n div 2))" by simp
    with False show ?thesis by (simp add: bin_digits.simps [of n] binary_def digit_def)
  qed
qed

lemma binary_append: "binary (xs @ ys) = (binary xs \<and> binary ys)"
  unfolding binary_def by auto

lemma binary_replicate: "binary (replicate k (CHR ''0''))"
  unfolding binary_def by simp

lemma binary_zfill: "binary s \<Longrightarrow> binary (zfill w s)"
  by (simp add: zfill_def binary_append binary_replicate)

lemma length_zfill: "w \<le> length (zfill w s)"
  by (simp add: zfill_def)

lemma parse_bin_binary: "binary s \<Longrightarrow> \<exists>n. parse_bin acc s = Some n"
  by (induction s arbitrary: acc) (auto simp: binary_def)

lemma py_int2_binary: "binary s \<Longrightarrow> s \<noteq> [] \<Longrightarrow> \<exists>n. py_int2 s = Inr n"
  using parse_bin_binary [of s 0] by (auto simp: py_int2_def)

lemma binary_take: "binary s \<Longrightarrow> binary (take n s)"
  by (auto simp: binary_def dest: in_set_takeD)

lemma binary_drop: "binary s \<Longrightarrow> binary (drop n s)"
  by (auto simp: binary_def dest: in_set_dropD)

lemma status_field_total: "\<exists>s. status_field v = Inr s"
proof -
  let ?s = "zfill 16 (bin_digits v)"
  have b: "binary ?s" by (simp add: binary_zfill binary_bin_digits)
  have l: "16 \<le> length ?s" by (rule length_zfill)
  have "binary (py_slice 5 8 ?s)" by (simp add: py_slice_def binary_take binary_drop b)
  moreover have "length (py_slice 5 8 ?s) = min (length ?s - 5) 3"
    by (simp add: py_slice_def)
  with l have "length (py_slice 5 8 ?s) = 3" by simp
  then have "py_slice 5 8 ?s \<noteq> []" by auto
  ultimately show ?thesis unfolding status_field_def by (rule py_int2_binary)
qed

lemma str_index_binary:
  assumes "binary s" "i < length s"
  shows "\<exists>n. (case str_index s i of Inl e \<Rightarrow> Inl e | Inr c \<Rightarrow> py_int2 c) = Inr n"
proof -
  from assms have "binary [s ! i]" by (simp add: binary_def)
  then have "\<exists>n. py_int2 [s ! i] = Inr n" by (rule py_int2_binary) simp
  with assms show ?thesis by (simp add: str_index_def)
qed

lemma success_field_total: "\<exists>b. success_field v = Inr b"
proof -
  let ?s = "zfill 16 (bin_digits v)"
  have b: "binary ?s" by (simp add: binary_zfill binary_bin_digits)
  have "16 \<le> length ?s" by (rule length_zfill)
  then have "1 < length ?s" by simp
  with b show ?thesis unfolding success_field_def by (rule str_index_binary)
qed

lemma process_command_field_total: "\<exists>b. process_command_field v = Inr b"
proof -
  let ?s = "zfill 16 (bin_digits v)"
  have b: "binary ?s" by (simp add: binary_zfill binary_bin_digits)
  have "16 \<le> length ?s" by (rule length_zfill)
  then have "0 < length ?s" by linarith
  with b show ?thesis unfolding process_command_field_def by (rule str_index_binary)
qed

lemma be_digits_16_split:
  "be_digits 16 v = be_digits 5 (v div 2 ^ 11) @ be_digits 3 (v div 2 ^ 8) @ be_digits 8 v"
proof -
  have a: "be_digits (5 + 11) v = be_digits 5 (v div 2 ^ 11) @ be_digits 11 v"
    by (rule be_digits_add)
  have b: "be_digits (3 + 8) v = be_digits 3 (v div 2 ^ 8) @ be_digits 8 v"
    by (rule be_digits_add)
  from a b show ?thesis by simp
qed

lemma status_field_bits:
  assumes "v < 2 ^ 16"
  shows "status_field v = Inr (v div 2 ^ 8 mod 2 ^ 3)"
proof -
  have "zfill 16 (bin_digits v) = be_digits 16 v"
    using assms by (simp add: zfill_bin_digits)
  then have "py_slice 5 8 (zfill 16 (bin_digits v)) = be_digits 3 (v div 2 ^ 8)"
    by (simp add: py_slice_def be_digits_16_split del: be_digits.simps)
  then show ?thesis
    by (simp add: status_field_def py_int2_be_digits del: be_digits.simps)
qed

lemma be_digits_16_head:
  "be_digits 16 v = be_digits 1 (v div 2 ^ 15) @ be_digits 1 (v div 2 ^ 14) @ be_digits 14 v"
proof -
  have a: "be_digits (1 + 15) v = be_digits 1 (v div 2 ^ 15) @ be_digits 15 v"
    by (rule be_digits_add)
  have b: "be_digits (1 + 14) v = be_digits 1 (v div 2 ^ 14) @ be_digits 14 v"
    by (rule be_digits_add)
  from a b show ?thesis by simp
qed

lemma be_digits_1: "be_digits (Suc 0) n = [digit (n mod 2)]"
  by simp

lemma py_int2_digit: "py_int2 [digit (n mod 2)] = Inr (n mod 2)"
  by (cases "n mod 2 = 0") (simp_all add: py_int2_def digit_def)

lemma success_field_bits:
  assumes "v < 2 ^ 16"
  shows "success_field v = Inr (v div 2 ^ 14 mod 2)"
proof -
  have "zfill 16 (bin_digits v) = be_digits 16 v"
    using assms by (simp add: zfill_bin_digits)
  then have "str_index (zfill 16 (bin_digits v)) 1 = Inr [digit (v div 2 ^ 14 mod 2)]"
    by (simp add: str_index_def be_digits_16_head be_digits_1 del: be_digits.simps)
  then show ?thesis
    by (simp add: success_field_def py_int2_digit)
qed

lemma process_command_field_bits:
  assumes "v < 2 ^ 16"
  shows "process_command_field v = Inr (v div 2 ^ 15)"
proof -
  have z: "zfill 16 (bin_digits v) = be_digits 16 v"
    using assms by (simp add: zfill_bin_digits)
  have idx: "str_index (zfill 16 (bin_digits v)) 0 = Inr [digit (v div 2 ^ 15 mod 2)]"
    unfolding z by (simp add: str_index_def be_digits_16_head be_digits_1 del: be_digits.simps)
  from assms have "v div 2 ^ 15 < 2" by (simp add: less_mult_imp_div_less)
  then have m: "v div 2 ^ 15 mod 2 = v div 2 ^ 15" by simp
  have "process_command_field v = py_int2 [digit (v div 2 ^ 15 mod 2)]"
    by (simp only: process_command_field_def idx sum.case)
  also have "\<dots> = Inr (v div 2 ^ 15 mod 2)" by (rule py_int2_digit)
  finally show ?thesis by (simp only: m)
qed

lemma replicate_numeral: "replicate (numeral k) x = x # replicate (pred_numeral k) x"
  by (simp add: numeral_eq_Suc)

lemma bin_digits_0060: "bin_digits 0x0060 = ''1100000''"
  by (simp add: bin_digits.simps digit_def)

lemma bin_digits_0300: "bin_digits 0x0300 = ''1100000000''"
  by (simp add: bin_digits.simps digit_def)

section \<open>The status word\<close>

text \<open>
  C2, as stated: decoding the status word \<^verbatim>\<open>0b0000000001100000\<close> yields operating
  status Ready, processCommand 0 and success 0. The code does not do so. Characters
  \<^verbatim>\<open>[5:8]\<close> of the 16-character string are counted from the most significant bit;
  the two bits set in \<^verbatim>\<open>0x0060\<close> are characters 9 and 10, and the status field reads
  \<^verbatim>\<open>000\<close>.
\<close>

theorem status_word_0060_counterexample:
  "\<not> (status_field 0x0060 = Inr STATUS_READY
      \<and> process_command_field 0x0060 = Inr 0 \<and> success_field 0x0060 = Inr 0)"
  by (simp add: status_field_def bin_digits_0060 zfill_def py_slice_def py_int2_def
      STATUS_READY_def replicate_numeral)

text \<open>
  C2, amended: decoding the status word \<^verbatim>\<open>0x0060\<close> yields operating status Error
  (the field, characters \<^verbatim>\<open>[5:8]\<close> of the 16-character string, is \<^verbatim>\<open>000\<close>),
  processCommand 0 and success 0. The word with the field \<^verbatim>\<open>011\<close> at characters
  \<^verbatim>\<open>[5:8]\<close> and both flags 0 is \<^verbatim>\<open>0x0300\<close>, and it decodes to Ready.
\<close>

theorem status_word_0060_decodes_to_error:
  "zfill 16 (bin_digits 0x0060) = ''0000000001100000''
   \<and> py_slice 5 8 (zfill 16 (bin_digits 0x0060)) = ''000''
   \<and> status_field 0x0060 = Inr STATUS_ERROR
   \<and> process_command_field 0x0060 = Inr 0
   \<and> success_field 0x0060 = Inr 0
   \<and> zfill 16 (bin_digits 0x0300) = ''0000001100000000''
   \<and> py_slice 5 8 (zfill 16 (bin_digits 0x0300)) = ''011''
   \<and> status_field 0x0300 = Inr STATUS_READY
   \<and> process_command_field 0x0300 = Inr 0
   \<and> success_field 0x0300 = Inr 0"
  by (simp add: status_field_def process_command_field_def success_field_def
      bin_digits_0060 bin_digits_0300 zfill_def py_slice_def py_int2_def str_index_def
      STATUS_READY_def STATUS_ERROR_def replicate_numeral)

section \<open>Running the handshakes\<close>

text \<open>What each method returns and logs, as an equation on the object it is called on.\<close>

lemmas io_defs = io_bind_def io_seq_def io_return_def io_raise_def io_lift_def emit_def
  sleep_def write_register_def write_registers_def timeout_def

lemma read_status_word_run:
  "read_status_word g =
     (Inr (device g (reads g) 1),
      g\<lparr>reads := Suc (reads g),
        log := log g @ [ReadInputRegisters 1 1 [device g (reads g) 1]]\<rparr>)"
  by (simp add: read_status_word_def read_input_registers_def py_index_def Let_def io_defs)

lemma get_status_run:
  assumes "status_field (device g (reads g) 1) = Inr s"
  shows "get_status g =
     (Inr s,
      g\<lparr>reads := Suc (reads g), status := s,
        log := log g @ [ReadInputRegisters 1 1 [device g (reads g) 1]]\<rparr>)"
  using assms by (simp add: get_status_def read_status_word_run set_status_def io_defs)

lemma success_run:
  "success g =
     (success_field (device g (reads g) 1),
      g\<lparr>reads := Suc (reads g),
        log := log g @ [ReadInputRegisters 1 1 [device g (reads g) 1]]\<rparr>)"
  by (simp add: success_def read_status_word_run io_defs)

lemma acknowledge_run:
  "acknowledge g =
     (Inr (), g\<lparr>log := log g @
        [WriteRegister 0x0801 0x0100, Sleep 100, WriteRegister 0x0801 0x8100]\<rparr>)"
  by (simp add: acknowledge_def io_defs)

lemma handle_errors_run:
  assumes "status_field (device g (reads g) 1) = Inr s"
  shows "handle_errors g =
     (Inr (),
      g\<lparr>reads := Suc (reads g), status := s,
        log := log g @ ReadInputRegisters 1 1 [device g (reads g) 1] # recovery_events s\<rparr>)"
  by (simp add: handle_errors_def get_status_run [OF assms] self_status_def acknowledge_run
      recovery_events_def io_defs)

lemma status_reads_0: "status_reads d r 0 = []"
  by (simp add: status_reads_def)

lemma status_reads_Suc:
  "status_reads d r (Suc n) = ReadInputRegisters 1 1 [d r 1] # status_reads d (Suc r) n"
proof -
  have "[0 ..< Suc n] = 0 # map Suc [0 ..< n]"
    by (simp add: upt_conv_Cons map_Suc_upt del: upt_Suc)
  then show ?thesis by (simp add: status_reads_def comp_def del: upt_Suc)
qed

lemma length_status_reads: "length (status_reads d r n) = n"
  by (simp add: status_reads_def)

lemma poll_run_timeout:
  assumes "\<forall>i<n. device g (reads g + i) 1 \<le> 2 ^ 15 - 1"
  shows "poll n g =
     (Inr False,
      g\<lparr>reads := reads g + n, log := log g @ status_reads (device g) (reads g) n\<rparr>)"
  using assms
proof (induction n arbitrary: g)
  case 0
  then show ?case by (simp add: status_reads_0 io_defs)
next
  case (Suc n)
  let ?g1 = "g\<lparr>reads := Suc (reads g),
                log := log g @ [ReadInputRegisters 1 1 [device g (reads g) 1]]\<rparr>"
  obtain b where b: "process_command_field (device g (reads g) 1) = Inr b"
    using process_command_field_total by blast
  from Suc.prems have le: "device g (reads g) 1 \<le> 2 ^ 15 - 1"
    by (metis add.right_neutral zero_less_Suc)
  have "\<forall>i<n. device ?g1 (reads ?g1 + i) 1 \<le> 2 ^ 15 - 1"
  proof (intro allI impI)
    fix i assume "i < n"
    then have "Suc i < Suc n" by simp
    with Suc.prems have "device g (reads g + Suc i) 1 \<le> 2 ^ 15 - 1" by blast
    then show "device ?g1 (reads ?g1 + i) 1 \<le> 2 ^ 15 - 1" by simp
  qed
  from Suc.IH [OF this] le b show ?case
    by (simp add: read_status_word_run status_reads_Suc io_defs)
qed

lemma poll_run_accept:
  assumes "k < n"
    and "\<forall>i<k. device g (reads g + i) 1 \<le> 2 ^ 15 - 1"
    and "device g (reads g + k) 1 > 2 ^ 15 - 1"
  shows "poll n g =
     (Inr True,
      g\<lparr>reads := reads g + Suc k,
        log := log g @ status_reads (device g) (reads g) (Suc k)\<rparr>)"
  using assms
proof (induction n arbitrary: g k)
  case 0
  then show ?case by simp
next
  case (Suc n)
  let ?g1 = "g\<lparr>reads := Suc (reads g),
                log := log g @ [ReadInputRegisters 1 1 [device g (reads g) 1]]\<rparr>"
  obtain b where b: "process_command_field (device g (reads g) 1) = Inr b"
    using process_command_field_total by blast
  show ?case
  proof (cases k)
    case 0
    with Suc.prems b show ?thesis
      by (simp add: read_status_word_run status_reads_Suc status_reads_0 io_defs)
  next
    case (Suc j)
    with Suc.prems have j: "j < n" by simp
    from Suc Suc.prems have le: "device g (reads g) 1 \<le> 2 ^ 15 - 1"
      by (metis add.right_neutral zero_less_Suc)
    have fails: "\<forall>i<j. device ?g1 (reads ?g1 + i) 1 \<le> 2 ^ 15 - 1"
    proof (intro allI impI)
      fix i assume "i < j"
      with Suc have "Suc i < k" by simp
      with Suc.prems have "device g (reads g + Suc i) 1 \<le> 2 ^ 15 - 1" by blast
      then show "device ?g1 (reads ?g1 + i) 1 \<le> 2 ^ 15 - 1" by simp
    qed
    from Suc Suc.prems have "device ?g1 (reads ?g1 + j) 1 > 2 ^ 15 - 1" by simp
    from Suc.IH [OF j fails this] le b Suc show ?thesis
      by (simp add: read_status_word_run status_reads_Suc io_defs)
  qed
qed

lemma poll_total:
  "\<exists>b k. k \<le> n \<and> (b \<longrightarrow> 0 < k) \<and> (\<not> b \<longrightarrow> k = n) \<and> poll n g =
     (Inr b,
      g\<lparr>reads := reads g + k, log := log g @ status_reads (device g) (reads g) k\<rparr>)"
proof (cases "\<exists>k<n. device g (reads g + k) 1 > 2 ^ 15 - 1")
  case True
  define k where "k = (LEAST k. k < n \<and> device g (reads g + k) 1 > 2 ^ 15 - 1)"
  from True have "k < n \<and> device g (reads g + k) 1 > 2 ^ 15 - 1"
    unfolding k_def by (rule LeastI_ex)
  then have kn: "k < n" and acc: "device g (reads g + k) 1 > 2 ^ 15 - 1" by blast+
  have fails: "\<forall>i<k. device g (reads g + i) 1 \<le> 2 ^ 15 - 1"
  proof (intro allI impI)
    fix i assume i: "i < k"
    with kn have "i < n" by simp
    moreover from i have "\<not> (i < n \<and> device g (reads g + i) 1 > 2 ^ 15 - 1)"
      unfolding k_def by (rule not_less_Least)
    ultimately show "device g (reads g + i) 1 \<le> 2 ^ 15 - 1" by simp
  qed
  from kn have "Suc k \<le> n" by simp
  with poll_run_accept [OF kn fails acc] show ?thesis
    by (intro exI [of _ True] exI [of _ "Suc k"]) simp
next
  case False
  then have "\<forall>i<n. device g (reads g + i) 1 \<le> 2 ^ 15 - 1"
    by (meson not_less)
  then have "poll n g =
     (Inr False,
      g\<lparr>reads := reads g + n, log := log g @ status_reads (device g) (reads g) n\<rparr>)"
    by (rule poll_run_timeout)
  then show ?thesis
    by (intro exI [of _ False] exI [of _ n]) simp
qed

lemma soft_reset_run:
  "io_block [timeout 1, sleep 100, timeout 0, sleep 100, acknowledge] g =
     (Inr (), g\<lparr>log := log g @
        [WriteRegister 0x1120 1, Sleep 100, WriteRegister 0x1120 0, Sleep 100,
         WriteRegister 0x0801 0x0100, Sleep 100, WriteRegister 0x0801 0x8100]\<rparr>)"
  by (simp add: acknowledge_run io_defs)

text \<open>
  C3: \<^verbatim>\<open>wait_process_command\<close> returns as soon as a read of the status register
  yields a value greater than \<^verbatim>\<open>0x7FFF\<close>: when the first such value comes at read
  \<open>k + 1\<close>, with \<open>k < 1000\<close>, it makes exactly these \<open>k + 1\<close> reads and nothing else.
  When the first 1000 reads all fail it makes exactly 1000 reads and then the soft
  reset: 1 to register \<^verbatim>\<open>0x1120\<close>, a wait, 0 to \<^verbatim>\<open>0x1120\<close>, a wait, and the
  acknowledge pair \<^verbatim>\<open>0x0100\<close>, \<^verbatim>\<open>0x8100\<close> to \<^verbatim>\<open>0x0801\<close>.
\<close>

theorem wait_process_command_polls:
  "(\<forall>k<1000. (\<forall>i<k. device g (reads g + i) 1 \<le> 0x7FFF)
        \<and> device g (reads g + k) 1 > 0x7FFF \<longrightarrow>
      wait_process_command g =
        (Inr (),
         g\<lparr>reads := reads g + Suc k,
           log := log g @ status_reads (device g) (reads g) (Suc k)\<rparr>))
   \<and> ((\<forall>i<1000. device g (reads g + i) 1 \<le> 0x7FFF) \<longrightarrow>
      wait_process_command g =
        (Inr (),
         g\<lparr>reads := reads g + 1000,
           log := log g @ status_reads (device g) (reads g) 1000 @
             [WriteRegister 0x1120 1, Sleep 100, WriteRegister 0x1120 0, Sleep 100,
              WriteRegister 0x0801 0x0100, Sleep 100, WriteRegister 0x0801 0x8100]\<rparr>))"
proof (intro conjI allI impI)
  fix k :: nat
  assume k: "k < 1000"
    and "(\<forall>i<k. device g (reads g + i) 1 \<le> 0x7FFF) \<and> device g (reads g + k) 1 > 0x7FFF"
  then have "\<forall>i<k. device g (reads g + i) 1 \<le> 2 ^ 15 - 1"
    and "device g (reads g + k) 1 > 2 ^ 15 - 1" by simp_all
  from poll_run_accept [OF k this] show "wait_process_command g =
        (Inr (),
         g\<lparr>reads := reads g + Suc k,
           log := log g @ status_reads (device g) (reads g) (Suc k)\<rparr>)"
    by (simp add: wait_process_command_def io_bind_def io_return_def)
next
  assume "\<forall>i<1000. device g (reads g + i) 1 \<le> 0x7FFF"
  then have "\<forall>i<1000. device g (reads g + i) 1 \<le> 2 ^ 15 - 1" by simp
  from poll_run_timeout [OF this] show "wait_process_command g =
        (Inr (),
         g\<lparr>reads := reads g + 1000,
           log := log g @ status_reads (device g) (reads g) 1000 @
             [WriteRegister 0x1120 1, Sleep 100, WriteRegister 0x1120 0, Sleep 100,
              WriteRegister 0x0801 0x0100, Sleep 100, WriteRegister 0x0801 0x8100]\<rparr>)"
    by (simp add: wait_process_command_def acknowledge_run io_defs)
qed

text \<open>
  The witness of C3: a device that accepts at its third answer, and one that never does.
\<close>

theorem wait_process_command_polls_witness:
  "wait_process_command (fresh (\<lambda>k a. if k < 2 then 0 else 0x8000)) =
     (Inr (),
      (fresh (\<lambda>k a. if k < 2 then 0 else 0x8000))
        \<lparr>reads := 3,
         log := [ReadInputRegisters 1 1 [0], ReadInputRegisters 1 1 [0],
                 ReadInputRegisters 1 1 [0x8000]]\<rparr>)
   \<and> wait_process_command (fresh (\<lambda>k a. 0)) =
     (Inr (),
      (fresh (\<lambda>k a. 0))
        \<lparr>reads := 1000,
         log := replicate 1000 (ReadInputRegisters 1 1 [0]) @
           [WriteRegister 0x1120 1, Sleep 100, WriteRegister 0x1120 0, Sleep 100,
            WriteRegister 0x0801 0x0100, Sleep 100, WriteRegister 0x0801 0x8100]\<rparr>)"
proof
  let ?g = "fresh (\<lambda>k a. if k < 2 then 0 else 0x8000)"
  have "(\<forall>i<2. device ?g (reads ?g + i) 1 \<le> 0x7FFF) \<and> device ?g (reads ?g + 2) 1 > 0x7FFF"
    by (simp add: fresh_def)
  moreover have "(2::nat) < 1000" by simp
  ultimately have "wait_process_command ?g =
        (Inr (),
         ?g\<lparr>reads := reads ?g + Suc 2,
           log := log ?g @ status_reads (device ?g) (reads ?g) (Suc 2)\<rparr>)"
    using wait_process_command_polls [of ?g] by blast
  then show "wait_process_command ?g =
     (Inr (),
      ?g\<lparr>reads := 3,
         log := [ReadInputRegisters 1 1 [0], ReadInputRegisters 1 1 [0],
                 ReadInputRegisters 1 1 [0x8000]]\<rparr>)"
    by (simp add: fresh_def status_reads_def numeral_3_eq_3)
next
  let ?g = "fresh (\<lambda>k a. 0)"
  have "\<forall>i<1000. device ?g (reads ?g + i) 1 \<le> 0x7FFF"
    by (simp add: fresh_def)
  then have "wait_process_command ?g =
        (Inr (),
         ?g\<lparr>reads := reads ?g + 1000,
           log := log ?g @ status_reads (device ?g) (reads ?g) 1000 @
             [WriteRegister 0x1120 1, Sleep 100, WriteRegister 0x1120 0, Sleep 100,
              WriteRegister 0x0801 0x0100, Sleep 100, WriteRegister 0x0801 0x8100]\<rparr>)"
    using wait_process_command_polls [of ?g] by blast
  then show "wait_process_command ?g =
     (Inr (),
      ?g\<lparr>reads := 1000,
         log := replicate 1000 (ReadInputRegisters 1 1 [0]) @
           [WriteRegister 0x1120 1, Sleep 100, WriteRegister 0x1120 0, Sleep 100,
            WriteRegister 0x0801 0x0100, Sleep 100, WriteRegister 0x0801 0x8100]\<rparr>)"
    by (simp add: fresh_def status_reads_def map_replicate_const)
qed

section \<open>Waiting for success\<close>

lemma success_polls_0: "success_polls d r 0 = []"
  by (simp add: success_polls_def)

lemma success_polls_Suc:
  "success_polls d r (Suc k) =
     ReadInputRegisters 1 1 [d r 1] # Sleep 50 # success_polls d (Suc r) k"
proof -
  have "[0 ..< Suc k] = 0 # map Suc [0 ..< k]"
    by (simp add: upt_conv_Cons map_Suc_upt del: upt_Suc)
  then show ?thesis by (simp add: success_polls_def comp_def del: upt_Suc)
qed

lemma wait_success_run:
  assumes "\<forall>i<k. success_field (device g (reads g + i) 1) \<noteq> Inr 1"
    and "success_field (device g (reads g + k) 1) = Inr 1"
  shows "wait_success g =
     Some (Inr (),
       g\<lparr>reads := reads g + Suc k,
         log := log g @ success_polls (device g) (reads g) k @
           [ReadInputRegisters 1 1 [device g (reads g + k) 1]]\<rparr>)"
  using assms
proof (induction k arbitrary: g)
  case 0
  then show ?case
    by (subst wait_success.simps) (simp add: success_run success_polls_0)
next
  case (Suc k)
  let ?g2 = "g\<lparr>reads := Suc (reads g),
                log := log g @ [ReadInputRegisters 1 1 [device g (reads g) 1], Sleep 50]\<rparr>"
  obtain b where b: "success_field (device g (reads g) 1) = Inr b"
    using success_field_total by blast
  from Suc.prems have "success_field (device g (reads g + 0) 1) \<noteq> Inr 1" by blast
  with b have b1: "b \<noteq> 1" by simp
  have fails: "\<forall>i<k. success_field (device ?g2 (reads ?g2 + i) 1) \<noteq> Inr 1"
  proof (intro allI impI)
    fix i assume "i < k"
    then have "Suc i < Suc k" by simp
    with Suc.prems have "success_field (device g (reads g + Suc i) 1) \<noteq> Inr 1" by blast
    then show "success_field (device ?g2 (reads ?g2 + i) 1) \<noteq> Inr 1" by simp
  qed
  from Suc.prems have "success_field (device ?g2 (reads ?g2 + k) 1) = Inr 1" by simp
  from Suc.IH [OF fails this] b b1 show ?case
    by (subst wait_success.simps) (simp add: success_run success_polls_Suc io_defs)
qed

lemma wait_success_returns:
  assumes "wait_success g = Some y"
  shows "\<exists>i. success_field (device g (reads g + i) 1) = Inr 1"
proof (rule wait_success.raw_induct
    [where P = "\<lambda>g y. \<exists>i. success_field (device g (reads g + i) 1) = Inr 1", OF _ assms])
  fix f :: "gripper \<Rightarrow> ((error + unit) \<times> gripper) option" and g y
  assume IH: "\<And>x y. f x = Some y \<Longrightarrow> \<exists>i. success_field (device x (reads x + i) 1) = Inr 1"
    and step: "(case success g of
        (Inl e, g1) \<Rightarrow> Some (Inl e, g1)
      | (Inr b, g1) \<Rightarrow>
          if b \<noteq> 1 then
            (case sleep 50 g1 of
               (Inl e, g2) \<Rightarrow> Some (Inl e, g2)
             | (Inr u, g2) \<Rightarrow> f g2)
          else Some (Inr (), g1)) = Some y"
  obtain b where b: "success_field (device g (reads g) 1) = Inr b"
    using success_field_total by blast
  show "\<exists>i. success_field (device g (reads g + i) 1) = Inr 1"
  proof (cases "b = 1")
    case True
    with b have "success_field (device g (reads g + 0) 1) = Inr 1" by simp
    then show ?thesis by blast
  next
    case False
    let ?g2 = "g\<lparr>reads := Suc (reads g),
                  log := log g @ [ReadInputRegisters 1 1 [device g (reads g) 1], Sleep 50]\<rparr>"
    from step b False have "f ?g2 = Some y"
      by (simp add: success_run io_defs)
    from IH [OF this]
    have "\<exists>i. success_field (device g (reads g + Suc i) 1) = Inr 1" by simp
    then show ?thesis by blast
  qed
qed

lemma wait_success_result:
  assumes "wait_success g = Some y"
  shows "\<exists>k. success_field (device g (reads g + k) 1) = Inr 1
     \<and> y = (Inr (),
       g\<lparr>reads := reads g + Suc k,
         log := log g @ success_polls (device g) (reads g) k @
           [ReadInputRegisters 1 1 [device g (reads g + k) 1]]\<rparr>)"
proof -
  define k where "k = (LEAST i. success_field (device g (reads g + i) 1) = Inr 1)"
  from wait_success_returns [OF assms]
  have ok: "success_field (device g (reads g + k) 1) = Inr 1"
    unfolding k_def by (rule LeastI_ex)
  have "\<forall>i<k. success_field (device g (reads g + i) 1) \<noteq> Inr 1"
    unfolding k_def using not_less_Least by blast
  from wait_success_run [OF this ok] assms ok show ?thesis by auto
qed

section \<open>Grip\<close>

text \<open>Record updates, in the order of the fields.\<close>

lemma update_order:
  "reads_update f (status_update h r) = status_update h (reads_update f r)"
  "reads_update f (log_update l r) = log_update l (reads_update f r)"
  "status_update h (log_update l r) = log_update l (status_update h r)"
  by (cases r, simp)+

lemma handle_errors_total:
  "\<exists>s. status_field (device g (reads g) 1) = Inr s \<and> handle_errors g =
     (Inr (),
      g\<lparr>reads := Suc (reads g), status := s,
        log := log g @ ReadInputRegisters 1 1 [device g (reads g) 1] # recovery_events s\<rparr>)"
  using status_field_total [of "device g (reads g) 1"] handle_errors_run [of g] by blast

lemma wait_process_command_total:
  "\<exists>k es. 0 < k \<and> k \<le> 1000
     \<and> (es = [] \<or> es =
          [WriteRegister 0x1120 1, Sleep 100, WriteRegister 0x1120 0, Sleep 100,
           WriteRegister 0x0801 0x0100, Sleep 100, WriteRegister 0x0801 0x8100])
     \<and> wait_process_command g =
       (Inr (),
        g\<lparr>reads := reads g + k,
          log := log g @ status_reads (device g) (reads g) k @ es\<rparr>)"
proof -
  obtain b k where k: "k \<le> 1000" "b \<longrightarrow> 0 < k" "\<not> b \<longrightarrow> k = 1000"
    and p: "poll 1000 g =
     (Inr b,
      g\<lparr>reads := reads g + k, log := log g @ status_reads (device g) (reads g) k\<rparr>)"
    using poll_total [of 1000 g] by blast
  show ?thesis
  proof (cases b)
    case True
    with k p show ?thesis
      by (intro exI [of _ k] exI [of _ "[]"])
        (simp add: wait_process_command_def io_bind_def io_return_def)
  next
    case False
    with k p show ?thesis
      by (intro exI [of _ k] exI [of _ "[WriteRegister 0x1120 1, Sleep 100,
           WriteRegister 0x1120 0, Sleep 100,
           WriteRegister 0x0801 0x0100, Sleep 100, WriteRegister 0x0801 0x8100]"])
        (simp add: wait_process_command_def acknowledge_run io_defs)
  qed
qed

lemma no_payload_recovery: "WriteRegisters a vs \<notin> set (recovery_events s)"
  by (simp add: recovery_events_def)

lemma grip_unfold:
  assumes "isinstance_int v" and "1 \<le> int_of v" and "int_of v \<le> 4"
  shows "\<exists>s k es. status_field (device g (reads g) 1) = Inr s \<and> 0 < k \<and> k \<le> 1000
     \<and> (es = [] \<or> es =
          [WriteRegister 0x1120 1, Sleep 100, WriteRegister 0x1120 0, Sleep 100,
           WriteRegister 0x0801 0x0100, Sleep 100, WriteRegister 0x0801 0x8100])
     \<and> grip v g = wait_success
       (g\<lparr>reads := Suc (reads g) + k, status := s,
          log := log g @ ReadInputRegisters 1 1 [device g (reads g) 1] # recovery_events s @
            [WriteRegisters 0x0801 [0x0400, (4 - int_of v) * 0x0100, 0, 0], Sleep 50,
             WriteRegisters 0x0801 [0x8400, (4 - int_of v) * 0x0100, 0, 0]] @
            status_reads (device g) (Suc (reads g)) k @ es @ [Sleep 1000]\<rparr>)"
proof -
  obtain s where s: "status_field (device g (reads g) 1) = Inr s"
    and h: "handle_errors g =
     (Inr (),
      g\<lparr>reads := Suc (reads g), status := s,
        log := log g @ ReadInputRegisters 1 1 [device g (reads g) 1] # recovery_events s\<rparr>)"
    using handle_errors_total by blast
  let ?g2 = "g\<lparr>reads := Suc (reads g), status := s,
        log := log g @ ReadInputRegisters 1 1 [device g (reads g) 1] # recovery_events s @
            [WriteRegisters 0x0801 [0x0400, (4 - int_of v) * 0x0100, 0, 0], Sleep 50,
             WriteRegisters 0x0801 [0x8400, (4 - int_of v) * 0x0100, 0, 0]]\<rparr>"
  obtain k es where k: "0 < k" "k \<le> 1000"
    and es: "es = [] \<or> es =
          [WriteRegister 0x1120 1, Sleep 100, WriteRegister 0x1120 0, Sleep 100,
           WriteRegister 0x0801 0x0100, Sleep 100, WriteRegister 0x0801 0x8100]"
    and w: "wait_process_command ?g2 =
       (Inr (),
        ?g2\<lparr>reads := reads ?g2 + k,
          log := log ?g2 @ status_reads (device ?g2) (reads ?g2) k @ es\<rparr>)"
    using wait_process_command_total [of ?g2] by blast
  have "grip v g = wait_success
       (g\<lparr>reads := Suc (reads g) + k, status := s,
          log := log g @ ReadInputRegisters 1 1 [device g (reads g) 1] # recovery_events s @
            [WriteRegisters 0x0801 [0x0400, (4 - int_of v) * 0x0100, 0, 0], Sleep 50,
             WriteRegisters 0x0801 [0x8400, (4 - int_of v) * 0x0100, 0, 0]] @
            status_reads (device g) (Suc (reads g)) k @ es @ [Sleep 1000]\<rparr>)"
    using assms w by (simp add: grip_def pio_bind_def h io_defs update_order)
  with s k es show ?thesis by blast
qed

text \<open>
  Each step of a command as an equation: what the error check, the wait for
  acceptance and the wait for success return, by what the device answers.
\<close>

lemmas after_defs = after_check_def after_command_def after_polls_def after_sleep_def
  after_success_def

lemma after_fields [simp]:
  "device (after_check s g) = device g" "reads (after_check s g) = Suc (reads g)"
  "device (after_command a e g) = device g" "reads (after_command a e g) = reads g"
  "device (after_polls n es g) = device g" "reads (after_polls n es g) = reads g + n"
  "device (after_sleep ms g) = device g" "reads (after_sleep ms g) = reads g"
  by (simp_all add: after_defs)

lemma handle_errors_check:
  assumes "status_field (device g (reads g) 1) = Inr s"
  shows "handle_errors g = (Inr (), after_check s g)"
  by (simp add: handle_errors_run [OF assms] after_check_def)

lemma wait_process_command_accepted:
  assumes "k < 1000"
    and "\<forall>i<k. device g (reads g + i) 1 \<le> 0x7FFF"
    and "0x7FFF < device g (reads g + k) 1"
  shows "wait_process_command g = (Inr (), after_polls (Suc k) [] g)"
proof -
  from assms(2,3) have "\<forall>i<k. device g (reads g + i) 1 \<le> 2 ^ 15 - 1"
    and "device g (reads g + k) 1 > 2 ^ 15 - 1" by simp_all
  from poll_run_accept [OF assms(1) this] show ?thesis
    by (simp add: wait_process_command_def io_bind_def io_return_def after_polls_def)
qed

lemma wait_process_command_timed_out:
  assumes "\<forall>i<1000. device g (reads g + i) 1 \<le> 0x7FFF"
  shows "wait_process_command g = (Inr (), after_polls 1000 soft_reset_events g)"
proof -
  from assms have "\<forall>i<1000. device g (reads g + i) 1 \<le> 2 ^ 15 - 1" by simp
  from poll_run_timeout [OF this] show ?thesis
    by (simp add: wait_process_command_def acknowledge_run io_defs after_polls_def
        soft_reset_events_def)
qed

lemma grasp_block:
  assumes "wait_process_command (after_command arm exec g) = (Inr (), g')"
  shows "pio_bind
       (io_block [write_registers 0x0801 arm, sleep 50, write_registers 0x0801 exec,
                  wait_process_command, sleep 1000])
       (\<lambda>_. wait_success) g = wait_success (after_sleep 1000 g')"
  using assms by (simp add: pio_bind_def io_defs after_command_def after_sleep_def)

lemma wait_success_succeeds:
  assumes "\<forall>i<j. success_field (device m (reads m + i) 1) \<noteq> Inr 1"
    and "success_field (device m (reads m + j) 1) = Inr 1"
  shows "wait_success m = Some (Inr (), after_success j m)"
  using wait_success_run [OF assms] by (simp add: after_success_def)

lemma wait_success_never:
  assumes "\<forall>i. success_field (device m (reads m + i) 1) \<noteq> Inr 1"
  shows "wait_success m = None"
proof (cases "wait_success m")
  case None
  then show ?thesis .
next
  case (Some y)
  from wait_success_returns [OF this] assms show ?thesis by blast
qed

lemma grip_accepted:
  assumes "isinstance_int v" and "1 \<le> int_of v" and "int_of v \<le> 4"
    and "status_field (device g (reads g) 1) = Inr s"
    and "k < 1000"
    and "\<forall>i<k. device g (Suc (reads g) + i) 1 \<le> 0x7FFF"
    and "0x7FFF < device g (Suc (reads g) + k) 1"
  shows "grip v g =
     wait_success (after_sleep 1000 (after_polls (Suc k) []
       (after_command [0x0400, (4 - int_of v) * 0x0100, 0, 0]
                      [0x8400, (4 - int_of v) * 0x0100, 0, 0] (after_check s g))))"
proof -
  let ?c = "after_command [0x0400, (4 - int_of v) * 0x0100, 0, 0]
                      [0x8400, (4 - int_of v) * 0x0100, 0, 0] (after_check s g)"
  have "wait_process_command ?c = (Inr (), after_polls (Suc k) [] ?c)"
    using assms(5-7) by (intro wait_process_command_accepted) simp_all
  from grasp_block [OF this] assms(1-3) show ?thesis
    by (simp add: grip_def pio_bind_def handle_errors_check [OF assms(4)]
        del: io_block.simps)
qed

lemma grip_timed_out:
  assumes "isinstance_int v" and "1 \<le> int_of v" and "int_of v \<le> 4"
    and "status_field (device g (reads g) 1) = Inr s"
    and "\<forall>i<1000. device g (Suc (reads g) + i) 1 \<le> 0x7FFF"
  shows "grip v g =
     wait_success (after_sleep 1000 (after_polls 1000 soft_reset_events
       (after_command [0x0400, (4 - int_of v) * 0x0100, 0, 0]
                      [0x8400, (4 - int_of v) * 0x0100, 0, 0] (after_check s g))))"
proof -
  let ?c = "after_command [0x0400, (4 - int_of v) * 0x0100, 0, 0]
                      [0x8400, (4 - int_of v) * 0x0100, 0, 0] (after_check s g)"
  have "wait_process_command ?c = (Inr (), after_polls 1000 soft_reset_events ?c)"
    using assms(5) by (intro wait_process_command_timed_out) simp
  from grasp_block [OF this] assms(1-3) show ?thesis
    by (simp add: grip_def pio_bind_def handle_errors_check [OF assms(4)]
        del: io_block.simps)
qed

lemma grip_range_error:
  assumes "isinstance_int v" and "\<not> (1 \<le> int_of v \<and> int_of v \<le> 4)"
    and "status_field (device g (reads g) 1) = Inr s"
  shows "grip v g =
     Some (Inl (PyException ''Force value out of range (Must be between 1 and 4)''),
           after_check s g)"
  using assms(1,2)
  by (simp add: grip_def pio_bind_def pio_raise_def handle_errors_check [OF assms(3)])

text \<open>Status words that the examples use.\<close>

lemma status_field_C300: "status_field 0xC300 = Inr 3"
  by (simp add: status_field_bits)

lemma status_field_8300: "status_field 0x8300 = Inr 3"
  by (simp add: status_field_bits)

lemma status_field_C000: "status_field 0xC000 = Inr 0"
  by (simp add: status_field_bits)

lemma success_field_C000: "success_field 0xC000 = Inr 1"
  by (simp add: success_field_bits)

lemma status_field_C200: "status_field 0xC200 = Inr 2"
  by (simp add: status_field_bits)

lemma success_field_C200: "success_field 0xC200 = Inr 1"
  by (simp add: success_field_bits)

lemma status_field_4300: "status_field 0x4300 = Inr 3"
  by (simp add: status_field_bits)

lemma success_field_4300: "success_field 0x4300 = Inr 1"
  by (simp add: success_field_bits)

text \<open>
  C1: for a force level from 1 to 4, the second word of the payload is \<^verbatim>\<open>0x0300\<close>,
  \<^verbatim>\<open>0x0200\<close>, \<^verbatim>\<open>0x0100\<close>, \<^verbatim>\<open>0x0000\<close> for the levels 1 to 4, and the success bit
  that \<^verbatim>\<open>success()\<close> reads is bit 14 of the status word, the second character of its
  16 binary digits. What \<^verbatim>\<open>grip(force)\<close> does is fixed by what the device answers.
  After the error check (one read, and the recovery events of the status read) it
  writes the arm payload \<^verbatim>\<open>[0x0400, (4 - force) * 0x0100, 0, 0]\<close> to \<^verbatim>\<open>0x0801\<close>,
  sleeps 50 ms, and writes the execute payload
  \<^verbatim>\<open>[0x8400, (4 - force) * 0x0100, 0, 0]\<close>. Then it reads the status word until a read
  is above \<^verbatim>\<open>0x7FFF\<close>; after 1000 reads that are not, it makes the soft reset. Then it
  sleeps one second and polls the success bit, with a sleep of 50 ms after every poll
  that fails: it returns normally right after the first read whose success bit is 1,
  having written nothing else, and it does not return when no read has this bit.
\<close>

theorem grip_protocol:
  assumes "1 \<le> force" and "force \<le> 4"
  shows "(4 - force) * 0x0100 = [0x0300, 0x0200, 0x0100, 0x0000] ! nat (force - 1)
   \<and> (\<forall>v < 2 ^ 16. success_field v = Inr (v div 2 ^ 14 mod 2))
   \<and> (\<exists>s. status_field (device g (reads g) 1) = Inr s
      \<and> (\<forall>k j. k < 1000
            \<and> (\<forall>i<k. device g (reads g + 1 + i) 1 \<le> 0x7FFF)
            \<and> 0x7FFF < device g (reads g + 1 + k) 1
            \<and> (\<forall>i<j. success_field (device g (reads g + k + 2 + i) 1) \<noteq> Inr 1)
            \<and> success_field (device g (reads g + k + 2 + j) 1) = Inr 1 \<longrightarrow>
          grip (PyInt force) g =
            Some (Inr (),
              g\<lparr>reads := reads g + k + j + 3, status := s,
                log := log g @
                  ReadInputRegisters 1 1 [device g (reads g) 1] # recovery_events s @
                  [WriteRegisters 0x0801 [0x0400, (4 - force) * 0x0100, 0, 0],
                   Sleep 50,
                   WriteRegisters 0x0801 [0x8400, (4 - force) * 0x0100, 0, 0]] @
                  status_reads (device g) (reads g + 1) (k + 1) @
                  [Sleep 1000] @
                  success_polls (device g) (reads g + k + 2) j @
                  [ReadInputRegisters 1 1 [device g (reads g + k + 2 + j) 1]]\<rparr>))
      \<and> (\<forall>k. k < 1000
            \<and> (\<forall>i<k. device g (reads g + 1 + i) 1 \<le> 0x7FFF)
            \<and> 0x7FFF < device g (reads g + 1 + k) 1
            \<and> (\<forall>i. success_field (device g (reads g + k + 2 + i) 1) \<noteq> Inr 1) \<longrightarrow>
          grip (PyInt force) g = None)
      \<and> (\<forall>j. (\<forall>i<1000. device g (reads g + 1 + i) 1 \<le> 0x7FFF)
            \<and> (\<forall>i<j. success_field (device g (reads g + 1001 + i) 1) \<noteq> Inr 1)
            \<and> success_field (device g (reads g + 1001 + j) 1) = Inr 1 \<longrightarrow>
          grip (PyInt force) g =
            Some (Inr (),
              g\<lparr>reads := reads g + j + 1002, status := s,
                log := log g @
                  ReadInputRegisters 1 1 [device g (reads g) 1] # recovery_events s @
                  [WriteRegisters 0x0801 [0x0400, (4 - force) * 0x0100, 0, 0],
                   Sleep 50,
                   WriteRegisters 0x0801 [0x8400, (4 - force) * 0x0100, 0, 0]] @
                  status_reads (device g) (reads g + 1) 1000 @
                  [WriteRegister 0x1120 1, Sleep 100, WriteRegister 0x1120 0, Sleep 100,
                   WriteRegister 0x0801 0x0100, Sleep 100, WriteRegister 0x0801 0x8100] @
                  [Sleep 1000] @
                  success_polls (device g) (reads g + 1001) j @
                  [ReadInputRegisters 1 1 [device g (reads g + 1001 + j) 1]]\<rparr>))
      \<and> ((\<forall>i<1000. device g (reads g + 1 + i) 1 \<le> 0x7FFF)
            \<and> (\<forall>i. success_field (device g (reads g + 1001 + i) 1) \<noteq> Inr 1) \<longrightarrow>
          grip (PyInt force) g = None))"
proof (intro conjI)
  from assms have "force = 1 \<or> force = 2 \<or> force = 3 \<or> force = 4" by arith
  then show "(4 - force) * 0x0100 = [0x0300, 0x0200, 0x0100, 0x0000] ! nat (force - 1)"
    by auto
next
  show "\<forall>v < 2 ^ 16. success_field v = Inr (v div 2 ^ 14 mod 2)"
    by (simp add: success_field_bits)
next
  obtain s where s: "status_field (device g (reads g) 1) = Inr s"
    using status_field_total by blast
  let ?c = "after_command [0x0400, (4 - force) * 0x0100, 0, 0]
              [0x8400, (4 - force) * 0x0100, 0, 0] (after_check s g)"
  have int: "isinstance_int (PyInt force)" "1 \<le> int_of (PyInt force)"
    "int_of (PyInt force) \<le> 4" using assms by simp_all
  have acc: "grip (PyInt force) g = wait_success (after_sleep 1000 (after_polls (Suc k) [] ?c))"
    if "k < 1000" "\<forall>i<k. device g (reads g + 1 + i) 1 \<le> 0x7FFF"
      "0x7FFF < device g (reads g + 1 + k) 1" for k
    using grip_accepted [OF int s, of k] that by simp
  have out: "grip (PyInt force) g =
      wait_success (after_sleep 1000 (after_polls 1000 soft_reset_events ?c))"
    if "\<forall>i<1000. device g (reads g + 1 + i) 1 \<le> 0x7FFF"
    using grip_timed_out [OF int s] that by simp
  have 1: "grip (PyInt force) g =
            Some (Inr (),
              g\<lparr>reads := reads g + k + j + 3, status := s,
                log := log g @
                  ReadInputRegisters 1 1 [device g (reads g) 1] # recovery_events s @
                  [WriteRegisters 0x0801 [0x0400, (4 - force) * 0x0100, 0, 0],
                   Sleep 50,
                   WriteRegisters 0x0801 [0x8400, (4 - force) * 0x0100, 0, 0]] @
                  status_reads (device g) (reads g + 1) (k + 1) @
                  [Sleep 1000] @
                  success_polls (device g) (reads g + k + 2) j @
                  [ReadInputRegisters 1 1 [device g (reads g + k + 2 + j) 1]]\<rparr>)"
    if a: "k < 1000" "\<forall>i<k. device g (reads g + 1 + i) 1 \<le> 0x7FFF"
      "0x7FFF < device g (reads g + 1 + k) 1"
      and b: "\<forall>i<j. success_field (device g (reads g + k + 2 + i) 1) \<noteq> Inr 1"
      "success_field (device g (reads g + k + 2 + j) 1) = Inr 1" for k j
  proof -
    let ?m = "after_sleep 1000 (after_polls (Suc k) [] ?c)"
    have "wait_success ?m = Some (Inr (), after_success j ?m)"
      using b by (intro wait_success_succeeds) (simp_all add: add.commute add.left_commute)
    then show ?thesis
      unfolding acc [OF a]
      by (simp add: after_defs update_order add.commute add.left_commute)
  qed
  have 2: "grip (PyInt force) g = None"
    if a: "k < 1000" "\<forall>i<k. device g (reads g + 1 + i) 1 \<le> 0x7FFF"
      "0x7FFF < device g (reads g + 1 + k) 1"
      and b: "\<forall>i. success_field (device g (reads g + k + 2 + i) 1) \<noteq> Inr 1" for k
    unfolding acc [OF a] using b
    by (intro wait_success_never) (simp add: add.commute add.left_commute)
  have 3: "grip (PyInt force) g =
            Some (Inr (),
              g\<lparr>reads := reads g + j + 1002, status := s,
                log := log g @
                  ReadInputRegisters 1 1 [device g (reads g) 1] # recovery_events s @
                  [WriteRegisters 0x0801 [0x0400, (4 - force) * 0x0100, 0, 0],
                   Sleep 50,
                   WriteRegisters 0x0801 [0x8400, (4 - force) * 0x0100, 0, 0]] @
                  status_reads (device g) (reads g + 1) 1000 @
                  [WriteRegister 0x1120 1, Sleep 100, WriteRegister 0x1120 0, Sleep 100,
                   WriteRegister 0x0801 0x0100, Sleep 100, WriteRegister 0x0801 0x8100] @
                  [Sleep 1000] @
                  success_polls (device g) (reads g + 1001) j @
                  [ReadInputRegisters 1 1 [device g (reads g + 1001 + j) 1]]\<rparr>)"
    if a: "\<forall>i<1000. device g (reads g + 1 + i) 1 \<le> 0x7FFF"
      and b: "\<forall>i<j. success_field (device g (reads g + 1001 + i) 1) \<noteq> Inr 1"
      "success_field (device g (reads g + 1001 + j) 1) = Inr 1" for j
  proof -
    let ?m = "after_sleep 1000 (after_polls 1000 soft_reset_events ?c)"
    have "wait_success ?m = Some (Inr (), after_success j ?m)"
      using b by (intro wait_success_succeeds) (simp_all add: add.commute add.left_commute)
    then show ?thesis
      unfolding out [OF a]
      by (simp add: after_defs soft_reset_events_def update_order add.commute
          add.left_commute)
  qed
  have 4: "grip (PyInt force) g = None"
    if a: "\<forall>i<1000. device g (reads g + 1 + i) 1 \<le> 0x7FFF"
      and b: "\<forall>i. success_field (device g (reads g + 1001 + i) 1) \<noteq> Inr 1"
    unfolding out [OF a] using b
    by (intro wait_success_never) (simp add: add.commute add.left_commute)
  from s 1 2 3 4 show "\<exists>s. status_field (device g (reads g) 1) = Inr s
      \<and> (\<forall>k j. k < 1000
            \<and> (\<forall>i<k. device g (reads g + 1 + i) 1 \<le> 0x7FFF)
            \<and> 0x7FFF < device g (reads g + 1 + k) 1
            \<and> (\<forall>i<j. success_field (device g (reads g + k + 2 + i) 1) \<noteq> Inr 1)
            \<and> success_field (device g (reads g + k + 2 + j) 1) = Inr 1 \<longrightarrow>
          grip (PyInt force) g =
            Some (Inr (),
              g\<lparr>reads := reads g + k + j + 3, status := s,
                log := log g @
                  ReadInputRegisters 1 1 [device g (reads g) 1] # recovery_events s @
                  [WriteRegisters 0x0801 [0x0400, (4 - force) * 0x0100, 0, 0],
                   Sleep 50,
                   WriteRegisters 0x0801 [0x8400, (4 - force) * 0x0100, 0, 0]] @
                  status_reads (device g) (reads g + 1) (k + 1) @
                  [Sleep 1000] @
                  success_polls (device g) (reads g + k + 2) j @
                  [ReadInputRegisters 1 1 [device g (reads g + k + 2 + j) 1]]\<rparr>))
      \<and> (\<forall>k. k < 1000
            \<and> (\<forall>i<k. device g (reads g + 1 + i) 1 \<le> 0x7FFF)
            \<and> 0x7FFF < device g (reads g + 1 + k) 1
            \<and> (\<forall>i. success_field (device g (reads g + k + 2 + i) 1) \<noteq> Inr 1) \<longrightarrow>
          grip (PyInt force) g = None)
      \<and> (\<forall>j. (\<forall>i<1000. device g (reads g + 1 + i) 1 \<le> 0x7FFF)
            \<and> (\<forall>i<j. success_field (device g (reads g + 1001 + i) 1) \<noteq> Inr 1)
            \<and> success_field (device g (reads g + 1001 + j) 1) = Inr 1 \<longrightarrow>
          grip (PyInt force) g =
            Some (Inr (),
              g\<lparr>reads := reads g + j + 1002, status := s,
                log := log g @
                  ReadInputRegisters 1 1 [device g (reads g) 1] # recovery_events s @
                  [WriteRegisters 0x0801 [0x0400, (4 - force) * 0x0100, 0, 0],
                   Sleep 50,
                   WriteRegisters 0x0801 [0x8400, (4 - force) * 0x0100, 0, 0]] @
                  status_reads (device g) (reads g + 1) 1000 @
                  [WriteRegister 0x1120 1, Sleep 100, WriteRegister 0x1120 0, Sleep 100,
                   WriteRegister 0x0801 0x0100, Sleep 100, WriteRegister 0x0801 0x8100] @
                  [Sleep 1000] @
                  success_polls (device g) (reads g + 1001) j @
                  [ReadInputRegisters 1 1 [device g (reads g + 1001 + j) 1]]\<rparr>))
      \<and> ((\<forall>i<1000. device g (reads g + 1 + i) 1 \<le> 0x7FFF)
            \<and> (\<forall>i. success_field (device g (reads g + 1001 + i) 1) \<noteq> Inr 1) \<longrightarrow>
          grip (PyInt force) g = None)"
    by blast
qed

text \<open>
  The witness of C1: \<^verbatim>\<open>grip(force=2)\<close> on a device whose status word is always
  \<^verbatim>\<open>0xC300\<close> (accepted, success, ready), and on one whose status word is always
  \<^verbatim>\<open>0x8300\<close> (accepted, ready, never success).
\<close>

theorem grip_protocol_witness:
  "(1::int) \<le> 2 \<and> (2::int) \<le> 4
   \<and> grip (PyInt 2) (fresh (\<lambda>k a. 0xC300)) =
       Some (Inr (),
         (fresh (\<lambda>k a. 0xC300))
           \<lparr>reads := 3, status := 3,
            log := [ReadInputRegisters 1 1 [0xC300],
                    WriteRegisters 0x0801 [0x0400, 0x0200, 0, 0],
                    Sleep 50,
                    WriteRegisters 0x0801 [0x8400, 0x0200, 0, 0],
                    ReadInputRegisters 1 1 [0xC300],
                    Sleep 1000,
                    ReadInputRegisters 1 1 [0xC300]]\<rparr>)
   \<and> grip (PyInt 2) (fresh (\<lambda>k a. 0x8300)) = None"
proof -
  have f: "(1::int) \<le> 2" "(2::int) \<le> 4" by simp_all
  have yes: "success_field 0xC300 = Inr 1" and no: "success_field 0x8300 = Inr 0"
    by (simp_all add: success_field_bits)
  let ?g = "fresh (\<lambda>k a. 0xC300)"
  from grip_protocol [OF f, of ?g] obtain s
    where s: "status_field (device ?g (reads ?g) 1) = Inr s"
      and r: "(0::nat) < 1000
            \<and> (\<forall>i<0. device ?g (reads ?g + 1 + i) 1 \<le> 0x7FFF)
            \<and> 0x7FFF < device ?g (reads ?g + 1 + 0) 1
            \<and> (\<forall>i<0. success_field (device ?g (reads ?g + 0 + 2 + i) 1) \<noteq> Inr 1)
            \<and> success_field (device ?g (reads ?g + 0 + 2 + 0) 1) = Inr 1 \<longrightarrow>
          grip (PyInt 2) ?g =
            Some (Inr (),
              ?g\<lparr>reads := reads ?g + 0 + 0 + 3, status := s,
                log := log ?g @
                  ReadInputRegisters 1 1 [device ?g (reads ?g) 1] # recovery_events s @
                  [WriteRegisters 0x0801 [0x0400, (4 - 2) * 0x0100, 0, 0],
                   Sleep 50,
                   WriteRegisters 0x0801 [0x8400, (4 - 2) * 0x0100, 0, 0]] @
                  status_reads (device ?g) (reads ?g + 1) (0 + 1) @
                  [Sleep 1000] @
                  success_polls (device ?g) (reads ?g + 0 + 2) 0 @
                  [ReadInputRegisters 1 1 [device ?g (reads ?g + 0 + 2 + 0) 1]]\<rparr>)"
    by blast
  from s have "s = 3" by (simp add: fresh_def status_field_C300)
  with r yes have 1: "grip (PyInt 2) ?g =
       Some (Inr (),
         ?g\<lparr>reads := 3, status := 3,
            log := [ReadInputRegisters 1 1 [0xC300],
                    WriteRegisters 0x0801 [0x0400, 0x0200, 0, 0],
                    Sleep 50,
                    WriteRegisters 0x0801 [0x8400, 0x0200, 0, 0],
                    ReadInputRegisters 1 1 [0xC300],
                    Sleep 1000,
                    ReadInputRegisters 1 1 [0xC300]]\<rparr>)"
    by (simp add: fresh_def recovery_events_def STATUS_ERROR_def STATUS_OOS_def
        status_reads_def success_polls_def)
  let ?h = "fresh (\<lambda>k a. 0x8300)"
  from grip_protocol [OF f, of ?h]
  have "(0::nat) < 1000
            \<and> (\<forall>i<0. device ?h (reads ?h + 1 + i) 1 \<le> 0x7FFF)
            \<and> 0x7FFF < device ?h (reads ?h + 1 + 0) 1
            \<and> (\<forall>i. success_field (device ?h (reads ?h + 0 + 2 + i) 1) \<noteq> Inr 1) \<longrightarrow>
          grip (PyInt 2) ?h = None"
    by blast
  with no have 2: "grip (PyInt 2) ?h = None" by (simp add: fresh_def)
  from f 1 2 show ?thesis by blast
qed

section \<open>Release\<close>

lemma release_unfold:
  "\<exists>s k es. status_field (device g (reads g) 1) = Inr s \<and> 0 < k \<and> k \<le> 1000
     \<and> (es = [] \<or> es =
          [WriteRegister 0x1120 1, Sleep 100, WriteRegister 0x1120 0, Sleep 100,
           WriteRegister 0x0801 0x0100, Sleep 100, WriteRegister 0x0801 0x8100])
     \<and> release g = wait_success
       (g\<lparr>reads := Suc (reads g) + k, status := s,
          log := log g @ ReadInputRegisters 1 1 [device g (reads g) 1] # recovery_events s @
            [WriteRegisters 0x0801 [0x0300, 0, 0, 0], Sleep 50,
             WriteRegisters 0x0801 [0x8300, 0, 0, 0]] @
            status_reads (device g) (Suc (reads g)) k @ es @ [Sleep 1000]\<rparr>)"
proof -
  obtain s where s: "status_field (device g (reads g) 1) = Inr s"
    and h: "handle_errors g =
     (Inr (),
      g\<lparr>reads := Suc (reads g), status := s,
        log := log g @ ReadInputRegisters 1 1 [device g (reads g) 1] # recovery_events s\<rparr>)"
    using handle_errors_total by blast
  let ?g2 = "g\<lparr>reads := Suc (reads g), status := s,
        log := log g @ ReadInputRegisters 1 1 [device g (reads g) 1] # recovery_events s @
            [WriteRegisters 0x0801 [0x0300, 0, 0, 0], Sleep 50,
             WriteRegisters 0x0801 [0x8300, 0, 0, 0]]\<rparr>"
  obtain k es where k: "0 < k" "k \<le> 1000"
    and es: "es = [] \<or> es =
          [WriteRegister 0x1120 1, Sleep 100, WriteRegister 0x1120 0, Sleep 100,
           WriteRegister 0x0801 0x0100, Sleep 100, WriteRegister 0x0801 0x8100]"
    and w: "wait_process_command ?g2 =
       (Inr (),
        ?g2\<lparr>reads := reads ?g2 + k,
          log := log ?g2 @ status_reads (device ?g2) (reads ?g2) k @ es\<rparr>)"
    using wait_process_command_total [of ?g2] by blast
  have "release g = wait_success
       (g\<lparr>reads := Suc (reads g) + k, status := s,
          log := log g @ ReadInputRegisters 1 1 [device g (reads g) 1] # recovery_events s @
            [WriteRegisters 0x0801 [0x0300, 0, 0, 0], Sleep 50,
             WriteRegisters 0x0801 [0x8300, 0, 0, 0]] @
            status_reads (device g) (Suc (reads g)) k @ es @ [Sleep 1000]\<rparr>)"
    using w by (simp add: release_def pio_bind_def h io_defs update_order)
  with s k es show ?thesis by blast
qed

lemma release_block:
  assumes "handle_errors g = (Inr (), g1)"
  shows "release g =
     pio_bind
       (io_block [write_registers 0x0801 [0x0300, 0, 0, 0], sleep 50,
                  write_registers 0x0801 [0x8300, 0, 0, 0],
                  wait_process_command, sleep 1000])
       (\<lambda>_. wait_success) g1"
  using assms by (simp add: release_def pio_bind_def io_seq_def io_bind_def)

lemma release_accepted:
  assumes "status_field (device g (reads g) 1) = Inr s"
    and "k < 1000"
    and "\<forall>i<k. device g (Suc (reads g) + i) 1 \<le> 0x7FFF"
    and "0x7FFF < device g (Suc (reads g) + k) 1"
  shows "release g =
     wait_success (after_sleep 1000 (after_polls (Suc k) []
       (after_command [0x0300, 0, 0, 0] [0x8300, 0, 0, 0] (after_check s g))))"
proof -
  let ?c = "after_command [0x0300, 0, 0, 0] [0x8300, 0, 0, 0] (after_check s g)"
  have "wait_process_command ?c = (Inr (), after_polls (Suc k) [] ?c)"
    using assms(2-4) by (intro wait_process_command_accepted) simp_all
  from grasp_block [OF this] show ?thesis
    by (simp only: release_block [OF handle_errors_check [OF assms(1)]])
qed

lemma release_timed_out:
  assumes "status_field (device g (reads g) 1) = Inr s"
    and "\<forall>i<1000. device g (Suc (reads g) + i) 1 \<le> 0x7FFF"
  shows "release g =
     wait_success (after_sleep 1000 (after_polls 1000 soft_reset_events
       (after_command [0x0300, 0, 0, 0] [0x8300, 0, 0, 0] (after_check s g))))"
proof -
  let ?c = "after_command [0x0300, 0, 0, 0] [0x8300, 0, 0, 0] (after_check s g)"
  have "wait_process_command ?c = (Inr (), after_polls 1000 soft_reset_events ?c)"
    using assms(2) by (intro wait_process_command_timed_out) simp
  from grasp_block [OF this] show ?thesis
    by (simp only: release_block [OF handle_errors_check [OF assms(1)]])
qed

section \<open>Evaluating floats\<close>

text \<open>
  The two words of a 32-bit value go through the binary strings unchanged, in both
  directions.
\<close>

lemma position_words_32:
  assumes "n < 2 ^ 32"
  shows "position_words (zfill 32 (bin_digits n)) = Inr (n div 2 ^ 16, n mod 2 ^ 16)"
proof -
  have z: "zfill 32 (bin_digits n) = be_digits 32 n"
    using assms by (simp add: zfill_bin_digits)
  have "be_digits (16 + 16) n = be_digits 16 (n div 2 ^ 16) @ be_digits 16 n"
    by (rule be_digits_add)
  then have s: "be_digits 32 n = be_digits 16 (n div 2 ^ 16) @ be_digits 16 n" by simp
  from assms have "n div 2 ^ 16 < 2 ^ 16" by (simp add: less_mult_imp_div_less)
  then have "n div 2 ^ 16 mod 2 ^ 16 = n div 2 ^ 16" by simp
  then show ?thesis
    unfolding z s by (simp add: position_words_def py_int2_be_digits del: be_digits.simps)
qed

lemma py_int2_words:
  assumes "hi < 2 ^ 16" and "lo < 2 ^ 16"
  shows "py_int2 (zfill 16 (bin_digits hi) @ zfill 16 (bin_digits lo)) = Inr (hi * 2 ^ 16 + lo)"
proof -
  have "zfill 16 (bin_digits hi) = be_digits 16 hi" "zfill 16 (bin_digits lo) = be_digits 16 lo"
    using assms by (simp_all add: zfill_bin_digits)
  moreover have "be_digits 16 hi \<noteq> []"
    by (metis length_be_digits list.size(3) zero_neq_numeral)
  ultimately show ?thesis
    using assms by (simp add: py_int2_def parse_bin_append parse_bin_be_digits del: be_digits.simps)
qed

text \<open>Floor and ceiling of a quotient of numerals, for the simplifier.\<close>

lemma floor_rat_divide_numeral:
  "\<lfloor>numeral a / numeral b :: rat\<rfloor> = numeral a div numeral b"
  using floor_divide_of_int_eq [of "numeral a" "numeral b", where ?'a = rat] by simp

lemma floor_rat_neg_divide_numeral:
  "\<lfloor>- (numeral a / numeral b) :: rat\<rfloor> = - numeral a div numeral b"
  using floor_divide_of_int_eq [of "- numeral a" "numeral b", where ?'a = rat] by simp

lemma floor_rat_one_divide_numeral:
  "\<lfloor>1 / numeral b :: rat\<rfloor> = 1 div numeral b"
  using floor_divide_of_int_eq [of 1 "numeral b", where ?'a = rat] by simp

lemma ceiling_rat_divide_numeral:
  "\<lceil>numeral a / numeral b :: rat\<rceil> = - (- numeral a div numeral b)"
  unfolding ceiling_def using floor_rat_neg_divide_numeral [of a b] by simp

lemma ceiling_rat_neg_divide_numeral:
  "\<lceil>- (numeral a / numeral b) :: rat\<rceil> = - (numeral a div numeral b)"
  unfolding ceiling_def using floor_rat_divide_numeral [of a b] by simp

lemma ceiling_rat_one_divide_numeral:
  "\<lceil>1 / numeral b :: rat\<rceil> = - (- 1 div numeral b)"
  unfolding ceiling_def
  using floor_divide_of_int_eq [of "- 1" "numeral b", where ?'a = rat] by simp

lemmas rat_floor = floor_rat_divide_numeral floor_rat_neg_divide_numeral
  floor_rat_one_divide_numeral ceiling_rat_divide_numeral ceiling_rat_neg_divide_numeral
  ceiling_rat_one_divide_numeral

lemmas float_eval = float_of_int_def to_double_def double_of_rounded_def
  fl_round_def round_to_ulp_def floor_log2_def pow2_def round_even_def round_even_from_def
  POSITION_MAX_def nbits.simps pack_f_unpack_I_def pack_rounded_def single_bits_def
  single_fields_def pack_I_unpack_f_def single_of_fields_def int_of_float_def rat_floor

lemmas position_eval = position_mm_of_def decoded_position_def py_int2_words float_eval

section \<open>The table of positions\<close>

text \<open>
  For every target from 0 to 100: the position in millimetres that \<^verbatim>\<open>set_position\<close>
  computes (a double, written as the fraction it is), the 32 bits that
  \<^verbatim>\<open>struct.pack('!f', ...)\<close> gives it, and the percentage that \<^verbatim>\<open>get_position\<close>
  computes from the two words of these bits. Each line is computed from the
  definitions by the simplifier.
\<close>

lemma position_0:
  "position_mm_of 0 = Inr (Fin (1333103 / 32768))"
  "pack_f_unpack_I (Fin (1333103 / 32768)) = Inr 1109572472"
  "decoded_position 16930 47992 = Inr 0"
  by (simp_all add: position_eval)

lemma position_1:
  "position_mm_of 1 = Inr (Fin (5668377449327493 / 140737488355328))"
  "pack_f_unpack_I (Fin (5668377449327493 / 140737488355328)) = Inr 1109465824"
  "decoded_position 16929 6880 = Inr 0"
  by (simp_all add: position_eval)

lemma position_2:
  "position_mm_of 2 = Inr (Fin (2805560555727749 / 70368744177664))"
  "pack_f_unpack_I (Fin (2805560555727749 / 70368744177664)) = Inr 1109359176"
  "decoded_position 16927 31304 = Inr 1"
  by (simp_all add: position_eval)

lemma position_3:
  "position_mm_of 3 = Inr (Fin (5553864773583503 / 140737488355328))"
  "pack_f_unpack_I (Fin (5553864773583503 / 140737488355328)) = Inr 1109252527"
  "decoded_position 16925 55727 = Inr 3"
  by (simp_all add: position_eval)

lemma position_4:
  "position_mm_of 4 = Inr (Fin (1374152108927877 / 35184372088832))"
  "pack_f_unpack_I (Fin (1374152108927877 / 35184372088832)) = Inr 1109145879"
  "decoded_position 16924 14615 = Inr 4"
  by (simp_all add: position_eval)

lemma position_5:
  "position_mm_of 5 = Inr (Fin (5439352097839513 / 140737488355328))"
  "pack_f_unpack_I (Fin (5439352097839513 / 140737488355328)) = Inr 1109039231"
  "decoded_position 16922 39039 = Inr 4"
  by (simp_all add: position_eval)

lemma position_6:
  "position_mm_of 6 = Inr (Fin (2691047879983759 / 70368744177664))"
  "pack_f_unpack_I (Fin (2691047879983759 / 70368744177664)) = Inr 1108932583"
  "decoded_position 16920 63463 = Inr 5"
  by (simp_all add: position_eval)

lemma position_7:
  "position_mm_of 7 = Inr (Fin (1331209855523881 / 35184372088832))"
  "pack_f_unpack_I (Fin (1331209855523881 / 35184372088832)) = Inr 1108825934"
  "decoded_position 16919 22350 = Inr 7"
  by (simp_all add: position_eval)

lemma position_8:
  "position_mm_of 8 = Inr (Fin (5267583084223529 / 140737488355328))"
  "pack_f_unpack_I (Fin (5267583084223529 / 140737488355328)) = Inr 1108719286"
  "decoded_position 16917 46774 = Inr 8"
  by (simp_all add: position_eval)

lemma position_9:
  "position_mm_of 9 = Inr (Fin (2605163373175767 / 70368744177664))"
  "pack_f_unpack_I (Fin (2605163373175767 / 70368744177664)) = Inr 1108612638"
  "decoded_position 16916 5662 = Inr 8"
  by (simp_all add: position_eval)

lemma position_10:
  "position_mm_of 10 = Inr (Fin (5153070408479539 / 140737488355328))"
  "pack_f_unpack_I (Fin (5153070408479539 / 140737488355328)) = Inr 1108505990"
  "decoded_position 16914 30086 = Inr 9"
  by (simp_all add: position_eval)

lemma position_11:
  "position_mm_of 11 = Inr (Fin (636976758825943 / 17592186044416))"
  "pack_f_unpack_I (Fin (636976758825943 / 17592186044416)) = Inr 1108399341"
  "decoded_position 16912 54509 = Inr 11"
  by (simp_all add: position_eval)

lemma position_12:
  "position_mm_of 12 = Inr (Fin (5038557732735549 / 140737488355328))"
  "pack_f_unpack_I (Fin (5038557732735549 / 140737488355328)) = Inr 1108292693"
  "decoded_position 16911 13397 = Inr 12"
  by (simp_all add: position_eval)

lemma position_13:
  "position_mm_of 13 = Inr (Fin (4981301394863555 / 140737488355328))"
  "pack_f_unpack_I (Fin (4981301394863555 / 140737488355328)) = Inr 1108186045"
  "decoded_position 16909 37821 = Inr 12"
  by (simp_all add: position_eval)

lemma position_14:
  "position_mm_of 14 = Inr (Fin (615505632123945 / 17592186044416))"
  "pack_f_unpack_I (Fin (615505632123945 / 17592186044416)) = Inr 1108079397"
  "decoded_position 16907 62245 = Inr 13"
  by (simp_all add: position_eval)

lemma position_15:
  "position_mm_of 15 = Inr (Fin (4866788719119565 / 140737488355328))"
  "pack_f_unpack_I (Fin (4866788719119565 / 140737488355328)) = Inr 1107972748"
  "decoded_position 16906 21132 = Inr 15"
  by (simp_all add: position_eval)

lemma position_16:
  "position_mm_of 16 = Inr (Fin (2404766190623785 / 70368744177664))"
  "pack_f_unpack_I (Fin (2404766190623785 / 70368744177664)) = Inr 1107866100"
  "decoded_position 16904 45556 = Inr 16"
  by (simp_all add: position_eval)

lemma position_17:
  "position_mm_of 17 = Inr (Fin (4752276043375575 / 140737488355328))"
  "pack_f_unpack_I (Fin (4752276043375575 / 140737488355328)) = Inr 1107759452"
  "decoded_position 16903 4444 = Inr 16"
  by (simp_all add: position_eval)

lemma position_18:
  "position_mm_of 18 = Inr (Fin (1173754926375895 / 35184372088832))"
  "pack_f_unpack_I (Fin (1173754926375895 / 35184372088832)) = Inr 1107652804"
  "decoded_position 16901 28868 = Inr 17"
  by (simp_all add: position_eval)

lemma position_19:
  "position_mm_of 19 = Inr (Fin (2318881683815793 / 70368744177664))"
  "pack_f_unpack_I (Fin (2318881683815793 / 70368744177664)) = Inr 1107546155"
  "decoded_position 16899 53291 = Inr 19"
  by (simp_all add: position_eval)

lemma position_20:
  "position_mm_of 20 = Inr (Fin (4580507029759591 / 140737488355328))"
  "pack_f_unpack_I (Fin (4580507029759591 / 140737488355328)) = Inr 1107439507"
  "decoded_position 16898 12179 = Inr 20"
  by (simp_all add: position_eval)

lemma position_21:
  "position_mm_of 21 = Inr (Fin (1130812672971899 / 35184372088832))"
  "pack_f_unpack_I (Fin (1130812672971899 / 35184372088832)) = Inr 1107332859"
  "decoded_position 16896 36603 = Inr 20"
  by (simp_all add: position_eval)

lemma position_22:
  "position_mm_of 22 = Inr (Fin (4465994354015601 / 140737488355328))"
  "pack_f_unpack_I (Fin (4465994354015601 / 140737488355328)) = Inr 1107156165"
  "decoded_position 16893 56517 = Inr 22"
  by (simp_all add: position_eval)

lemma position_23:
  "position_mm_of 23 = Inr (Fin (2204369008071803 / 70368744177664))"
  "pack_f_unpack_I (Fin (2204369008071803 / 70368744177664)) = Inr 1106942869"
  "decoded_position 16890 39829 = Inr 22"
  by (simp_all add: position_eval)

lemma position_24:
  "position_mm_of 24 = Inr (Fin (4351481678271611 / 140737488355328))"
  "pack_f_unpack_I (Fin (4351481678271611 / 140737488355328)) = Inr 1106729572"
  "decoded_position 16887 23140 = Inr 24"
  by (simp_all add: position_eval)

lemma position_25:
  "position_mm_of 25 = Inr (Fin (3999309 / 131072))"
  "pack_f_unpack_I (Fin (3999309 / 131072)) = Inr 1106516276"
  "decoded_position 16884 6452 = Inr 25"
  by (simp_all add: position_eval)

lemma position_26:
  "position_mm_of 26 = Inr (Fin (4236969002527621 / 140737488355328))"
  "pack_f_unpack_I (Fin (4236969002527621 / 140737488355328)) = Inr 1106302980"
  "decoded_position 16880 55300 = Inr 25"
  by (simp_all add: position_eval)

lemma position_27:
  "position_mm_of 27 = Inr (Fin (2089856332327813 / 70368744177664))"
  "pack_f_unpack_I (Fin (2089856332327813 / 70368744177664)) = Inr 1106089683"
  "decoded_position 16877 38611 = Inr 27"
  by (simp_all add: position_eval)

lemma position_28:
  "position_mm_of 28 = Inr (Fin (4122456326783631 / 140737488355328))"
  "pack_f_unpack_I (Fin (4122456326783631 / 140737488355328)) = Inr 1105876387"
  "decoded_position 16874 21923 = Inr 27"
  by (simp_all add: position_eval)

lemma position_29:
  "position_mm_of 29 = Inr (Fin (8130399977823273 / 281474976710656))"
  "pack_f_unpack_I (Fin (8130399977823273 / 281474976710656)) = Inr 1105663090"
  "decoded_position 16871 5234 = Inr 29"
  by (simp_all add: position_eval)

lemma position_30:
  "position_mm_of 30 = Inr (Fin (8015887302079283 / 281474976710656))"
  "pack_f_unpack_I (Fin (8015887302079283 / 281474976710656)) = Inr 1105449794"
  "decoded_position 16867 54082 = Inr 29"
  by (simp_all add: position_eval)

lemma position_31:
  "position_mm_of 31 = Inr (Fin (7901374626335293 / 281474976710656))"
  "pack_f_unpack_I (Fin (7901374626335293 / 281474976710656)) = Inr 1105236497"
  "decoded_position 16864 37393 = Inr 31"
  by (simp_all add: position_eval)

lemma position_32:
  "position_mm_of 32 = Inr (Fin (973357743823913 / 35184372088832))"
  "pack_f_unpack_I (Fin (973357743823913 / 35184372088832)) = Inr 1105023201"
  "decoded_position 16861 20705 = Inr 31"
  by (simp_all add: position_eval)

lemma position_33:
  "position_mm_of 33 = Inr (Fin (3836174637423657 / 140737488355328))"
  "pack_f_unpack_I (Fin (3836174637423657 / 140737488355328)) = Inr 1104809904"
  "decoded_position 16858 4016 = Inr 33"
  by (simp_all add: position_eval)

lemma position_34:
  "position_mm_of 34 = Inr (Fin (7557836599103325 / 281474976710656))"
  "pack_f_unpack_I (Fin (7557836599103325 / 281474976710656)) = Inr 1104596608"
  "decoded_position 16854 52864 = Inr 33"
  by (simp_all add: position_eval)

lemma position_35:
  "position_mm_of 35 = Inr (Fin (7443323923359335 / 281474976710656))"
  "pack_f_unpack_I (Fin (7443323923359335 / 281474976710656)) = Inr 1104383311"
  "decoded_position 16851 36175 = Inr 35"
  by (simp_all add: position_eval)

lemma position_36:
  "position_mm_of 36 = Inr (Fin (7328811247615345 / 281474976710656))"
  "pack_f_unpack_I (Fin (7328811247615345 / 281474976710656)) = Inr 1104170015"
  "decoded_position 16848 19487 = Inr 35"
  by (simp_all add: position_eval)

lemma position_37:
  "position_mm_of 37 = Inr (Fin (7214298571871355 / 281474976710656))"
  "pack_f_unpack_I (Fin (7214298571871355 / 281474976710656)) = Inr 1103956718"
  "decoded_position 16845 2798 = Inr 37"
  by (simp_all add: position_eval)

lemma position_38:
  "position_mm_of 38 = Inr (Fin (7099785896127365 / 281474976710656))"
  "pack_f_unpack_I (Fin (7099785896127365 / 281474976710656)) = Inr 1103743422"
  "decoded_position 16841 51646 = Inr 37"
  by (simp_all add: position_eval)

lemma position_39:
  "position_mm_of 39 = Inr (Fin (6985273220383375 / 281474976710656))"
  "pack_f_unpack_I (Fin (6985273220383375 / 281474976710656)) = Inr 1103530125"
  "decoded_position 16838 34957 = Inr 39"
  by (simp_all add: position_eval)

lemma position_40:
  "position_mm_of 40 = Inr (Fin (6870760544639385 / 281474976710656))"
  "pack_f_unpack_I (Fin (6870760544639385 / 281474976710656)) = Inr 1103316829"
  "decoded_position 16835 18269 = Inr 39"
  by (simp_all add: position_eval)

lemma position_41:
  "position_mm_of 41 = Inr (Fin (6756247868895395 / 281474976710656))"
  "pack_f_unpack_I (Fin (6756247868895395 / 281474976710656)) = Inr 1103103532"
  "decoded_position 16832 1580 = Inr 41"
  by (simp_all add: position_eval)

lemma position_42:
  "position_mm_of 42 = Inr (Fin (3320867596575703 / 140737488355328))"
  "pack_f_unpack_I (Fin (3320867596575703 / 140737488355328)) = Inr 1102890236"
  "decoded_position 16828 50428 = Inr 41"
  by (simp_all add: position_eval)

lemma position_43:
  "position_mm_of 43 = Inr (Fin (815902814675927 / 35184372088832))"
  "pack_f_unpack_I (Fin (815902814675927 / 35184372088832)) = Inr 1102676939"
  "decoded_position 16825 33739 = Inr 43"
  by (simp_all add: position_eval)

lemma position_44:
  "position_mm_of 44 = Inr (Fin (6412709841663427 / 281474976710656))"
  "pack_f_unpack_I (Fin (6412709841663427 / 281474976710656)) = Inr 1102463643"
  "decoded_position 16822 17051 = Inr 43"
  by (simp_all add: position_eval)

lemma position_45:
  "position_mm_of 45 = Inr (Fin (6298197165919437 / 281474976710656))"
  "pack_f_unpack_I (Fin (6298197165919437 / 281474976710656)) = Inr 1102250346"
  "decoded_position 16819 362 = Inr 45"
  by (simp_all add: position_eval)

lemma position_46:
  "position_mm_of 46 = Inr (Fin (6183684490175447 / 281474976710656))"
  "pack_f_unpack_I (Fin (6183684490175447 / 281474976710656)) = Inr 1102037050"
  "decoded_position 16815 49210 = Inr 45"
  by (simp_all add: position_eval)

lemma position_47:
  "position_mm_of 47 = Inr (Fin (3034585907215729 / 140737488355328))"
  "pack_f_unpack_I (Fin (3034585907215729 / 140737488355328)) = Inr 1101823753"
  "decoded_position 16812 32521 = Inr 47"
  by (simp_all add: position_eval)

lemma position_48:
  "position_mm_of 48 = Inr (Fin (1488664784671867 / 70368744177664))"
  "pack_f_unpack_I (Fin (1488664784671867 / 70368744177664)) = Inr 1101610457"
  "decoded_position 16809 15833 = Inr 47"
  by (simp_all add: position_eval)

lemma position_49:
  "position_mm_of 49 = Inr (Fin (2920073231471739 / 140737488355328))"
  "pack_f_unpack_I (Fin (2920073231471739 / 140737488355328)) = Inr 1101397160"
  "decoded_position 16805 64680 = Inr 49"
  by (simp_all add: position_eval)

lemma position_50:
  "position_mm_of 50 = Inr (Fin (1333103 / 65536))"
  "pack_f_unpack_I (Fin (1333103 / 65536)) = Inr 1101183864"
  "decoded_position 16802 47992 = Inr 50"
  by (simp_all add: position_eval)

lemma position_51:
  "position_mm_of 51 = Inr (Fin (2805560555727749 / 140737488355328))"
  "pack_f_unpack_I (Fin (2805560555727749 / 140737488355328)) = Inr 1100970568"
  "decoded_position 16799 31304 = Inr 50"
  by (simp_all add: position_eval)

lemma position_52:
  "position_mm_of 52 = Inr (Fin (1374152108927877 / 70368744177664))"
  "pack_f_unpack_I (Fin (1374152108927877 / 70368744177664)) = Inr 1100757271"
  "decoded_position 16796 14615 = Inr 52"
  by (simp_all add: position_eval)

lemma position_53:
  "position_mm_of 53 = Inr (Fin (2691047879983759 / 140737488355328))"
  "pack_f_unpack_I (Fin (2691047879983759 / 140737488355328)) = Inr 1100543975"
  "decoded_position 16792 63463 = Inr 52"
  by (simp_all add: position_eval)

lemma position_54:
  "position_mm_of 54 = Inr (Fin (5267583084223529 / 281474976710656))"
  "pack_f_unpack_I (Fin (5267583084223529 / 281474976710656)) = Inr 1100330678"
  "decoded_position 16789 46774 = Inr 54"
  by (simp_all add: position_eval)

lemma position_55:
  "position_mm_of 55 = Inr (Fin (5153070408479539 / 281474976710656))"
  "pack_f_unpack_I (Fin (5153070408479539 / 281474976710656)) = Inr 1100117382"
  "decoded_position 16786 30086 = Inr 54"
  by (simp_all add: position_eval)

lemma position_56:
  "position_mm_of 56 = Inr (Fin (5038557732735549 / 281474976710656))"
  "pack_f_unpack_I (Fin (5038557732735549 / 281474976710656)) = Inr 1099904085"
  "decoded_position 16783 13397 = Inr 56"
  by (simp_all add: position_eval)

lemma position_57:
  "position_mm_of 57 = Inr (Fin (615505632123945 / 35184372088832))"
  "pack_f_unpack_I (Fin (615505632123945 / 35184372088832)) = Inr 1099690789"
  "decoded_position 16779 62245 = Inr 56"
  by (simp_all add: position_eval)

lemma position_58:
  "position_mm_of 58 = Inr (Fin (2404766190623785 / 140737488355328))"
  "pack_f_unpack_I (Fin (2404766190623785 / 140737488355328)) = Inr 1099477492"
  "decoded_position 16776 45556 = Inr 58"
  by (simp_all add: position_eval)

lemma position_59:
  "position_mm_of 59 = Inr (Fin (1173754926375895 / 70368744177664))"
  "pack_f_unpack_I (Fin (1173754926375895 / 70368744177664)) = Inr 1099264196"
  "decoded_position 16773 28868 = Inr 58"
  by (simp_all add: position_eval)

lemma position_60:
  "position_mm_of 60 = Inr (Fin (4580507029759591 / 281474976710656))"
  "pack_f_unpack_I (Fin (4580507029759591 / 281474976710656)) = Inr 1099050899"
  "decoded_position 16770 12179 = Inr 60"
  by (simp_all add: position_eval)

lemma position_61:
  "position_mm_of 61 = Inr (Fin (4465994354015601 / 281474976710656))"
  "pack_f_unpack_I (Fin (4465994354015601 / 281474976710656)) = Inr 1098767557"
  "decoded_position 16765 56517 = Inr 61"
  by (simp_all add: position_eval)

lemma position_62:
  "position_mm_of 62 = Inr (Fin (4351481678271611 / 281474976710656))"
  "pack_f_unpack_I (Fin (4351481678271611 / 281474976710656)) = Inr 1098340964"
  "decoded_position 16759 23140 = Inr 62"
  by (simp_all add: position_eval)

lemma position_63:
  "position_mm_of 63 = Inr (Fin (4236969002527621 / 281474976710656))"
  "pack_f_unpack_I (Fin (4236969002527621 / 281474976710656)) = Inr 1097914372"
  "decoded_position 16752 55300 = Inr 62"
  by (simp_all add: position_eval)

lemma position_64:
  "position_mm_of 64 = Inr (Fin (4122456326783631 / 281474976710656))"
  "pack_f_unpack_I (Fin (4122456326783631 / 281474976710656)) = Inr 1097487779"
  "decoded_position 16746 21923 = Inr 63"
  by (simp_all add: position_eval)

lemma position_65:
  "position_mm_of 65 = Inr (Fin (8015887302079283 / 562949953421312))"
  "pack_f_unpack_I (Fin (8015887302079283 / 562949953421312)) = Inr 1097061186"
  "decoded_position 16739 54082 = Inr 64"
  by (simp_all add: position_eval)

lemma position_66:
  "position_mm_of 66 = Inr (Fin (973357743823913 / 70368744177664))"
  "pack_f_unpack_I (Fin (973357743823913 / 70368744177664)) = Inr 1096634593"
  "decoded_position 16733 20705 = Inr 65"
  by (simp_all add: position_eval)

lemma position_67:
  "position_mm_of 67 = Inr (Fin (7557836599103325 / 562949953421312))"
  "pack_f_unpack_I (Fin (7557836599103325 / 562949953421312)) = Inr 1096208000"
  "decoded_position 16726 52864 = Inr 66"
  by (simp_all add: position_eval)

lemma position_68:
  "position_mm_of 68 = Inr (Fin (7328811247615345 / 562949953421312))"
  "pack_f_unpack_I (Fin (7328811247615345 / 562949953421312)) = Inr 1095781407"
  "decoded_position 16720 19487 = Inr 67"
  by (simp_all add: position_eval)

lemma position_69:
  "position_mm_of 69 = Inr (Fin (7099785896127365 / 562949953421312))"
  "pack_f_unpack_I (Fin (7099785896127365 / 562949953421312)) = Inr 1095354814"
  "decoded_position 16713 51646 = Inr 68"
  by (simp_all add: position_eval)

lemma position_70:
  "position_mm_of 70 = Inr (Fin (6870760544639385 / 562949953421312))"
  "pack_f_unpack_I (Fin (6870760544639385 / 562949953421312)) = Inr 1094928221"
  "decoded_position 16707 18269 = Inr 69"
  by (simp_all add: position_eval)

lemma position_71:
  "position_mm_of 71 = Inr (Fin (3320867596575703 / 281474976710656))"
  "pack_f_unpack_I (Fin (3320867596575703 / 281474976710656)) = Inr 1094501628"
  "decoded_position 16700 50428 = Inr 70"
  by (simp_all add: position_eval)

lemma position_72:
  "position_mm_of 72 = Inr (Fin (6412709841663427 / 562949953421312))"
  "pack_f_unpack_I (Fin (6412709841663427 / 562949953421312)) = Inr 1094075035"
  "decoded_position 16694 17051 = Inr 71"
  by (simp_all add: position_eval)

lemma position_73:
  "position_mm_of 73 = Inr (Fin (6183684490175447 / 562949953421312))"
  "pack_f_unpack_I (Fin (6183684490175447 / 562949953421312)) = Inr 1093648442"
  "decoded_position 16687 49210 = Inr 72"
  by (simp_all add: position_eval)

lemma position_74:
  "position_mm_of 74 = Inr (Fin (1488664784671867 / 140737488355328))"
  "pack_f_unpack_I (Fin (1488664784671867 / 140737488355328)) = Inr 1093221849"
  "decoded_position 16681 15833 = Inr 73"
  by (simp_all add: position_eval)

lemma position_75:
  "position_mm_of 75 = Inr (Fin (1333103 / 131072))"
  "pack_f_unpack_I (Fin (1333103 / 131072)) = Inr 1092795256"
  "decoded_position 16674 47992 = Inr 75"
  by (simp_all add: position_eval)

lemma position_76:
  "position_mm_of 76 = Inr (Fin (1374152108927877 / 140737488355328))"
  "pack_f_unpack_I (Fin (1374152108927877 / 140737488355328)) = Inr 1092368663"
  "decoded_position 16668 14615 = Inr 76"
  by (simp_all add: position_eval)

lemma position_77:
  "position_mm_of 77 = Inr (Fin (5267583084223529 / 562949953421312))"
  "pack_f_unpack_I (Fin (5267583084223529 / 562949953421312)) = Inr 1091942070"
  "decoded_position 16661 46774 = Inr 77"
  by (simp_all add: position_eval)

lemma position_78:
  "position_mm_of 78 = Inr (Fin (5038557732735549 / 562949953421312))"
  "pack_f_unpack_I (Fin (5038557732735549 / 562949953421312)) = Inr 1091515477"
  "decoded_position 16655 13397 = Inr 78"
  by (simp_all add: position_eval)

lemma position_79:
  "position_mm_of 79 = Inr (Fin (2404766190623785 / 281474976710656))"
  "pack_f_unpack_I (Fin (2404766190623785 / 281474976710656)) = Inr 1091088884"
  "decoded_position 16648 45556 = Inr 79"
  by (simp_all add: position_eval)

lemma position_80:
  "position_mm_of 80 = Inr (Fin (4580507029759591 / 562949953421312))"
  "pack_f_unpack_I (Fin (4580507029759591 / 562949953421312)) = Inr 1090662291"
  "decoded_position 16642 12179 = Inr 80"
  by (simp_all add: position_eval)

lemma position_81:
  "position_mm_of 81 = Inr (Fin (4351481678271611 / 562949953421312))"
  "pack_f_unpack_I (Fin (4351481678271611 / 562949953421312)) = Inr 1089952356"
  "decoded_position 16631 23140 = Inr 81"
  by (simp_all add: position_eval)

lemma position_82:
  "position_mm_of 82 = Inr (Fin (4122456326783631 / 562949953421312))"
  "pack_f_unpack_I (Fin (4122456326783631 / 562949953421312)) = Inr 1089099171"
  "decoded_position 16618 21923 = Inr 81"
  by (simp_all add: position_eval)

lemma position_83:
  "position_mm_of 83 = Inr (Fin (973357743823913 / 140737488355328))"
  "pack_f_unpack_I (Fin (973357743823913 / 140737488355328)) = Inr 1088245985"
  "decoded_position 16605 20705 = Inr 82"
  by (simp_all add: position_eval)

lemma position_84:
  "position_mm_of 84 = Inr (Fin (7328811247615345 / 1125899906842624))"
  "pack_f_unpack_I (Fin (7328811247615345 / 1125899906842624)) = Inr 1087392799"
  "decoded_position 16592 19487 = Inr 83"
  by (simp_all add: position_eval)

lemma position_85:
  "position_mm_of 85 = Inr (Fin (6870760544639385 / 1125899906842624))"
  "pack_f_unpack_I (Fin (6870760544639385 / 1125899906842624)) = Inr 1086539613"
  "decoded_position 16579 18269 = Inr 84"
  by (simp_all add: position_eval)

lemma position_86:
  "position_mm_of 86 = Inr (Fin (6412709841663427 / 1125899906842624))"
  "pack_f_unpack_I (Fin (6412709841663427 / 1125899906842624)) = Inr 1085686427"
  "decoded_position 16566 17051 = Inr 85"
  by (simp_all add: position_eval)

lemma position_87:
  "position_mm_of 87 = Inr (Fin (1488664784671867 / 281474976710656))"
  "pack_f_unpack_I (Fin (1488664784671867 / 281474976710656)) = Inr 1084833241"
  "decoded_position 16553 15833 = Inr 86"
  by (simp_all add: position_eval)

lemma position_88:
  "position_mm_of 88 = Inr (Fin (1374152108927877 / 281474976710656))"
  "pack_f_unpack_I (Fin (1374152108927877 / 281474976710656)) = Inr 1083980055"
  "decoded_position 16540 14615 = Inr 88"
  by (simp_all add: position_eval)

lemma position_89:
  "position_mm_of 89 = Inr (Fin (5038557732735549 / 1125899906842624))"
  "pack_f_unpack_I (Fin (5038557732735549 / 1125899906842624)) = Inr 1083126869"
  "decoded_position 16527 13397 = Inr 89"
  by (simp_all add: position_eval)

lemma position_90:
  "position_mm_of 90 = Inr (Fin (4580507029759591 / 1125899906842624))"
  "pack_f_unpack_I (Fin (4580507029759591 / 1125899906842624)) = Inr 1082273683"
  "decoded_position 16514 12179 = Inr 90"
  by (simp_all add: position_eval)

lemma position_91:
  "position_mm_of 91 = Inr (Fin (4122456326783631 / 1125899906842624))"
  "pack_f_unpack_I (Fin (4122456326783631 / 1125899906842624)) = Inr 1080710563"
  "decoded_position 16490 21923 = Inr 90"
  by (simp_all add: position_eval)

lemma position_92:
  "position_mm_of 92 = Inr (Fin (7328811247615345 / 2251799813685248))"
  "pack_f_unpack_I (Fin (7328811247615345 / 2251799813685248)) = Inr 1079004191"
  "decoded_position 16464 19487 = Inr 91"
  by (simp_all add: position_eval)

lemma position_93:
  "position_mm_of 93 = Inr (Fin (6412709841663427 / 2251799813685248))"
  "pack_f_unpack_I (Fin (6412709841663427 / 2251799813685248)) = Inr 1077297819"
  "decoded_position 16438 17051 = Inr 92"
  by (simp_all add: position_eval)

lemma position_94:
  "position_mm_of 94 = Inr (Fin (1374152108927877 / 562949953421312))"
  "pack_f_unpack_I (Fin (1374152108927877 / 562949953421312)) = Inr 1075591447"
  "decoded_position 16412 14615 = Inr 94"
  by (simp_all add: position_eval)

lemma position_95:
  "position_mm_of 95 = Inr (Fin (4580507029759591 / 2251799813685248))"
  "pack_f_unpack_I (Fin (4580507029759591 / 2251799813685248)) = Inr 1073885075"
  "decoded_position 16386 12179 = Inr 95"
  by (simp_all add: position_eval)

lemma position_96:
  "position_mm_of 96 = Inr (Fin (7328811247615345 / 4503599627370496))"
  "pack_f_unpack_I (Fin (7328811247615345 / 4503599627370496)) = Inr 1070615583"
  "decoded_position 16336 19487 = Inr 95"
  by (simp_all add: position_eval)

lemma position_97:
  "position_mm_of 97 = Inr (Fin (1374152108927877 / 1125899906842624))"
  "pack_f_unpack_I (Fin (1374152108927877 / 1125899906842624)) = Inr 1067202839"
  "decoded_position 16284 14615 = Inr 97"
  by (simp_all add: position_eval)

lemma position_98:
  "position_mm_of 98 = Inr (Fin (7328811247615345 / 9007199254740992))"
  "pack_f_unpack_I (Fin (7328811247615345 / 9007199254740992)) = Inr 1062226975"
  "decoded_position 16208 19487 = Inr 97"
  by (simp_all add: position_eval)

lemma position_99:
  "position_mm_of 99 = Inr (Fin (7328811247615345 / 18014398509481984))"
  "pack_f_unpack_I (Fin (7328811247615345 / 18014398509481984)) = Inr 1053838367"
  "decoded_position 16080 19487 = Inr 98"
  by (simp_all add: position_eval)

lemma position_100:
  "position_mm_of 100 = Inr (Fin 0)"
  "pack_f_unpack_I (Fin 0) = Inr 0"
  "decoded_position 0 0 = Inr 100"
  by (simp_all add: position_eval)

lemma positions_0_9:
  "\<forall>t \<in> set [0..9]. round_trip_within t"
  by (simp add: round_trip_within_def upto_rec_numeral upto.simps [of 0 9] upto.simps [of 1 9]
      position_0 position_1 position_2 position_3 position_4
      position_5 position_6 position_7 position_8 position_9)

lemma positions_10_19:
  "\<forall>t \<in> set [10..19]. round_trip_within t"
  by (simp add: round_trip_within_def upto_rec_numeral
      position_10 position_11 position_12 position_13 position_14
      position_15 position_16 position_17 position_18 position_19)

lemma positions_20_29:
  "\<forall>t \<in> set [20..29]. round_trip_within t"
  by (simp add: round_trip_within_def upto_rec_numeral
      position_20 position_21 position_22 position_23 position_24
      position_25 position_26 position_27 position_28 position_29)

lemma positions_30_39:
  "\<forall>t \<in> set [30..39]. round_trip_within t"
  by (simp add: round_trip_within_def upto_rec_numeral
      position_30 position_31 position_32 position_33 position_34
      position_35 position_36 position_37 position_38 position_39)

lemma positions_40_49:
  "\<forall>t \<in> set [40..49]. round_trip_within t"
  by (simp add: round_trip_within_def upto_rec_numeral
      position_40 position_41 position_42 position_43 position_44
      position_45 position_46 position_47 position_48 position_49)

lemma positions_50_59:
  "\<forall>t \<in> set [50..59]. round_trip_within t"
  by (simp add: round_trip_within_def upto_rec_numeral
      position_50 position_51 position_52 position_53 position_54
      position_55 position_56 position_57 position_58 position_59)

lemma positions_60_69:
  "\<forall>t \<in> set [60..69]. round_trip_within t"
  by (simp add: round_trip_within_def upto_rec_numeral
      position_60 position_61 position_62 position_63 position_64
      position_65 position_66 position_67 position_68 position_69)

lemma positions_70_79:
  "\<forall>t \<in> set [70..79]. round_trip_within t"
  by (simp add: round_trip_within_def upto_rec_numeral
      position_70 position_71 position_72 position_73 position_74
      position_75 position_76 position_77 position_78 position_79)

lemma positions_80_89:
  "\<forall>t \<in> set [80..89]. round_trip_within t"
  by (simp add: round_trip_within_def upto_rec_numeral
      position_80 position_81 position_82 position_83 position_84
      position_85 position_86 position_87 position_88 position_89)

lemma positions_90_99:
  "\<forall>t \<in> set [90..99]. round_trip_within t"
  by (simp add: round_trip_within_def upto_rec_numeral
      position_90 position_91 position_92 position_93 position_94
      position_95 position_96 position_97 position_98 position_99)

lemma positions_100_100:
  "\<forall>t \<in> set [100..100]. round_trip_within t"
  by (simp add: round_trip_within_def upto_rec_numeral
      position_100)

lemma round_trip_all:
  assumes "0 \<le> t" and "t \<le> 100"
  shows "round_trip_within t"
proof -
  consider "t \<in> set [0..9]" | "t \<in> set [10..19]" | "t \<in> set [20..29]"
    | "t \<in> set [30..39]" | "t \<in> set [40..49]" | "t \<in> set [50..59]"
    | "t \<in> set [60..69]" | "t \<in> set [70..79]" | "t \<in> set [80..89]"
    | "t \<in> set [90..99]" | "t \<in> set [100..100]"
    using assms by (simp del: upto_rec_numeral) linarith
  then show ?thesis
    using positions_0_9 positions_10_19 positions_20_29 positions_30_39 positions_40_49
      positions_50_59 positions_60_69 positions_70_79 positions_80_89 positions_90_99
      positions_100_100
    by cases blast+
qed

lemma encoded_position_bits:
  assumes "position_mm_of t = Inr mm" and "pack_f_unpack_I mm = Inr n" and "n < 2 ^ 32"
  shows "encoded_position t = Inr (n div 2 ^ 16, n mod 2 ^ 16)"
  using assms by (simp add: encoded_position_def position_bin_of_def position_words_32)

text \<open>
  The two words of the move payload, for every target: the table holds what
  \<^verbatim>\<open>set_position\<close> computes.
\<close>

lemma move_words_0_9:
  "\<forall>t \<in> set [0..9]. move_words_within t"
  by (simp add: move_words_within_def position_words_table_def single_value_def
      single_half_ulp_def upto_rec_numeral upto.simps [of 0 9] upto.simps [of 1 9]
      position_0(1,2) position_1(1,2) position_2(1,2) position_3(1,2) position_4(1,2) position_5(1,2) position_6(1,2) position_7(1,2) position_8(1,2) position_9(1,2))

lemma move_words_10_19:
  "\<forall>t \<in> set [10..19]. move_words_within t"
  by (simp add: move_words_within_def position_words_table_def single_value_def
      single_half_ulp_def upto_rec_numeral
      position_10(1,2) position_11(1,2) position_12(1,2) position_13(1,2) position_14(1,2) position_15(1,2) position_16(1,2) position_17(1,2) position_18(1,2) position_19(1,2))

lemma move_words_20_29:
  "\<forall>t \<in> set [20..29]. move_words_within t"
  by (simp add: move_words_within_def position_words_table_def single_value_def
      single_half_ulp_def upto_rec_numeral
      position_20(1,2) position_21(1,2) position_22(1,2) position_23(1,2) position_24(1,2) position_25(1,2) position_26(1,2) position_27(1,2) position_28(1,2) position_29(1,2))

lemma move_words_30_39:
  "\<forall>t \<in> set [30..39]. move_words_within t"
  by (simp add: move_words_within_def position_words_table_def single_value_def
      single_half_ulp_def upto_rec_numeral
      position_30(1,2) position_31(1,2) position_32(1,2) position_33(1,2) position_34(1,2) position_35(1,2) position_36(1,2) position_37(1,2) position_38(1,2) position_39(1,2))

lemma move_words_40_49:
  "\<forall>t \<in> set [40..49]. move_words_within t"
  by (simp add: move_words_within_def position_words_table_def single_value_def
      single_half_ulp_def upto_rec_numeral
      position_40(1,2) position_41(1,2) position_42(1,2) position_43(1,2) position_44(1,2) position_45(1,2) position_46(1,2) position_47(1,2) position_48(1,2) position_49(1,2))

lemma move_words_50_59:
  "\<forall>t \<in> set [50..59]. move_words_within t"
  by (simp add: move_words_within_def position_words_table_def single_value_def
      single_half_ulp_def upto_rec_numeral
      position_50(1,2) position_51(1,2) position_52(1,2) position_53(1,2) position_54(1,2) position_55(1,2) position_56(1,2) position_57(1,2) position_58(1,2) position_59(1,2))

lemma move_words_60_69:
  "\<forall>t \<in> set [60..69]. move_words_within t"
  by (simp add: move_words_within_def position_words_table_def single_value_def
      single_half_ulp_def upto_rec_numeral
      position_60(1,2) position_61(1,2) position_62(1,2) position_63(1,2) position_64(1,2) position_65(1,2) position_66(1,2) position_67(1,2) position_68(1,2) position_69(1,2))

lemma move_words_70_79:
  "\<forall>t \<in> set [70..79]. move_words_within t"
  by (simp add: move_words_within_def position_words_table_def single_value_def
      single_half_ulp_def upto_rec_numeral
      position_70(1,2) position_71(1,2) position_72(1,2) position_73(1,2) position_74(1,2) position_75(1,2) position_76(1,2) position_77(1,2) position_78(1,2) position_79(1,2))

lemma move_words_80_89:
  "\<forall>t \<in> set [80..89]. move_words_within t"
  by (simp add: move_words_within_def position_words_table_def single_value_def
      single_half_ulp_def upto_rec_numeral
      position_80(1,2) position_81(1,2) position_82(1,2) position_83(1,2) position_84(1,2) position_85(1,2) position_86(1,2) position_87(1,2) position_88(1,2) position_89(1,2))

lemma move_words_90_99:
  "\<forall>t \<in> set [90..99]. move_words_within t"
  by (simp add: move_words_within_def position_words_table_def single_value_def
      single_half_ulp_def upto_rec_numeral
      position_90(1,2) position_91(1,2) position_92(1,2) position_93(1,2) position_94(1,2) position_95(1,2) position_96(1,2) position_97(1,2) position_98(1,2) position_99(1,2))

lemma move_words_100_100:
  "\<forall>t \<in> set [100..100]. move_words_within t"
  by (simp add: move_words_within_def position_words_table_def single_value_def
      single_half_ulp_def upto_rec_numeral
      position_100(1,2))

lemma move_words_all:
  assumes "0 \<le> t" and "t \<le> 100"
  shows "move_words_within t"
proof -
  consider "t \<in> set [0..9]" | "t \<in> set [10..19]" | "t \<in> set [20..29]"
    | "t \<in> set [30..39]" | "t \<in> set [40..49]" | "t \<in> set [50..59]"
    | "t \<in> set [60..69]" | "t \<in> set [70..79]" | "t \<in> set [80..89]"
    | "t \<in> set [90..99]" | "t \<in> set [100..100]"
    using assms by (simp del: upto_rec_numeral) linarith
  then show ?thesis
    using move_words_0_9 move_words_10_19 move_words_20_29 move_words_30_39 move_words_40_49
      move_words_50_59 move_words_60_69 move_words_70_79 move_words_80_89 move_words_90_99
      move_words_100_100
    by cases blast+
qed

lemma encoded_position_table:
  assumes "0 \<le> t" and "t \<le> 100"
  shows "encoded_position t = Inr (position_words_table ! nat t)"
proof -
  from move_words_all [OF assms] obtain mm n
    where m: "position_mm_of t = Inr mm" and n: "pack_f_unpack_I mm = Inr n"
      and l: "n < 2 ^ 32"
      and w: "position_words_table ! nat t = (n div 2 ^ 16, n mod 2 ^ 16)"
    unfolding move_words_within_def by blast
  from m n l have "encoded_position t = Inr (n div 2 ^ 16, n mod 2 ^ 16)"
    by (rule encoded_position_bits)
  with w show ?thesis by simp
qed

section \<open>Set position, step by step\<close>

lemma set_position_range_error:
  assumes "isinstance_int v" and "\<not> (0 \<le> int_of v \<and> int_of v \<le> 100)"
    and "status_field (device g (reads g) 1) = Inr s"
  shows "set_position v g =
     Some (Inl (PyException ''Target position value out of range (between 0 and 100)''),
           after_check s g)"
  using assms(1,2)
  by (simp add: set_position_def pio_bind_def pio_raise_def handle_errors_check [OF assms(3)])

lemma set_position_low:
  assumes "isinstance_int v" and "0 \<le> int_of v" and "int_of v < 3"
    and "status_field (device g (reads g) 1) = Inr s"
  shows "set_position v g = grip (PyInt 4) (after_check s g)"
  using assms(1-3)
  by (simp add: set_position_def pio_bind_def handle_errors_check [OF assms(4)])

lemma set_position_high:
  assumes "isinstance_int v" and "97 < int_of v" and "int_of v \<le> 100"
    and "status_field (device g (reads g) 1) = Inr s"
  shows "set_position v g = release (after_check s g)"
  using assms(1-3)
  by (simp add: set_position_def pio_bind_def handle_errors_check [OF assms(4)])

lemma set_position_mid:
  assumes "isinstance_int v" and "3 \<le> int_of v" and "int_of v \<le> 97"
    and "status_field (device g (reads g) 1) = Inr s"
    and "encoded_position (int_of v) = Inr (hi, lo)"
    and "wait_process_command
           (after_command [0x0500, 0, int hi, int lo] [0x8500, 0, int hi, int lo]
              (after_check s g)) = (Inr (), g')"
  shows "set_position v g = Some (Inr (), g')"
  using assms(1-3,5,6)
  by (simp add: set_position_def pio_bind_def pio_of_def move_to_def
      handle_errors_check [OF assms(4)] io_defs after_command_def)

lemma set_position_mid_accepted:
  assumes "isinstance_int v" and "3 \<le> int_of v" and "int_of v \<le> 97"
    and "status_field (device g (reads g) 1) = Inr s"
    and "encoded_position (int_of v) = Inr (hi, lo)"
    and "k < 1000"
    and "\<forall>i<k. device g (Suc (reads g) + i) 1 \<le> 0x7FFF"
    and "0x7FFF < device g (Suc (reads g) + k) 1"
  shows "set_position v g =
     Some (Inr (), after_polls (Suc k) []
       (after_command [0x0500, 0, int hi, int lo] [0x8500, 0, int hi, int lo]
          (after_check s g)))"
proof -
  let ?c = "after_command [0x0500, 0, int hi, int lo] [0x8500, 0, int hi, int lo]
          (after_check s g)"
  have "wait_process_command ?c = (Inr (), after_polls (Suc k) [] ?c)"
    using assms(6-8) by (intro wait_process_command_accepted) simp_all
  then show ?thesis by (rule set_position_mid [OF assms(1-5)])
qed

lemma set_position_mid_timed_out:
  assumes "isinstance_int v" and "3 \<le> int_of v" and "int_of v \<le> 97"
    and "status_field (device g (reads g) 1) = Inr s"
    and "encoded_position (int_of v) = Inr (hi, lo)"
    and "\<forall>i<1000. device g (Suc (reads g) + i) 1 \<le> 0x7FFF"
  shows "set_position v g =
     Some (Inr (), after_polls 1000 soft_reset_events
       (after_command [0x0500, 0, int hi, int lo] [0x8500, 0, int hi, int lo]
          (after_check s g)))"
proof -
  let ?c = "after_command [0x0500, 0, int hi, int lo] [0x8500, 0, int hi, int lo]
          (after_check s g)"
  have "wait_process_command ?c = (Inr (), after_polls 1000 soft_reset_events ?c)"
    using assms(6) by (intro wait_process_command_timed_out) simp
  then show ?thesis by (rule set_position_mid [OF assms(1-5)])
qed

lemma move_accepted:
  assumes "isinstance_int v" and "3 \<le> int_of v" and "int_of v \<le> 97"
    and "status_field (device g (reads g) 1) = Inr s"
    and "position_words_table ! nat (int_of v) = (hi, lo)"
    and "k < 1000"
    and "\<forall>i<k. device g (Suc (reads g) + i) 1 \<le> 0x7FFF"
    and "0x7FFF < device g (Suc (reads g) + k) 1"
  shows "set_position v g =
     Some (Inr (), after_polls (Suc k) []
       (after_command [0x0500, 0, int hi, int lo] [0x8500, 0, int hi, int lo]
          (after_check s g)))"
proof -
  from assms(2,3,5) have "encoded_position (int_of v) = Inr (hi, lo)"
    using encoded_position_table [of "int_of v"] by simp
  from set_position_mid_accepted [OF assms(1-4) this assms(6-8)] show ?thesis .
qed

lemma move_timed_out:
  assumes "isinstance_int v" and "3 \<le> int_of v" and "int_of v \<le> 97"
    and "status_field (device g (reads g) 1) = Inr s"
    and "position_words_table ! nat (int_of v) = (hi, lo)"
    and "\<forall>i<1000. device g (Suc (reads g) + i) 1 \<le> 0x7FFF"
  shows "set_position v g =
     Some (Inr (), after_polls 1000 soft_reset_events
       (after_command [0x0500, 0, int hi, int lo] [0x8500, 0, int hi, int lo]
          (after_check s g)))"
proof -
  from assms(2,3,5) have "encoded_position (int_of v) = Inr (hi, lo)"
    using encoded_position_table [of "int_of v"] by simp
  from set_position_mid_timed_out [OF assms(1-4) this assms(6)] show ?thesis .
qed

section \<open>The error check before a command\<close>

lemma command_run:
  assumes "status_field (device g (reads g) 1) = Inr s"
  shows "io_block [handle_errors, write_register 0x0801 a, sleep 100, write_register 0x0801 b] g =
     (Inr (),
      g\<lparr>reads := Suc (reads g), status := s,
        log := log g @ ReadInputRegisters 1 1 [device g (reads g) 1] # recovery_events s @
          [WriteRegister 0x0801 a, Sleep 100, WriteRegister 0x0801 b]\<rparr>)"
  by (simp add: handle_errors_run [OF assms] io_defs)

lemma status_field_0: "status_field 0 = Inr 0"
  by (simp add: status_field_bits)

lemma status_field_0200: "status_field 0x0200 = Inr 2"
  by (simp add: status_field_bits)

lemma status_field_0300: "status_field 0x0300 = Inr 3"
  by (simp add: status_field_bits)

text \<open>
  C5: \<^verbatim>\<open>handle_errors\<close> reads the status word afresh. When the status it decodes is
  Error it writes exactly the acknowledge pair, \<^verbatim>\<open>0x0100\<close> then \<^verbatim>\<open>0x8100\<close> to
  \<^verbatim>\<open>0x0801\<close>; when it is OutOfSpecification it makes the soft reset (1 to \<^verbatim>\<open>0x1120\<close>,
  a wait, 0 to \<^verbatim>\<open>0x1120\<close>, a wait, the acknowledge pair); when it is Ready it writes
  nothing. Every command operation begins with this check: \<^verbatim>\<open>reference\<close>,
  \<^verbatim>\<open>measure_stroke\<close>, \<^verbatim>\<open>calibrate\<close> and \<^verbatim>\<open>stop\<close> write their command pair on the
  object that the check leaves. So do \<^verbatim>\<open>grip\<close>, \<^verbatim>\<open>release\<close> and \<^verbatim>\<open>set_position\<close>
  with an int argument: out of range they raise on that object; in range they write
  their payloads on it, wait for acceptance (a read above \<^verbatim>\<open>0x7FFF\<close> among the next
  1000 reads, the soft reset otherwise) and, for \<^verbatim>\<open>grip\<close> and \<^verbatim>\<open>release\<close>, sleep one
  second and wait for success; \<^verbatim>\<open>set_position\<close> below 3 is \<^verbatim>\<open>grip(4)\<close> and above 97
  \<^verbatim>\<open>release()\<close> on that object. The wait for success returns at the first read whose
  success bit is 1 and never returns when there is none.
\<close>

theorem error_recovery_policy:
  assumes "status_field (device g (reads g) 1) = Inr s"
  shows "handle_errors g =
       (Inr (),
        g\<lparr>reads := Suc (reads g), status := s,
          log := log g @ ReadInputRegisters 1 1 [device g (reads g) 1] #
            (if s = STATUS_ERROR then
               [WriteRegister 0x0801 0x0100, Sleep 100, WriteRegister 0x0801 0x8100, Sleep 100]
             else if s = STATUS_OOS then
               [WriteRegister 0x1120 1, Sleep 100, WriteRegister 0x1120 0, Sleep 100,
                WriteRegister 0x0801 0x0100, Sleep 100, WriteRegister 0x0801 0x8100, Sleep 100]
             else [])\<rparr>)
   \<and> (s = STATUS_READY \<longrightarrow>
        log (snd (handle_errors g)) = log g @ [ReadInputRegisters 1 1 [device g (reads g) 1]])
   \<and> reference g =
       (Inr (), (snd (handle_errors g))\<lparr>log := log (snd (handle_errors g)) @
          [WriteRegister 0x0801 0x0200, Sleep 100, WriteRegister 0x0801 0x8200]\<rparr>)
   \<and> measure_stroke g =
       (Inr (), (snd (handle_errors g))\<lparr>log := log (snd (handle_errors g)) @
          [WriteRegister 0x0801 0x0700, Sleep 100, WriteRegister 0x0801 0x8700]\<rparr>)
   \<and> calibrate g =
       (Inr (), (snd (handle_errors g))\<lparr>log := log (snd (handle_errors g)) @
          [WriteRegister 0x0801 0x0900, Sleep 100, WriteRegister 0x0801 0x8900]\<rparr>)
   \<and> stop g =
       (Inr (), (snd (handle_errors g))\<lparr>log := log (snd (handle_errors g)) @
          [WriteRegister 0x0801 0x0800, Sleep 100, WriteRegister 0x0801 0x8800]\<rparr>)
   \<and> (\<forall>v. isinstance_int v \<and> \<not> (1 \<le> int_of v \<and> int_of v \<le> 4) \<longrightarrow>
        grip v g =
          Some (Inl (PyException ''Force value out of range (Must be between 1 and 4)''),
                snd (handle_errors g)))
   \<and> (\<forall>v k. isinstance_int v \<and> 1 \<le> int_of v \<and> int_of v \<le> 4
            \<and> k < 1000
            \<and> (\<forall>i<k. device g (reads g + 1 + i) 1 \<le> 0x7FFF)
            \<and> 0x7FFF < device g (reads g + 1 + k) 1 \<longrightarrow>
        grip v g =
          wait_success (after_sleep 1000 (after_polls (k + 1) []
              (after_command [0x0400, (4 - int_of v) * 0x0100, 0, 0]
                 [0x8400, (4 - int_of v) * 0x0100, 0, 0] (snd (handle_errors g))))))
   \<and> (\<forall>v. isinstance_int v \<and> 1 \<le> int_of v \<and> int_of v \<le> 4
            \<and> (\<forall>i<1000. device g (reads g + 1 + i) 1 \<le> 0x7FFF) \<longrightarrow>
        grip v g =
          wait_success (after_sleep 1000 (after_polls 1000 soft_reset_events
              (after_command [0x0400, (4 - int_of v) * 0x0100, 0, 0]
                 [0x8400, (4 - int_of v) * 0x0100, 0, 0] (snd (handle_errors g))))))
   \<and> (\<forall>k. k < 1000
            \<and> (\<forall>i<k. device g (reads g + 1 + i) 1 \<le> 0x7FFF)
            \<and> 0x7FFF < device g (reads g + 1 + k) 1 \<longrightarrow>
        release g =
          wait_success (after_sleep 1000 (after_polls (k + 1) []
              (after_command [0x0300, 0, 0, 0]
                 [0x8300, 0, 0, 0] (snd (handle_errors g))))))
   \<and> ((\<forall>i<1000. device g (reads g + 1 + i) 1 \<le> 0x7FFF) \<longrightarrow>
        release g =
          wait_success (after_sleep 1000 (after_polls 1000 soft_reset_events
              (after_command [0x0300, 0, 0, 0]
                 [0x8300, 0, 0, 0] (snd (handle_errors g))))))
   \<and> (\<forall>v. isinstance_int v \<and> \<not> (0 \<le> int_of v \<and> int_of v \<le> 100) \<longrightarrow>
        set_position v g =
          Some (Inl (PyException ''Target position value out of range (between 0 and 100)''),
                snd (handle_errors g)))
   \<and> (\<forall>v. isinstance_int v \<and> 0 \<le> int_of v \<and> int_of v < 3 \<longrightarrow>
        set_position v g = grip (PyInt 4) (snd (handle_errors g)))
   \<and> (\<forall>v. isinstance_int v \<and> 97 < int_of v \<and> int_of v \<le> 100 \<longrightarrow>
        set_position v g = release (snd (handle_errors g)))
   \<and> (\<forall>v hi lo k. isinstance_int v \<and> 3 \<le> int_of v \<and> int_of v \<le> 97
            \<and> position_words_table ! nat (int_of v) = (hi, lo)
            \<and> k < 1000
            \<and> (\<forall>i<k. device g (reads g + 1 + i) 1 \<le> 0x7FFF)
            \<and> 0x7FFF < device g (reads g + 1 + k) 1 \<longrightarrow>
        set_position v g =
          Some (Inr (), after_polls (k + 1) []
            (after_command [0x0500, 0, int hi, int lo]
               [0x8500, 0, int hi, int lo] (snd (handle_errors g)))))
   \<and> (\<forall>v hi lo. isinstance_int v \<and> 3 \<le> int_of v \<and> int_of v \<le> 97
            \<and> position_words_table ! nat (int_of v) = (hi, lo)
            \<and> (\<forall>i<1000. device g (reads g + 1 + i) 1 \<le> 0x7FFF) \<longrightarrow>
        set_position v g =
          Some (Inr (), after_polls 1000 soft_reset_events
            (after_command [0x0500, 0, int hi, int lo]
               [0x8500, 0, int hi, int lo] (snd (handle_errors g)))))
   \<and> (\<forall>m j. (\<forall>i<j. success_field (device m (reads m + i) 1) \<noteq> Inr 1)
            \<and> success_field (device m (reads m + j) 1) = Inr 1 \<longrightarrow>
        wait_success m = Some (Inr (), after_success j m))
   \<and> (\<forall>m. (\<forall>i. success_field (device m (reads m + i) 1) \<noteq> Inr 1) \<longrightarrow>
        wait_success m = None)"
proof -
  note h = handle_errors_run [OF assms]
  have hc: "snd (handle_errors g) = after_check s g"
    by (simp add: handle_errors_check [OF assms])
  have c1: "handle_errors g =
           (Inr (),
            g\<lparr>reads := Suc (reads g), status := s,
              log := log g @ ReadInputRegisters 1 1 [device g (reads g) 1] #
                (if s = STATUS_ERROR then
                   [WriteRegister 0x0801 0x0100, Sleep 100, WriteRegister 0x0801 0x8100, Sleep 100]
                 else if s = STATUS_OOS then
                   [WriteRegister 0x1120 1, Sleep 100, WriteRegister 0x1120 0, Sleep 100,
                    WriteRegister 0x0801 0x0100, Sleep 100, WriteRegister 0x0801 0x8100, Sleep 100]
                 else [])\<rparr>)"
    by (simp add: h recovery_events_def)
  have c2: "(s = STATUS_READY \<longrightarrow>
            log (snd (handle_errors g)) = log g @ [ReadInputRegisters 1 1 [device g (reads g) 1]])"
    by (simp add: h recovery_events_def STATUS_READY_def STATUS_ERROR_def STATUS_OOS_def)
  have c3: "reference g =
           (Inr (), (snd (handle_errors g))\<lparr>log := log (snd (handle_errors g)) @
              [WriteRegister 0x0801 0x0200, Sleep 100, WriteRegister 0x0801 0x8200]\<rparr>)"
    by (simp add: reference_def command_run [OF assms] h del: io_block.simps)
  have c4: "measure_stroke g =
           (Inr (), (snd (handle_errors g))\<lparr>log := log (snd (handle_errors g)) @
              [WriteRegister 0x0801 0x0700, Sleep 100, WriteRegister 0x0801 0x8700]\<rparr>)"
    by (simp add: measure_stroke_def command_run [OF assms] h del: io_block.simps)
  have c5: "calibrate g =
           (Inr (), (snd (handle_errors g))\<lparr>log := log (snd (handle_errors g)) @
              [WriteRegister 0x0801 0x0900, Sleep 100, WriteRegister 0x0801 0x8900]\<rparr>)"
    by (simp add: calibrate_def command_run [OF assms] h del: io_block.simps)
  have c6: "stop g =
           (Inr (), (snd (handle_errors g))\<lparr>log := log (snd (handle_errors g)) @
              [WriteRegister 0x0801 0x0800, Sleep 100, WriteRegister 0x0801 0x8800]\<rparr>)"
    by (simp add: stop_def command_run [OF assms] h del: io_block.simps)
  have c7: "(\<forall>v. isinstance_int v \<and> \<not> (1 \<le> int_of v \<and> int_of v \<le> 4) \<longrightarrow>
            grip v g =
              Some (Inl (PyException ''Force value out of range (Must be between 1 and 4)''),
                    snd (handle_errors g)))"
    using grip_range_error [OF _ _ assms] by (simp add: hc)
  have c8: "(\<forall>v k. isinstance_int v \<and> 1 \<le> int_of v \<and> int_of v \<le> 4
                \<and> k < 1000
                \<and> (\<forall>i<k. device g (reads g + 1 + i) 1 \<le> 0x7FFF)
                \<and> 0x7FFF < device g (reads g + 1 + k) 1 \<longrightarrow>
            grip v g =
              wait_success (after_sleep 1000 (after_polls (k + 1) []
                  (after_command [0x0400, (4 - int_of v) * 0x0100, 0, 0]
                     [0x8400, (4 - int_of v) * 0x0100, 0, 0] (snd (handle_errors g))))))"
    using grip_accepted [OF _ _ _ assms] by (simp add: hc)
  have c9: "(\<forall>v. isinstance_int v \<and> 1 \<le> int_of v \<and> int_of v \<le> 4
                \<and> (\<forall>i<1000. device g (reads g + 1 + i) 1 \<le> 0x7FFF) \<longrightarrow>
            grip v g =
              wait_success (after_sleep 1000 (after_polls 1000 soft_reset_events
                  (after_command [0x0400, (4 - int_of v) * 0x0100, 0, 0]
                     [0x8400, (4 - int_of v) * 0x0100, 0, 0] (snd (handle_errors g))))))"
    using grip_timed_out [OF _ _ _ assms] by (simp add: hc)
  have c10: "(\<forall>k. k < 1000
                \<and> (\<forall>i<k. device g (reads g + 1 + i) 1 \<le> 0x7FFF)
                \<and> 0x7FFF < device g (reads g + 1 + k) 1 \<longrightarrow>
            release g =
              wait_success (after_sleep 1000 (after_polls (k + 1) []
                  (after_command [0x0300, 0, 0, 0]
                     [0x8300, 0, 0, 0] (snd (handle_errors g))))))"
    using release_accepted [OF assms] by (simp add: hc)
  have c11: "((\<forall>i<1000. device g (reads g + 1 + i) 1 \<le> 0x7FFF) \<longrightarrow>
            release g =
              wait_success (after_sleep 1000 (after_polls 1000 soft_reset_events
                  (after_command [0x0300, 0, 0, 0]
                     [0x8300, 0, 0, 0] (snd (handle_errors g))))))"
    using release_timed_out [OF assms] by (simp add: hc)
  have c12: "(\<forall>v. isinstance_int v \<and> \<not> (0 \<le> int_of v \<and> int_of v \<le> 100) \<longrightarrow>
            set_position v g =
              Some (Inl (PyException ''Target position value out of range (between 0 and 100)''),
                    snd (handle_errors g)))"
    using set_position_range_error [OF _ _ assms] by (simp add: hc)
  have c13: "(\<forall>v. isinstance_int v \<and> 0 \<le> int_of v \<and> int_of v < 3 \<longrightarrow>
            set_position v g = grip (PyInt 4) (snd (handle_errors g)))"
    using set_position_low [OF _ _ _ assms] by (simp add: hc)
  have c14: "(\<forall>v. isinstance_int v \<and> 97 < int_of v \<and> int_of v \<le> 100 \<longrightarrow>
            set_position v g = release (snd (handle_errors g)))"
    using set_position_high [OF _ _ _ assms] by (simp add: hc)
  have c15: "(\<forall>v hi lo k. isinstance_int v \<and> 3 \<le> int_of v \<and> int_of v \<le> 97
                \<and> position_words_table ! nat (int_of v) = (hi, lo)
                \<and> k < 1000
                \<and> (\<forall>i<k. device g (reads g + 1 + i) 1 \<le> 0x7FFF)
                \<and> 0x7FFF < device g (reads g + 1 + k) 1 \<longrightarrow>
            set_position v g =
              Some (Inr (), after_polls (k + 1) []
                (after_command [0x0500, 0, int hi, int lo]
                   [0x8500, 0, int hi, int lo] (snd (handle_errors g)))))"
    using move_accepted [OF _ _ _ assms] by (simp add: hc)
  have c16: "(\<forall>v hi lo. isinstance_int v \<and> 3 \<le> int_of v \<and> int_of v \<le> 97
                \<and> position_words_table ! nat (int_of v) = (hi, lo)
                \<and> (\<forall>i<1000. device g (reads g + 1 + i) 1 \<le> 0x7FFF) \<longrightarrow>
            set_position v g =
              Some (Inr (), after_polls 1000 soft_reset_events
                (after_command [0x0500, 0, int hi, int lo]
                   [0x8500, 0, int hi, int lo] (snd (handle_errors g)))))"
    using move_timed_out [OF _ _ _ assms] by (simp add: hc)
  have c17: "(\<forall>m j. (\<forall>i<j. success_field (device m (reads m + i) 1) \<noteq> Inr 1)
                \<and> success_field (device m (reads m + j) 1) = Inr 1 \<longrightarrow>
            wait_success m = Some (Inr (), after_success j m))"
    using wait_success_succeeds by blast
  have c18: "(\<forall>m. (\<forall>i. success_field (device m (reads m + i) 1) \<noteq> Inr 1) \<longrightarrow>
            wait_success m = None)"
    using wait_success_never by blast
  from c1 c2 c3 c4 c5 c6 c7 c8 c9 c10 c11 c12 c13 c14 c15 c16 c17 c18
  show ?thesis by (intro conjI)
qed

text \<open>
  The witness of C5: \<^verbatim>\<open>reference\<close> and \<^verbatim>\<open>release\<close> on a device whose status word
  is always \<^verbatim>\<open>0xC000\<close> (accepted, success, status Error).
\<close>

theorem error_recovery_policy_witness:
  "status_field (device (fresh (\<lambda>k a. 0xC000)) (reads (fresh (\<lambda>k a. 0xC000))) 1)
     = Inr STATUS_ERROR
   \<and> reference (fresh (\<lambda>k a. 0xC000)) =
       (Inr (),
        (fresh (\<lambda>k a. 0xC000))\<lparr>reads := 1, status := 0,
          log := [ReadInputRegisters 1 1 [0xC000],
                  WriteRegister 0x0801 0x0100, Sleep 100, WriteRegister 0x0801 0x8100, Sleep 100,
                  WriteRegister 0x0801 0x0200, Sleep 100, WriteRegister 0x0801 0x8200]\<rparr>)
   \<and> release (fresh (\<lambda>k a. 0xC000)) =
       Some (Inr (),
        (fresh (\<lambda>k a. 0xC000))\<lparr>reads := 3, status := 0,
          log := [ReadInputRegisters 1 1 [0xC000],
                  WriteRegister 0x0801 0x0100, Sleep 100, WriteRegister 0x0801 0x8100, Sleep 100,
                  WriteRegisters 0x0801 [0x0300, 0, 0, 0], Sleep 50,
                  WriteRegisters 0x0801 [0x8300, 0, 0, 0],
                  ReadInputRegisters 1 1 [0xC000], Sleep 1000,
                  ReadInputRegisters 1 1 [0xC000]]\<rparr>)"
proof -
  let ?g = "fresh (\<lambda>k a. 0xC000)"
  have s: "status_field (device ?g (reads ?g) 1) = Inr STATUS_ERROR"
    by (simp add: fresh_def status_field_C000 STATUS_ERROR_def)
  note t = error_recovery_policy [OF s]
  note t3 = t [THEN conjunct2, THEN conjunct2]
  note t10 = t3 [THEN conjunct2, THEN conjunct2, THEN conjunct2, THEN conjunct2, THEN conjunct2, THEN conjunct2, THEN conjunct2]
  note t17 = t10 [THEN conjunct2, THEN conjunct2, THEN conjunct2, THEN conjunct2, THEN conjunct2, THEN conjunct2, THEN conjunct2]
  from t [THEN conjunct1] have h: "handle_errors ?g =
       (Inr (),
        ?g\<lparr>reads := Suc (reads ?g), status := STATUS_ERROR,
          log := log ?g @ ReadInputRegisters 1 1 [device ?g (reads ?g) 1] #
            [WriteRegister 0x0801 0x0100, Sleep 100, WriteRegister 0x0801 0x8100, Sleep 100]\<rparr>)"
    by simp
  from t3 [THEN conjunct1] have r: "reference ?g =
       (Inr (), (snd (handle_errors ?g))\<lparr>log := log (snd (handle_errors ?g)) @
          [WriteRegister 0x0801 0x0200, Sleep 100, WriteRegister 0x0801 0x8200]\<rparr>)"
    by blast
  from t10 [THEN conjunct1] have l: "(0::nat) < 1000
            \<and> (\<forall>i<0. device ?g (reads ?g + 1 + i) 1 \<le> 0x7FFF)
            \<and> 0x7FFF < device ?g (reads ?g + 1 + 0) 1 \<longrightarrow>
        release ?g =
          wait_success (after_sleep 1000 (after_polls (0 + 1) []
              (after_command [0x0300, 0, 0, 0]
                 [0x8300, 0, 0, 0] (snd (handle_errors ?g)))))"
    by blast
  let ?m = "after_sleep 1000 (after_polls (0 + 1) []
              (after_command [0x0300, 0, 0, 0]
                 [0x8300, 0, 0, 0] (snd (handle_errors ?g))))"
  from t17 [THEN conjunct1] have w: "(\<forall>i<0. success_field (device ?m (reads ?m + i) 1) \<noteq> Inr 1)
            \<and> success_field (device ?m (reads ?m + 0) 1) = Inr 1 \<longrightarrow>
        wait_success ?m = Some (Inr (), after_success 0 ?m)"
    by blast
  from r h have 1: "reference ?g =
       (Inr (),
        ?g\<lparr>reads := 1, status := 0,
          log := [ReadInputRegisters 1 1 [0xC000],
                  WriteRegister 0x0801 0x0100, Sleep 100, WriteRegister 0x0801 0x8100, Sleep 100,
                  WriteRegister 0x0801 0x0200, Sleep 100, WriteRegister 0x0801 0x8200]\<rparr>)"
    by (simp add: fresh_def STATUS_ERROR_def)
  from l have "release ?g = wait_success ?m" by (simp add: fresh_def)
  moreover from w h have "wait_success ?m = Some (Inr (), after_success 0 ?m)"
    by (simp add: fresh_def success_field_C000)
  ultimately have "release ?g = Some (Inr (), after_success 0 ?m)" by simp
  with h have 2: "release ?g =
       Some (Inr (),
        ?g\<lparr>reads := 3, status := 0,
          log := [ReadInputRegisters 1 1 [0xC000],
                  WriteRegister 0x0801 0x0100, Sleep 100, WriteRegister 0x0801 0x8100, Sleep 100,
                  WriteRegisters 0x0801 [0x0300, 0, 0, 0], Sleep 50,
                  WriteRegisters 0x0801 [0x8300, 0, 0, 0],
                  ReadInputRegisters 1 1 [0xC000], Sleep 1000,
                  ReadInputRegisters 1 1 [0xC000]]\<rparr>)"
    by (simp add: after_defs fresh_def STATUS_ERROR_def status_reads_def success_polls_def)
  from s 1 2 show ?thesis by blast
qed

section \<open>Arguments out of range\<close>

text \<open>
  C6, as stated: an argument out of range is rejected before any register I/O. The code
  does not do so: in \<^verbatim>\<open>grip\<close> and in \<^verbatim>\<open>set_position\<close> the range check comes after
  the call of \<^verbatim>\<open>handle_errors\<close>. On a device in status Error, \<^verbatim>\<open>grip(5)\<close> and
  \<^verbatim>\<open>set_position(101)\<close> have read the status word and written the acknowledge pair
  when they raise.
\<close>

theorem range_error_after_io_counterexample:
  "grip (PyInt 5) (fresh (\<lambda>k a. 0)) =
     Some (Inl (PyException ''Force value out of range (Must be between 1 and 4)''),
       (fresh (\<lambda>k a. 0))\<lparr>reads := 1, status := 0,
          log := [ReadInputRegisters 1 1 [0],
                  WriteRegister 0x0801 0x0100, Sleep 100, WriteRegister 0x0801 0x8100,
                  Sleep 100]\<rparr>)
   \<and> set_position (PyInt 101) (fresh (\<lambda>k a. 0)) =
     Some (Inl (PyException ''Target position value out of range (between 0 and 100)''),
       (fresh (\<lambda>k a. 0))\<lparr>reads := 1, status := 0,
          log := [ReadInputRegisters 1 1 [0],
                  WriteRegister 0x0801 0x0100, Sleep 100, WriteRegister 0x0801 0x8100,
                  Sleep 100]\<rparr>)"
proof -
  let ?g = "fresh (\<lambda>k a. 0)"
  have s: "status_field (device ?g (reads ?g) 1) = Inr 0"
    by (simp add: fresh_def status_field_0)
  show ?thesis
    by (simp add: grip_def set_position_def pio_bind_def pio_raise_def
        handle_errors_run [OF s] recovery_events_def STATUS_ERROR_def)
      (simp add: fresh_def)
qed

text \<open>
  C6, amended: for an int argument out of range (force outside 1 to 4 for \<^verbatim>\<open>grip\<close>,
  target outside 0 to 100 for \<^verbatim>\<open>set_position\<close>) the operation raises the range error
  after the error check, that is after one read of the status word and the recovery
  writes that go with the status read, and before any command payload is written.
\<close>

theorem range_error_after_recovery:
  assumes "isinstance_int v"
  shows "\<exists>s. status_field (device g (reads g) 1) = Inr s
     \<and> (\<forall>a vs. WriteRegisters a vs \<notin> set (recovery_events s))
     \<and> (\<not> (1 \<le> int_of v \<and> int_of v \<le> 4) \<longrightarrow>
          grip v g =
            Some (Inl (PyException ''Force value out of range (Must be between 1 and 4)''),
              g\<lparr>reads := Suc (reads g), status := s,
                log := log g @ ReadInputRegisters 1 1 [device g (reads g) 1] #
                  recovery_events s\<rparr>))
     \<and> (\<not> (0 \<le> int_of v \<and> int_of v \<le> 100) \<longrightarrow>
          set_position v g =
            Some (Inl (PyException ''Target position value out of range (between 0 and 100)''),
              g\<lparr>reads := Suc (reads g), status := s,
                log := log g @ ReadInputRegisters 1 1 [device g (reads g) 1] #
                  recovery_events s\<rparr>))"
proof -
  obtain s where s: "status_field (device g (reads g) 1) = Inr s"
    using status_field_total by blast
  note h = handle_errors_run [OF s]
  have "\<not> (1 \<le> int_of v \<and> int_of v \<le> 4) \<longrightarrow>
          grip v g =
            Some (Inl (PyException ''Force value out of range (Must be between 1 and 4)''),
              g\<lparr>reads := Suc (reads g), status := s,
                log := log g @ ReadInputRegisters 1 1 [device g (reads g) 1] #
                  recovery_events s\<rparr>)"
    using assms by (simp add: grip_def pio_bind_def pio_raise_def h)
  moreover have "\<not> (0 \<le> int_of v \<and> int_of v \<le> 100) \<longrightarrow>
          set_position v g =
            Some (Inl (PyException ''Target position value out of range (between 0 and 100)''),
              g\<lparr>reads := Suc (reads g), status := s,
                log := log g @ ReadInputRegisters 1 1 [device g (reads g) 1] #
                  recovery_events s\<rparr>)"
    using assms by (simp add: set_position_def pio_bind_def pio_raise_def h)
  ultimately show ?thesis using s no_payload_recovery by blast
qed

text \<open>The witness of C6: \<^verbatim>\<open>grip(5)\<close> on a device that is ready.\<close>

theorem range_error_after_recovery_witness:
  "isinstance_int (PyInt 5)
   \<and> grip (PyInt 5) (fresh (\<lambda>k a. 0x0300)) =
       Some (Inl (PyException ''Force value out of range (Must be between 1 and 4)''),
         (fresh (\<lambda>k a. 0x0300))\<lparr>reads := 1, status := 3,
            log := [ReadInputRegisters 1 1 [0x0300]]\<rparr>)"
proof -
  let ?g = "fresh (\<lambda>k a. 0x0300)"
  have i: "isinstance_int (PyInt 5)" by simp
  from range_error_after_recovery [OF i, of ?g] obtain s
    where s: "status_field (device ?g (reads ?g) 1) = Inr s"
      and g: "\<not> (1 \<le> int_of (PyInt 5) \<and> int_of (PyInt 5) \<le> 4) \<longrightarrow>
          grip (PyInt 5) ?g =
            Some (Inl (PyException ''Force value out of range (Must be between 1 and 4)''),
              ?g\<lparr>reads := Suc (reads ?g), status := s,
                log := log ?g @ ReadInputRegisters 1 1 [device ?g (reads ?g) 1] #
                  recovery_events s\<rparr>)"
    by blast
  from s have "s = 3" by (simp add: fresh_def status_field_0300)
  with g have "grip (PyInt 5) ?g =
       Some (Inl (PyException ''Force value out of range (Must be between 1 and 4)''),
         ?g\<lparr>reads := 1, status := 3, log := [ReadInputRegisters 1 1 [0x0300]]\<rparr>)"
    by (simp add: fresh_def recovery_events_def STATUS_ERROR_def STATUS_OOS_def)
  with i show ?thesis by blast
qed

section \<open>Maintenance required\<close>

text \<open>
  C7, as stated: when the status read is MaintenanceRequired, every command operation
  fails with a blocking error before the command is issued. The code does not do so:
  \<^verbatim>\<open>handle_errors\<close> has no branch for the status 2, and \<^verbatim>\<open>reference\<close> on such a
  device returns normally after writing its command pair.
\<close>

theorem maintenance_counterexample:
  "status_field (device (fresh (\<lambda>k a. 0x0200)) (reads (fresh (\<lambda>k a. 0x0200))) 1)
     = Inr STATUS_MAINTENANCE
   \<and> reference (fresh (\<lambda>k a. 0x0200)) =
       (Inr (),
        (fresh (\<lambda>k a. 0x0200))\<lparr>reads := 1, status := 2,
          log := [ReadInputRegisters 1 1 [0x0200],
                  WriteRegister 0x0801 0x0200, Sleep 100, WriteRegister 0x0801 0x8200]\<rparr>)"
proof -
  let ?g = "fresh (\<lambda>k a. 0x0200)"
  have s: "status_field (device ?g (reads ?g) 1) = Inr 2"
    by (simp add: fresh_def status_field_0200)
  show ?thesis
    by (simp add: reference_def command_run [OF s] recovery_events_def STATUS_ERROR_def
        STATUS_OOS_def STATUS_MAINTENANCE_def del: io_block.simps)
      (simp add: fresh_def status_field_0200)
qed

text \<open>
  C7, amended: when the status read is MaintenanceRequired, the error check makes no
  recovery action (it logs its read of the status word and nothing else) and raises
  no error, and every command operation goes on to issue its command on the object
  \<open>g1\<close> that the check leaves: \<^verbatim>\<open>reference\<close>, \<^verbatim>\<open>measure_stroke\<close>, \<^verbatim>\<open>calibrate\<close> and
  \<^verbatim>\<open>stop\<close> write their command pair; \<^verbatim>\<open>grip\<close> and \<^verbatim>\<open>release\<close> write their payloads,
  wait for acceptance, sleep one second and wait for success; \<^verbatim>\<open>set_position\<close> below
  3 and above 97 does the same after the second error check of the call it delegates
  to, and from 3 to 97 it writes the move payloads and waits for acceptance. The only
  errors are the range errors of \<^verbatim>\<open>grip\<close> and \<^verbatim>\<open>set_position\<close>, as for any status.
\<close>

theorem maintenance_not_handled:
  assumes "status_field (device g (reads g) 1) = Inr STATUS_MAINTENANCE"
  shows "(let g1 = g\<lparr>reads := Suc (reads g), status := STATUS_MAINTENANCE,
                     log := log g @ [ReadInputRegisters 1 1 [device g (reads g) 1]]\<rparr>
    in handle_errors g = (Inr (), g1)
     \<and> reference g = (Inr (), g1\<lparr>log := log g1 @
            [WriteRegister 0x0801 0x0200, Sleep 100, WriteRegister 0x0801 0x8200]\<rparr>)
     \<and> measure_stroke g = (Inr (), g1\<lparr>log := log g1 @
            [WriteRegister 0x0801 0x0700, Sleep 100, WriteRegister 0x0801 0x8700]\<rparr>)
     \<and> calibrate g = (Inr (), g1\<lparr>log := log g1 @
            [WriteRegister 0x0801 0x0900, Sleep 100, WriteRegister 0x0801 0x8900]\<rparr>)
     \<and> stop g = (Inr (), g1\<lparr>log := log g1 @
            [WriteRegister 0x0801 0x0800, Sleep 100, WriteRegister 0x0801 0x8800]\<rparr>)
     \<and> (\<forall>v. isinstance_int v \<and> \<not> (1 \<le> int_of v \<and> int_of v \<le> 4) \<longrightarrow>
          grip v g =
            Some (Inl (PyException ''Force value out of range (Must be between 1 and 4)''), g1))
     \<and> (\<forall>force k. 1 \<le> force \<and> force \<le> 4
              \<and> k < 1000
              \<and> (\<forall>i<k. device g (reads g + 1 + i) 1 \<le> 0x7FFF)
              \<and> 0x7FFF < device g (reads g + 1 + k) 1 \<longrightarrow>
          grip (PyInt force) g =
            wait_success (after_sleep 1000 (after_polls (k + 1) []
                (after_command [0x0400, (4 - force) * 0x0100, 0, 0]
                   [0x8400, (4 - force) * 0x0100, 0, 0] g1))))
     \<and> (\<forall>force. 1 \<le> force \<and> force \<le> 4
              \<and> (\<forall>i<1000. device g (reads g + 1 + i) 1 \<le> 0x7FFF) \<longrightarrow>
          grip (PyInt force) g =
            wait_success (after_sleep 1000 (after_polls 1000 soft_reset_events
                (after_command [0x0400, (4 - force) * 0x0100, 0, 0]
                   [0x8400, (4 - force) * 0x0100, 0, 0] g1))))
     \<and> (\<forall>k. k < 1000
              \<and> (\<forall>i<k. device g (reads g + 1 + i) 1 \<le> 0x7FFF)
              \<and> 0x7FFF < device g (reads g + 1 + k) 1 \<longrightarrow>
          release g =
            wait_success (after_sleep 1000 (after_polls (k + 1) []
                (after_command [0x0300, 0, 0, 0]
                   [0x8300, 0, 0, 0] g1))))
     \<and> ((\<forall>i<1000. device g (reads g + 1 + i) 1 \<le> 0x7FFF) \<longrightarrow>
          release g =
            wait_success (after_sleep 1000 (after_polls 1000 soft_reset_events
                (after_command [0x0300, 0, 0, 0]
                   [0x8300, 0, 0, 0] g1))))
     \<and> (\<forall>t. \<not> (0 \<le> t \<and> t \<le> 100) \<longrightarrow>
          set_position (PyInt t) g =
            Some (Inl (PyException ''Target position value out of range (between 0 and 100)''),
                  g1))
     \<and> (\<forall>t s2 k. 0 \<le> t \<and> t < 3 \<and> status_field (device g (reads g + 1) 1) = Inr s2
              \<and> k < 1000
              \<and> (\<forall>i<k. device g (reads g + 2 + i) 1 \<le> 0x7FFF)
              \<and> 0x7FFF < device g (reads g + 2 + k) 1 \<longrightarrow>
          set_position (PyInt t) g =
            wait_success (after_sleep 1000 (after_polls (k + 1) []
                (after_command [0x0400, 0, 0, 0]
                   [0x8400, 0, 0, 0] (after_check s2 g1)))))
     \<and> (\<forall>t s2. 0 \<le> t \<and> t < 3 \<and> status_field (device g (reads g + 1) 1) = Inr s2
              \<and> (\<forall>i<1000. device g (reads g + 2 + i) 1 \<le> 0x7FFF) \<longrightarrow>
          set_position (PyInt t) g =
            wait_success (after_sleep 1000 (after_polls 1000 soft_reset_events
                (after_command [0x0400, 0, 0, 0]
                   [0x8400, 0, 0, 0] (after_check s2 g1)))))
     \<and> (\<forall>t s2 k. 97 < t \<and> t \<le> 100 \<and> status_field (device g (reads g + 1) 1) = Inr s2
              \<and> k < 1000
              \<and> (\<forall>i<k. device g (reads g + 2 + i) 1 \<le> 0x7FFF)
              \<and> 0x7FFF < device g (reads g + 2 + k) 1 \<longrightarrow>
          set_position (PyInt t) g =
            wait_success (after_sleep 1000 (after_polls (k + 1) []
                (after_command [0x0300, 0, 0, 0]
                   [0x8300, 0, 0, 0] (after_check s2 g1)))))
     \<and> (\<forall>t s2. 97 < t \<and> t \<le> 100 \<and> status_field (device g (reads g + 1) 1) = Inr s2
              \<and> (\<forall>i<1000. device g (reads g + 2 + i) 1 \<le> 0x7FFF) \<longrightarrow>
          set_position (PyInt t) g =
            wait_success (after_sleep 1000 (after_polls 1000 soft_reset_events
                (after_command [0x0300, 0, 0, 0]
                   [0x8300, 0, 0, 0] (after_check s2 g1)))))
     \<and> (\<forall>t hi lo k. 3 \<le> t \<and> t \<le> 97 \<and> position_words_table ! nat t = (hi, lo)
              \<and> k < 1000
              \<and> (\<forall>i<k. device g (reads g + 1 + i) 1 \<le> 0x7FFF)
              \<and> 0x7FFF < device g (reads g + 1 + k) 1 \<longrightarrow>
          set_position (PyInt t) g =
            Some (Inr (), after_polls (k + 1) []
              (after_command [0x0500, 0, int hi, int lo]
                 [0x8500, 0, int hi, int lo] g1)))
     \<and> (\<forall>t hi lo. 3 \<le> t \<and> t \<le> 97 \<and> position_words_table ! nat t = (hi, lo)
              \<and> (\<forall>i<1000. device g (reads g + 1 + i) 1 \<le> 0x7FFF) \<longrightarrow>
          set_position (PyInt t) g =
            Some (Inr (), after_polls 1000 soft_reset_events
              (after_command [0x0500, 0, int hi, int lo]
                 [0x8500, 0, int hi, int lo] g1)))
     \<and> (\<forall>m j. (\<forall>i<j. success_field (device m (reads m + i) 1) \<noteq> Inr 1)
              \<and> success_field (device m (reads m + j) 1) = Inr 1 \<longrightarrow>
          wait_success m = Some (Inr (), after_success j m))
     \<and> (\<forall>m. (\<forall>i. success_field (device m (reads m + i) 1) \<noteq> Inr 1) \<longrightarrow>
          wait_success m = None))"
proof -
  let ?g1 = "g\<lparr>reads := Suc (reads g), status := STATUS_MAINTENANCE,
                     log := log g @ [ReadInputRegisters 1 1 [device g (reads g) 1]]\<rparr>"
  note h = handle_errors_run [OF assms]
  have r: "recovery_events STATUS_MAINTENANCE = []"
    by (simp add: recovery_events_def STATUS_ERROR_def STATUS_OOS_def STATUS_MAINTENANCE_def)
  have hc: "after_check STATUS_MAINTENANCE g =
      g\<lparr>reads := Suc (reads g), status := STATUS_MAINTENANCE,
        log := log g @ [ReadInputRegisters 1 1 [device g (reads g) 1]]\<rparr>"
    by (simp add: after_check_def r)
  have low: "set_position (PyInt t) g = grip (PyInt 4) ?g1"
    if "0 \<le> t" "t < 3" for t
    using set_position_low [OF _ _ _ assms, of "PyInt t"] that by (simp add: hc)
  have high: "set_position (PyInt t) g = release ?g1"
    if "97 < t" "t \<le> 100" for t
    using set_position_high [OF _ _ _ assms, of "PyInt t"] that by (simp add: hc)
  have ga: "grip (PyInt 4) ?g1 =
      wait_success (after_sleep 1000 (after_polls (k + 1) []
              (after_command [0x0400, 0, 0, 0]
                 [0x8400, 0, 0, 0] (after_check s2 ?g1))))"
    if "status_field (device g (reads g + 1) 1) = Inr s2" "k < 1000"
      "\<forall>i<k. device g (reads g + 2 + i) 1 \<le> 0x7FFF" "0x7FFF < device g (reads g + 2 + k) 1"
    for s2 k
    using grip_accepted [of "PyInt 4" ?g1 s2 k] that by simp
  have gt: "grip (PyInt 4) ?g1 =
      wait_success (after_sleep 1000 (after_polls 1000 soft_reset_events
              (after_command [0x0400, 0, 0, 0]
                 [0x8400, 0, 0, 0] (after_check s2 ?g1))))"
    if "status_field (device g (reads g + 1) 1) = Inr s2" "\<forall>i<1000. device g (reads g + 2 + i) 1 \<le> 0x7FFF"
    for s2
    using grip_timed_out [of "PyInt 4" ?g1 s2] that by simp
  have ra: "release ?g1 =
      wait_success (after_sleep 1000 (after_polls (k + 1) []
              (after_command [0x0300, 0, 0, 0]
                 [0x8300, 0, 0, 0] (after_check s2 ?g1))))"
    if "status_field (device g (reads g + 1) 1) = Inr s2" "k < 1000"
      "\<forall>i<k. device g (reads g + 2 + i) 1 \<le> 0x7FFF" "0x7FFF < device g (reads g + 2 + k) 1"
    for s2 k
    using release_accepted [of ?g1 s2 k] that by simp
  have rt: "release ?g1 =
      wait_success (after_sleep 1000 (after_polls 1000 soft_reset_events
              (after_command [0x0300, 0, 0, 0]
                 [0x8300, 0, 0, 0] (after_check s2 ?g1))))"
    if "status_field (device g (reads g + 1) 1) = Inr s2" "\<forall>i<1000. device g (reads g + 2 + i) 1 \<le> 0x7FFF"
    for s2
    using release_timed_out [of ?g1 s2] that by simp
  have c1: "handle_errors g = (Inr (), ?g1)"
    by (simp add: h r)
  have c2: "reference g = (Inr (), ?g1\<lparr>log := log ?g1 @
              [WriteRegister 0x0801 0x0200, Sleep 100, WriteRegister 0x0801 0x8200]\<rparr>)"
    by (simp add: reference_def command_run [OF assms] h r del: io_block.simps)
  have c3: "measure_stroke g = (Inr (), ?g1\<lparr>log := log ?g1 @
              [WriteRegister 0x0801 0x0700, Sleep 100, WriteRegister 0x0801 0x8700]\<rparr>)"
    by (simp add: measure_stroke_def command_run [OF assms] h r del: io_block.simps)
  have c4: "calibrate g = (Inr (), ?g1\<lparr>log := log ?g1 @
              [WriteRegister 0x0801 0x0900, Sleep 100, WriteRegister 0x0801 0x8900]\<rparr>)"
    by (simp add: calibrate_def command_run [OF assms] h r del: io_block.simps)
  have c5: "stop g = (Inr (), ?g1\<lparr>log := log ?g1 @
              [WriteRegister 0x0801 0x0800, Sleep 100, WriteRegister 0x0801 0x8800]\<rparr>)"
    by (simp add: stop_def command_run [OF assms] h r del: io_block.simps)
  have c6: "(\<forall>v. isinstance_int v \<and> \<not> (1 \<le> int_of v \<and> int_of v \<le> 4) \<longrightarrow>
            grip v g =
              Some (Inl (PyException ''Force value out of range (Must be between 1 and 4)''), ?g1))"
    using grip_range_error [OF _ _ assms] by (simp add: hc)
  have c7: "(\<forall>force k. 1 \<le> force \<and> force \<le> 4
                \<and> k < 1000
                \<and> (\<forall>i<k. device g (reads g + 1 + i) 1 \<le> 0x7FFF)
                \<and> 0x7FFF < device g (reads g + 1 + k) 1 \<longrightarrow>
            grip (PyInt force) g =
              wait_success (after_sleep 1000 (after_polls (k + 1) []
                  (after_command [0x0400, (4 - force) * 0x0100, 0, 0]
                     [0x8400, (4 - force) * 0x0100, 0, 0] ?g1))))"
    using grip_accepted [where v = "PyInt force" for force, OF _ _ _ assms]
      by (simp add: hc)
  have c8: "(\<forall>force. 1 \<le> force \<and> force \<le> 4
                \<and> (\<forall>i<1000. device g (reads g + 1 + i) 1 \<le> 0x7FFF) \<longrightarrow>
            grip (PyInt force) g =
              wait_success (after_sleep 1000 (after_polls 1000 soft_reset_events
                  (after_command [0x0400, (4 - force) * 0x0100, 0, 0]
                     [0x8400, (4 - force) * 0x0100, 0, 0] ?g1))))"
    using grip_timed_out [where v = "PyInt force" for force, OF _ _ _ assms]
      by (simp add: hc)
  have c9: "(\<forall>k. k < 1000
                \<and> (\<forall>i<k. device g (reads g + 1 + i) 1 \<le> 0x7FFF)
                \<and> 0x7FFF < device g (reads g + 1 + k) 1 \<longrightarrow>
            release g =
              wait_success (after_sleep 1000 (after_polls (k + 1) []
                  (after_command [0x0300, 0, 0, 0]
                     [0x8300, 0, 0, 0] ?g1))))"
    using release_accepted [OF assms] by (simp add: hc)
  have c10: "((\<forall>i<1000. device g (reads g + 1 + i) 1 \<le> 0x7FFF) \<longrightarrow>
            release g =
              wait_success (after_sleep 1000 (after_polls 1000 soft_reset_events
                  (after_command [0x0300, 0, 0, 0]
                     [0x8300, 0, 0, 0] ?g1))))"
    using release_timed_out [OF assms] by (simp add: hc)
  have c11: "(\<forall>t. \<not> (0 \<le> t \<and> t \<le> 100) \<longrightarrow>
            set_position (PyInt t) g =
              Some (Inl (PyException ''Target position value out of range (between 0 and 100)''),
                    ?g1))"
    using set_position_range_error [where v = "PyInt t" for t, OF _ _ assms]
      by (simp add: hc)
  have c12: "(\<forall>t s2 k. 0 \<le> t \<and> t < 3 \<and> status_field (device g (reads g + 1) 1) = Inr s2
                \<and> k < 1000
                \<and> (\<forall>i<k. device g (reads g + 2 + i) 1 \<le> 0x7FFF)
                \<and> 0x7FFF < device g (reads g + 2 + k) 1 \<longrightarrow>
            set_position (PyInt t) g =
              wait_success (after_sleep 1000 (after_polls (k + 1) []
                  (after_command [0x0400, 0, 0, 0]
                     [0x8400, 0, 0, 0] (after_check s2 ?g1)))))"
    using low ga by simp
  have c13: "(\<forall>t s2. 0 \<le> t \<and> t < 3 \<and> status_field (device g (reads g + 1) 1) = Inr s2
                \<and> (\<forall>i<1000. device g (reads g + 2 + i) 1 \<le> 0x7FFF) \<longrightarrow>
            set_position (PyInt t) g =
              wait_success (after_sleep 1000 (after_polls 1000 soft_reset_events
                  (after_command [0x0400, 0, 0, 0]
                     [0x8400, 0, 0, 0] (after_check s2 ?g1)))))"
    using low gt by simp
  have c14: "(\<forall>t s2 k. 97 < t \<and> t \<le> 100 \<and> status_field (device g (reads g + 1) 1) = Inr s2
                \<and> k < 1000
                \<and> (\<forall>i<k. device g (reads g + 2 + i) 1 \<le> 0x7FFF)
                \<and> 0x7FFF < device g (reads g + 2 + k) 1 \<longrightarrow>
            set_position (PyInt t) g =
              wait_success (after_sleep 1000 (after_polls (k + 1) []
                  (after_command [0x0300, 0, 0, 0]
                     [0x8300, 0, 0, 0] (after_check s2 ?g1)))))"
    using high ra by simp
  have c15: "(\<forall>t s2. 97 < t \<and> t \<le> 100 \<and> status_field (device g (reads g + 1) 1) = Inr s2
                \<and> (\<forall>i<1000. device g (reads g + 2 + i) 1 \<le> 0x7FFF) \<longrightarrow>
            set_position (PyInt t) g =
              wait_success (after_sleep 1000 (after_polls 1000 soft_reset_events
                  (after_command [0x0300, 0, 0, 0]
                     [0x8300, 0, 0, 0] (after_check s2 ?g1)))))"
    using high rt by simp
  have c16: "(\<forall>t hi lo k. 3 \<le> t \<and> t \<le> 97 \<and> position_words_table ! nat t = (hi, lo)
                \<and> k < 1000
                \<and> (\<forall>i<k. device g (reads g + 1 + i) 1 \<le> 0x7FFF)
                \<and> 0x7FFF < device g (reads g + 1 + k) 1 \<longrightarrow>
            set_position (PyInt t) g =
              Some (Inr (), after_polls (k + 1) []
                (after_command [0x0500, 0, int hi, int lo]
                   [0x8500, 0, int hi, int lo] ?g1)))"
    using move_accepted [where v = "PyInt t" for t, OF _ _ _ assms]
      by (simp add: hc)
  have c17: "(\<forall>t hi lo. 3 \<le> t \<and> t \<le> 97 \<and> position_words_table ! nat t = (hi, lo)
                \<and> (\<forall>i<1000. device g (reads g + 1 + i) 1 \<le> 0x7FFF) \<longrightarrow>
            set_position (PyInt t) g =
              Some (Inr (), after_polls 1000 soft_reset_events
                (after_command [0x0500, 0, int hi, int lo]
                   [0x8500, 0, int hi, int lo] ?g1)))"
    using move_timed_out [where v = "PyInt t" for t, OF _ _ _ assms]
      by (simp add: hc)
  have c18: "(\<forall>m j. (\<forall>i<j. success_field (device m (reads m + i) 1) \<noteq> Inr 1)
                \<and> success_field (device m (reads m + j) 1) = Inr 1 \<longrightarrow>
            wait_success m = Some (Inr (), after_success j m))"
    using wait_success_succeeds by blast
  have c19: "(\<forall>m. (\<forall>i. success_field (device m (reads m + i) 1) \<noteq> Inr 1) \<longrightarrow>
            wait_success m = None)"
    using wait_success_never by blast
  from c1 c2 c3 c4 c5 c6 c7 c8 c9 c10 c11 c12 c13 c14 c15 c16 c17 c18 c19
  show ?thesis unfolding Let_def by (intro conjI)
qed

text \<open>
  The witness of C7: \<^verbatim>\<open>stop\<close> and \<^verbatim>\<open>release\<close> on a device whose status word is
  always \<^verbatim>\<open>0xC200\<close> (accepted, success, status MaintenanceRequired).
\<close>

theorem maintenance_not_handled_witness:
  "status_field (device (fresh (\<lambda>k a. 0xC200)) (reads (fresh (\<lambda>k a. 0xC200))) 1)
     = Inr STATUS_MAINTENANCE
   \<and> stop (fresh (\<lambda>k a. 0xC200)) =
       (Inr (),
        (fresh (\<lambda>k a. 0xC200))\<lparr>reads := 1, status := 2,
          log := [ReadInputRegisters 1 1 [0xC200],
                  WriteRegister 0x0801 0x0800, Sleep 100, WriteRegister 0x0801 0x8800]\<rparr>)
   \<and> release (fresh (\<lambda>k a. 0xC200)) =
       Some (Inr (),
        (fresh (\<lambda>k a. 0xC200))\<lparr>reads := 3, status := 2,
          log := [ReadInputRegisters 1 1 [0xC200],
                  WriteRegisters 0x0801 [0x0300, 0, 0, 0], Sleep 50,
                  WriteRegisters 0x0801 [0x8300, 0, 0, 0],
                  ReadInputRegisters 1 1 [0xC200], Sleep 1000,
                  ReadInputRegisters 1 1 [0xC200]]\<rparr>)"
proof -
  let ?g = "fresh (\<lambda>k a. 0xC200)"
  let ?g1 = "?g\<lparr>reads := Suc (reads ?g), status := STATUS_MAINTENANCE,
                 log := log ?g @ [ReadInputRegisters 1 1 [device ?g (reads ?g) 1]]\<rparr>"
  have s: "status_field (device ?g (reads ?g) 1) = Inr STATUS_MAINTENANCE"
    by (simp add: fresh_def status_field_C200 STATUS_MAINTENANCE_def)
  note t = maintenance_not_handled [OF s, unfolded Let_def]
  note t5 = t [THEN conjunct2, THEN conjunct2, THEN conjunct2, THEN conjunct2]
  note t9 = t5 [THEN conjunct2, THEN conjunct2, THEN conjunct2, THEN conjunct2]
  note t18 = t9 [THEN conjunct2, THEN conjunct2, THEN conjunct2, THEN conjunct2,
      THEN conjunct2, THEN conjunct2, THEN conjunct2, THEN conjunct2, THEN conjunct2]
  from t5 [THEN conjunct1] have 1: "stop ?g =
       (Inr (),
        ?g\<lparr>reads := 1, status := 2,
          log := [ReadInputRegisters 1 1 [0xC200],
                  WriteRegister 0x0801 0x0800, Sleep 100, WriteRegister 0x0801 0x8800]\<rparr>)"
    by (simp add: fresh_def STATUS_MAINTENANCE_def)
  let ?m = "after_sleep 1000 (after_polls (0 + 1) []
              (after_command [0x0300, 0, 0, 0] [0x8300, 0, 0, 0] ?g1))"
  from t9 [THEN conjunct1] have l: "(0::nat) < 1000
            \<and> (\<forall>i<0. device ?g (reads ?g + 1 + i) 1 \<le> 0x7FFF)
            \<and> 0x7FFF < device ?g (reads ?g + 1 + 0) 1 \<longrightarrow>
        release ?g = wait_success ?m"
    by blast
  from t18 [THEN conjunct1] have w:
    "(\<forall>i<0. success_field (device ?m (reads ?m + i) 1) \<noteq> Inr 1)
            \<and> success_field (device ?m (reads ?m + 0) 1) = Inr 1 \<longrightarrow>
        wait_success ?m = Some (Inr (), after_success 0 ?m)"
    by blast
  from l have "release ?g = wait_success ?m" by (simp add: fresh_def)
  moreover from w have "wait_success ?m = Some (Inr (), after_success 0 ?m)"
    by (simp add: fresh_def success_field_C200)
  ultimately have "release ?g = Some (Inr (), after_success 0 ?m)" by simp
  then have 2: "release ?g =
       Some (Inr (),
        ?g\<lparr>reads := 3, status := 2,
          log := [ReadInputRegisters 1 1 [0xC200],
                  WriteRegisters 0x0801 [0x0300, 0, 0, 0], Sleep 50,
                  WriteRegisters 0x0801 [0x8300, 0, 0, 0],
                  ReadInputRegisters 1 1 [0xC200], Sleep 1000,
                  ReadInputRegisters 1 1 [0xC200]]\<rparr>)"
    by (simp add: after_defs fresh_def STATUS_MAINTENANCE_def status_reads_def
        success_polls_def)
  from s 1 2 show ?thesis by blast
qed

section \<open>The type checks\<close>

text \<open>
  The type check of \<^verbatim>\<open>set_position\<close> formats the same name, which is its parameter:
  there the exception with the message is raised.
\<close>

lemma set_position_type_error:
  assumes "\<not> isinstance_int v"
  shows "set_position v g =
     Some (Inl (PyException
       (''Target position requires an int, the variable you entered is of type ''
          @ type_repr v)), g)"
  using assms
  by (simp add: set_position_def pio_raise_def type_check_error_def lookup_name_def)

text \<open>
  C9: for a force that is not an int, \<^verbatim>\<open>grip\<close> raises NameError for the name
  \<^verbatim>\<open>target_position\<close>, which the message of its type check formats and which is not
  defined there; so does the constructor for an address that is not a string. The
  exception with the descriptive message is never raised for these arguments, and
  nothing is read or written.
\<close>

theorem type_check_name_error:
  "(\<not> isinstance_int force \<longrightarrow>
      grip force g = Some (Inl (NameError ''target_position''), g)
      \<and> (\<forall>msg g'. grip force g \<noteq> Some (Inl (PyException msg), g')))
   \<and> (\<not> isinstance_str ip_adress \<longrightarrow>
      init ip_adress g = (Inl (NameError ''target_position''), g)
      \<and> (\<forall>msg g'. init ip_adress g \<noteq> (Inl (PyException msg), g')))"
  by (simp add: grip_def init_def pio_raise_def io_raise_def type_check_error_def
      lookup_name_def module_names_def)

text \<open>The witness of C9: \<^verbatim>\<open>grip('2')\<close> and \<^verbatim>\<open>Gripper(5)\<close>.\<close>

theorem type_check_name_error_witness:
  "\<not> isinstance_int (PyStr ''2'') \<and> \<not> isinstance_str (PyInt 5)
   \<and> grip (PyStr ''2'') (fresh (\<lambda>k a. 0)) =
       Some (Inl (NameError ''target_position''), fresh (\<lambda>k a. 0))
   \<and> init (PyInt 5) (fresh (\<lambda>k a. 0)) =
       (Inl (NameError ''target_position''), fresh (\<lambda>k a. 0))"
  using type_check_name_error [of "PyStr ''2''" "fresh (\<lambda>k a. 0)" "PyInt 5"]
  by simp

section \<open>The position codec\<close>

text \<open>
  C8: for every integer percentage from 0 to 100, encoding it (the position in
  millimetres \<^verbatim>\<open>(100 - percentage) / 100 * POSITION_MAX\<close>, packed as a big-endian
  single and split in two 16-bit words) and decoding the two words (the float they
  hold, \<^verbatim>\<open>(POSITION_MAX - mm) / POSITION_MAX * 100\<close> truncated toward zero) gives the
  percentage back within 1.
\<close>

theorem position_round_trip:
  assumes "0 \<le> percentage" and "percentage \<le> 100"
  shows "\<exists>hi lo p. encoded_position percentage = Inr (hi, lo)
     \<and> decoded_position hi lo = Inr p \<and> \<bar>p - percentage\<bar> \<le> 1"
proof -
  from round_trip_all [OF assms] obtain mm n p
    where m: "position_mm_of percentage = Inr mm" and n: "pack_f_unpack_I mm = Inr n"
      and l: "n < 2 ^ 32"
      and d: "decoded_position (n div 2 ^ 16) (n mod 2 ^ 16) = Inr p"
      and w: "\<bar>p - percentage\<bar> \<le> 1"
    unfolding round_trip_within_def by blast
  from m n l have "encoded_position percentage = Inr (n div 2 ^ 16, n mod 2 ^ 16)"
    by (rule encoded_position_bits)
  with d w show ?thesis by blast
qed

text \<open>The witness of C8: 51 percent is encoded as \<^verbatim>\<open>0x419F7A48\<close> and decoded as 50.\<close>

theorem position_round_trip_witness:
  "(0::int) \<le> 51 \<and> (51::int) \<le> 100
   \<and> encoded_position 51 = Inr (0x419F, 0x7A48)
   \<and> decoded_position 0x419F 0x7A48 = Inr 50"
proof -
  have f: "(0::int) \<le> 51" "(51::int) \<le> 100" by simp_all
  from position_round_trip [OF f] obtain hi lo p
    where e: "encoded_position 51 = Inr (hi, lo)" and d: "decoded_position hi lo = Inr p"
    by blast
  have "encoded_position 51 = Inr (0x419F, 0x7A48)"
    using encoded_position_bits [OF position_51(1,2)] by simp
  with e d position_51(3) f show ?thesis by simp
qed

section \<open>Moving to a position\<close>

text \<open>
  C4: for an integer target from 0 to 100, after the error check, \<^verbatim>\<open>set_position\<close>
  is \<^verbatim>\<open>grip()\<close>, that is \<^verbatim>\<open>grip(4)\<close>, when the target is below 3, and
  \<^verbatim>\<open>release()\<close> when it is above 97. The two float words \<open>hi\<close> and \<open>lo\<close> that it
  computes are those of the table: the high and the low 16 bits of the position
  packed as a single, which from 3 to 97 is the single nearest to
  \<open>(100 - target) / 100 \<times> POSITION_MAX\<close>. From 3 to 97 it writes the payload
  \<^verbatim>\<open>[0x0500, 0, hi, lo]\<close>, sleeps 50 ms, writes \<^verbatim>\<open>[0x8500, 0, hi, lo]\<close>, and then only
  waits for acceptance: it returns normally right after the first read of the status
  word above \<^verbatim>\<open>0x7FFF\<close>, whatever the success bit of the words it has read, or, when
  1000 reads are not above \<^verbatim>\<open>0x7FFF\<close>, right after the soft reset.
\<close>

theorem set_position_dispatch:
  assumes "0 \<le> t" and "t \<le> 100"
  shows "fst (handle_errors g) = Inr ()
   \<and> (t < 3 \<longrightarrow> set_position (PyInt t) g = grip (PyInt 4) (snd (handle_errors g)))
   \<and> (97 < t \<longrightarrow> set_position (PyInt t) g = release (snd (handle_errors g)))
   \<and> encoded_position t = Inr (position_words_table ! nat t)
   \<and> (\<exists>mm n. position_mm_of t = Inr mm \<and> pack_f_unpack_I mm = Inr n \<and> n < 2 ^ 32
        \<and> position_words_table ! nat t = (n div 2 ^ 16, n mod 2 ^ 16)
        \<and> (3 \<le> t \<and> t \<le> 97 \<longrightarrow>
             \<bar>single_value n - of_int (100 - t) / 100 * (40683074951171875 / 1000000000000000)\<bar>
               \<le> single_half_ulp n))
   \<and> (\<exists>s. status_field (device g (reads g) 1) = Inr s
        \<and> (\<forall>hi lo k. 3 \<le> t \<and> t \<le> 97 \<and> position_words_table ! nat t = (hi, lo)
              \<and> k < 1000
              \<and> (\<forall>i<k. device g (reads g + 1 + i) 1 \<le> 0x7FFF)
              \<and> 0x7FFF < device g (reads g + 1 + k) 1 \<longrightarrow>
            set_position (PyInt t) g =
              Some (Inr (),
                g\<lparr>reads := reads g + k + 2, status := s,
                  log := log g @
                    ReadInputRegisters 1 1 [device g (reads g) 1] # recovery_events s @
                    [WriteRegisters 0x0801 [0x0500, 0, int hi, int lo],
                     Sleep 50,
                     WriteRegisters 0x0801 [0x8500, 0, int hi, int lo]] @
                    status_reads (device g) (reads g + 1) (k + 1)\<rparr>))
        \<and> (\<forall>hi lo. 3 \<le> t \<and> t \<le> 97 \<and> position_words_table ! nat t = (hi, lo)
              \<and> (\<forall>i<1000. device g (reads g + 1 + i) 1 \<le> 0x7FFF) \<longrightarrow>
            set_position (PyInt t) g =
              Some (Inr (),
                g\<lparr>reads := reads g + 1001, status := s,
                  log := log g @
                    ReadInputRegisters 1 1 [device g (reads g) 1] # recovery_events s @
                    [WriteRegisters 0x0801 [0x0500, 0, int hi, int lo],
                     Sleep 50,
                     WriteRegisters 0x0801 [0x8500, 0, int hi, int lo]] @
                    status_reads (device g) (reads g + 1) 1000 @
                    [WriteRegister 0x1120 1, Sleep 100, WriteRegister 0x1120 0, Sleep 100,
                     WriteRegister 0x0801 0x0100, Sleep 100,
                     WriteRegister 0x0801 0x8100]\<rparr>)))"
proof -
  obtain s where s: "status_field (device g (reads g) 1) = Inr s"
    using status_field_total by blast
  note h = handle_errors_check [OF s]
  have 1: "fst (handle_errors g) = Inr ()" by (simp add: h)
  have 2: "t < 3 \<longrightarrow> set_position (PyInt t) g = grip (PyInt 4) (snd (handle_errors g))"
    using assms by (simp add: set_position_def pio_bind_def h)
  have 3: "97 < t \<longrightarrow> set_position (PyInt t) g = release (snd (handle_errors g))"
    using assms by (simp add: set_position_def pio_bind_def h)
  note 4 = encoded_position_table [OF assms]
  note 5 = move_words_all [OF assms, unfolded move_words_within_def]
  have 6: "set_position (PyInt t) g =
              Some (Inr (),
                g\<lparr>reads := reads g + k + 2, status := s,
                  log := log g @
                    ReadInputRegisters 1 1 [device g (reads g) 1] # recovery_events s @
                    [WriteRegisters 0x0801 [0x0500, 0, int hi, int lo],
                     Sleep 50,
                     WriteRegisters 0x0801 [0x8500, 0, int hi, int lo]] @
                    status_reads (device g) (reads g + 1) (k + 1)\<rparr>)"
    if "3 \<le> t \<and> t \<le> 97 \<and> position_words_table ! nat t = (hi, lo)
              \<and> k < 1000
              \<and> (\<forall>i<k. device g (reads g + 1 + i) 1 \<le> 0x7FFF)
              \<and> 0x7FFF < device g (reads g + 1 + k) 1" for hi lo k
  proof -
    from 4 that have e: "encoded_position (int_of (PyInt t)) = Inr (hi, lo)" by simp
    have "set_position (PyInt t) g =
       Some (Inr (), after_polls (Suc k) []
         (after_command [0x0500, 0, int hi, int lo] [0x8500, 0, int hi, int lo]
            (after_check s g)))"
      using that by (intro set_position_mid_accepted [OF _ _ _ s e]) simp_all
    then show ?thesis
      by (simp add: after_defs update_order add.commute add.left_commute)
  qed
  have 7: "set_position (PyInt t) g =
              Some (Inr (),
                g\<lparr>reads := reads g + 1001, status := s,
                  log := log g @
                    ReadInputRegisters 1 1 [device g (reads g) 1] # recovery_events s @
                    [WriteRegisters 0x0801 [0x0500, 0, int hi, int lo],
                     Sleep 50,
                     WriteRegisters 0x0801 [0x8500, 0, int hi, int lo]] @
                    status_reads (device g) (reads g + 1) 1000 @
                    [WriteRegister 0x1120 1, Sleep 100, WriteRegister 0x1120 0, Sleep 100,
                     WriteRegister 0x0801 0x0100, Sleep 100,
                     WriteRegister 0x0801 0x8100]\<rparr>)"
    if "3 \<le> t \<and> t \<le> 97 \<and> position_words_table ! nat t = (hi, lo)
              \<and> (\<forall>i<1000. device g (reads g + 1 + i) 1 \<le> 0x7FFF)" for hi lo
  proof -
    from 4 that have e: "encoded_position (int_of (PyInt t)) = Inr (hi, lo)" by simp
    have "set_position (PyInt t) g =
       Some (Inr (), after_polls 1000 soft_reset_events
         (after_command [0x0500, 0, int hi, int lo] [0x8500, 0, int hi, int lo]
            (after_check s g)))"
      using that by (intro set_position_mid_timed_out [OF _ _ _ s e]) simp_all
    then show ?thesis
      by (simp add: after_defs soft_reset_events_def update_order add.commute
          add.left_commute)
  qed
  from s 6 7 have 8: "\<exists>s. status_field (device g (reads g) 1) = Inr s
        \<and> (\<forall>hi lo k. 3 \<le> t \<and> t \<le> 97 \<and> position_words_table ! nat t = (hi, lo)
              \<and> k < 1000
              \<and> (\<forall>i<k. device g (reads g + 1 + i) 1 \<le> 0x7FFF)
              \<and> 0x7FFF < device g (reads g + 1 + k) 1 \<longrightarrow>
            set_position (PyInt t) g =
              Some (Inr (),
                g\<lparr>reads := reads g + k + 2, status := s,
                  log := log g @
                    ReadInputRegisters 1 1 [device g (reads g) 1] # recovery_events s @
                    [WriteRegisters 0x0801 [0x0500, 0, int hi, int lo],
                     Sleep 50,
                     WriteRegisters 0x0801 [0x8500, 0, int hi, int lo]] @
                    status_reads (device g) (reads g + 1) (k + 1)\<rparr>))
        \<and> (\<forall>hi lo. 3 \<le> t \<and> t \<le> 97 \<and> position_words_table ! nat t = (hi, lo)
              \<and> (\<forall>i<1000. device g (reads g + 1 + i) 1 \<le> 0x7FFF) \<longrightarrow>
            set_position (PyInt t) g =
              Some (Inr (),
                g\<lparr>reads := reads g + 1001, status := s,
                  log := log g @
                    ReadInputRegisters 1 1 [device g (reads g) 1] # recovery_events s @
                    [WriteRegisters 0x0801 [0x0500, 0, int hi, int lo],
                     Sleep 50,
                     WriteRegisters 0x0801 [0x8500, 0, int hi, int lo]] @
                    status_reads (device g) (reads g + 1) 1000 @
                    [WriteRegister 0x1120 1, Sleep 100, WriteRegister 0x1120 0, Sleep 100,
                     WriteRegister 0x0801 0x0100, Sleep 100,
                     WriteRegister 0x0801 0x8100]\<rparr>))"
    by blast
  from 1 2 3 4 5 8 show ?thesis by (intro conjI)
qed

text \<open>
  The witness of C4: \<^verbatim>\<open>set_position(50)\<close> on a device that is ready and accepts at
  once, and \<^verbatim>\<open>set_position(97)\<close> on a device whose status word is always \<^verbatim>\<open>0x4300\<close>
  (success, ready, never accepted).
\<close>

theorem set_position_dispatch_witness:
  "(0::int) \<le> 50 \<and> (50::int) \<le> 100 \<and> (0::int) \<le> 97 \<and> (97::int) \<le> 100
   \<and> encoded_position 50 = Inr (0x41A2, 0xBB78)
   \<and> set_position (PyInt 50) (fresh (\<lambda>k a. 0x8300)) =
        Some (Inr (),
          (fresh (\<lambda>k a. 0x8300))
            \<lparr>reads := 2, status := 3,
             log := [ReadInputRegisters 1 1 [0x8300],
                     WriteRegisters 0x0801 [0x0500, 0, 0x41A2, 0xBB78],
                     Sleep 50,
                     WriteRegisters 0x0801 [0x8500, 0, 0x41A2, 0xBB78],
                     ReadInputRegisters 1 1 [0x8300]]\<rparr>)
   \<and> success_field 0x4300 = Inr 1
   \<and> set_position (PyInt 97) (fresh (\<lambda>k a. 0x4300)) =
        Some (Inr (),
          (fresh (\<lambda>k a. 0x4300))
            \<lparr>reads := 1001, status := 3,
             log := [ReadInputRegisters 1 1 [0x4300],
                     WriteRegisters 0x0801 [0x0500, 0, 0x3F9C, 0x3917],
                     Sleep 50,
                     WriteRegisters 0x0801 [0x8500, 0, 0x3F9C, 0x3917]] @
                    status_reads (\<lambda>k a. 0x4300) 1 1000 @
                    [WriteRegister 0x1120 1, Sleep 100, WriteRegister 0x1120 0, Sleep 100,
                     WriteRegister 0x0801 0x0100, Sleep 100,
                     WriteRegister 0x0801 0x8100]\<rparr>)"
proof -
  have f: "(0::int) \<le> 50" "(50::int) \<le> 100" and f': "(0::int) \<le> 97" "(97::int) \<le> 100"
    by simp_all
  have w: "position_words_table ! nat 50 = (0x41A2, 0xBB78)"
    and w': "position_words_table ! nat 97 = (0x3F9C, 0x3917)"
    by (simp_all add: position_words_table_def)
  let ?g = "fresh (\<lambda>k a. 0x8300)"
  note t = set_position_dispatch [OF f, of ?g]
  note t4 = t [THEN conjunct2, THEN conjunct2, THEN conjunct2]
  from t4 [THEN conjunct1] w have 1: "encoded_position 50 = Inr (0x41A2, 0xBB78)"
    by simp
  from t4 [THEN conjunct2, THEN conjunct2] obtain s
    where s: "status_field (device ?g (reads ?g) 1) = Inr s"
      and r: "(3::int) \<le> 50 \<and> (50::int) \<le> 97
              \<and> position_words_table ! nat 50 = (0x41A2, 0xBB78)
              \<and> (0::nat) < 1000
              \<and> (\<forall>i<0. device ?g (reads ?g + 1 + i) 1 \<le> 0x7FFF)
              \<and> 0x7FFF < device ?g (reads ?g + 1 + 0) 1 \<longrightarrow>
            set_position (PyInt 50) ?g =
              Some (Inr (),
                ?g\<lparr>reads := reads ?g + 0 + 2, status := s,
                  log := log ?g @
                    ReadInputRegisters 1 1 [device ?g (reads ?g) 1] # recovery_events s @
                    [WriteRegisters 0x0801 [0x0500, 0, int 0x41A2, int 0xBB78],
                     Sleep 50,
                     WriteRegisters 0x0801 [0x8500, 0, int 0x41A2, int 0xBB78]] @
                    status_reads (device ?g) (reads ?g + 1) (0 + 1)\<rparr>)"
    by blast
  from s have "s = 3" by (simp add: fresh_def status_field_8300)
  with r w have 2: "set_position (PyInt 50) ?g =
        Some (Inr (),
          ?g\<lparr>reads := 2, status := 3,
             log := [ReadInputRegisters 1 1 [0x8300],
                     WriteRegisters 0x0801 [0x0500, 0, 0x41A2, 0xBB78],
                     Sleep 50,
                     WriteRegisters 0x0801 [0x8500, 0, 0x41A2, 0xBB78],
                     ReadInputRegisters 1 1 [0x8300]]\<rparr>)"
    by (simp add: fresh_def recovery_events_def STATUS_ERROR_def STATUS_OOS_def
        status_reads_def)
  let ?h = "fresh (\<lambda>k a. 0x4300)"
  note u = set_position_dispatch [OF f', of ?h]
  from u [THEN conjunct2, THEN conjunct2, THEN conjunct2, THEN conjunct2, THEN conjunct2]
  obtain s' where s': "status_field (device ?h (reads ?h) 1) = Inr s'"
      and r': "(3::int) \<le> 97 \<and> (97::int) \<le> 97
              \<and> position_words_table ! nat 97 = (0x3F9C, 0x3917)
              \<and> (\<forall>i<1000. device ?h (reads ?h + 1 + i) 1 \<le> 0x7FFF) \<longrightarrow>
            set_position (PyInt 97) ?h =
              Some (Inr (),
                ?h\<lparr>reads := reads ?h + 1001, status := s',
                  log := log ?h @
                    ReadInputRegisters 1 1 [device ?h (reads ?h) 1] # recovery_events s' @
                    [WriteRegisters 0x0801 [0x0500, 0, int 0x3F9C, int 0x3917],
                     Sleep 50,
                     WriteRegisters 0x0801 [0x8500, 0, int 0x3F9C, int 0x3917]] @
                    status_reads (device ?h) (reads ?h + 1) 1000 @
                    [WriteRegister 0x1120 1, Sleep 100, WriteRegister 0x1120 0, Sleep 100,
                     WriteRegister 0x0801 0x0100, Sleep 100,
                     WriteRegister 0x0801 0x8100]\<rparr>)"
    by blast
  from s' have "s' = 3" by (simp add: fresh_def status_field_4300)
  with r' w' have 3: "set_position (PyInt 97) ?h =
        Some (Inr (),
          ?h\<lparr>reads := 1001, status := 3,
             log := [ReadInputRegisters 1 1 [0x4300],
                     WriteRegisters 0x0801 [0x0500, 0, 0x3F9C, 0x3917],
                     Sleep 50,
                     WriteRegisters 0x0801 [0x8500, 0, 0x3F9C, 0x3917]] @
                    status_reads (\<lambda>k a. 0x4300) 1 1000 @
                    [WriteRegister 0x1120 1, Sleep 100, WriteRegister 0x1120 0, Sleep 100,
                     WriteRegister 0x0801 0x0100, Sleep 100,
                     WriteRegister 0x0801 0x8100]\<rparr>)"
    by (simp add: fresh_def recovery_events_def STATUS_ERROR_def STATUS_OOS_def)
  from f f' 1 2 success_field_4300 3 show ?thesis by blast
qed

section \<open>Reading the position\<close>

lemma get_position_run:
  "get_position g =
     (decoded_position (device g (reads g) 3) (device g (reads g) 4),
      g\<lparr>reads := Suc (reads g),
        log := log g @
          [ReadInputRegisters 3 2 [device g (reads g) 3, device g (reads g) 4]]\<rparr>)"
proof -
  have "[3 ..< 3 + 2] = [3, Suc 3 :: nat]"
    by (simp add: upt_rec)
  then show ?thesis
    by (simp add: get_position_def read_input_registers_def py_index_def Let_def io_defs)
qed

lemma decoded_position_words:
  assumes "r0 < 2 ^ 16" and "r1 < 2 ^ 16"
  shows "decoded_position r0 r1 =
     (case pack_I_unpack_f (r0 * 2 ^ 16 + r1) of
        Inl e \<Rightarrow> Inl e
      | Inr position_mm \<Rightarrow>
          (case float_div (float_sub POSITION_MAX position_mm) POSITION_MAX of
             Inl e \<Rightarrow> Inl e
           | Inr q \<Rightarrow> int_of_float (float_mul q (Fin 100))))"
  by (simp add: decoded_position_def py_int2_words [OF assms])

text \<open>
  C10: \<^verbatim>\<open>get_position\<close> makes one read of the two registers at \<^verbatim>\<open>0x0003\<close> and
  returns \<^verbatim>\<open>int(((POSITION_MAX - mm) / POSITION_MAX) * 100)\<close> for the float \<open>mm\<close> that
  the two words hold, with no clamping and no range check. For the words of 50.0 mm,
  more than \<^verbatim>\<open>POSITION_MAX\<close>, it returns -22; for the words of -10.0 mm it returns
  124.
\<close>

theorem get_position_unclamped:
  "get_position g =
     (decoded_position (device g (reads g) 3) (device g (reads g) 4),
      g\<lparr>reads := Suc (reads g),
        log := log g @
          [ReadInputRegisters 3 2 [device g (reads g) 3, device g (reads g) 4]]\<rparr>)
   \<and> (\<forall>r0 r1. r0 < 2 ^ 16 \<and> r1 < 2 ^ 16 \<longrightarrow>
        decoded_position r0 r1 =
          (case pack_I_unpack_f (r0 * 2 ^ 16 + r1) of
             Inl e \<Rightarrow> Inl e
           | Inr position_mm \<Rightarrow>
               (case float_div (float_sub POSITION_MAX position_mm) POSITION_MAX of
                  Inl e \<Rightarrow> Inl e
                | Inr q \<Rightarrow> int_of_float (float_mul q (Fin 100)))))
   \<and> pack_I_unpack_f (0x4248 * 2 ^ 16 + 0) = Inr (Fin 50)
   \<and> decoded_position 0x4248 0 = Inr (- 22)
   \<and> pack_I_unpack_f (0xC120 * 2 ^ 16 + 0) = Inr (Fin (- 10))
   \<and> decoded_position 0xC120 0 = Inr 124"
proof -
  have "pack_I_unpack_f (0x4248 * 2 ^ 16 + 0) = Inr (Fin 50)"
    by (simp add: float_eval)
  moreover have "decoded_position 0x4248 0 = Inr (- 22)"
    by (simp add: position_eval)
  moreover have "pack_I_unpack_f (0xC120 * 2 ^ 16 + 0) = Inr (Fin (- 10))"
    by (simp add: float_eval)
  moreover have "decoded_position 0xC120 0 = Inr 124"
    by (simp add: position_eval)
  ultimately show ?thesis
    using get_position_run [of g] decoded_position_words by blast
qed

text \<open>The witness of C10: a device that reports 50.0 mm.\<close>

theorem get_position_unclamped_witness:
  "(0x4248::nat) < 2 ^ 16 \<and> (0::nat) < 2 ^ 16
   \<and> get_position (fresh (\<lambda>k a. if a = 3 then 0x4248 else 0)) =
       (Inr (- 22),
        (fresh (\<lambda>k a. if a = 3 then 0x4248 else 0))
          \<lparr>reads := 1, log := [ReadInputRegisters 3 2 [0x4248, 0]]\<rparr>)"
proof -
  let ?g = "fresh (\<lambda>k a. if a = 3 then 0x4248 else 0)"
  note u = get_position_unclamped [of ?g]
  from u have "get_position ?g =
     (decoded_position (device ?g (reads ?g) 3) (device ?g (reads ?g) 4),
      ?g\<lparr>reads := Suc (reads ?g),
        log := log ?g @
          [ReadInputRegisters 3 2 [device ?g (reads ?g) 3, device ?g (reads ?g) 4]]\<rparr>)"
    by blast
  moreover from u have "decoded_position 0x4248 0 = Inr (- 22)" by blast
  ultimately show ?thesis by (simp add: fresh_def)
qed

end
